(* ===== verification/JS_Prelude.thy ===== *)
theory JS_Prelude
  imports Complex_Main "HOL-Library.Stream" "HOL-Library.Signed_Division"
begin

text \<open>
  The part of JavaScript that \<^verbatim>\<open>script.js\<close> relies on, shared by every
  component theory.

  \<^item> An uncaught exception is a value: a computation that may throw has the type
    \<open>'a js\<close>, the sum \<open>jsError + 'a\<close>, and \<open>bindJs\<close> sequences two of them. The
    exceptions the program can raise are the \<^verbatim>\<open>TypeError\<close> of reading a
    property of \<^verbatim>\<open>undefined\<close> (a row index outside the grid) and the
    \<^verbatim>\<open>SyntaxError\<close> of \<^verbatim>\<open>JSON.parse\<close>.
  \<^item> An array is a list of optional values, \<open>None\<close> being a hole: reading past the
    end gives \<^verbatim>\<open>undefined\<close> (\<open>jsGet\<close>), writing past the end extends the array
    and leaves holes (\<open>jsSet\<close>).
  \<^item> A counted \<^verbatim>\<open>for\<close> loop whose body may throw is \<open>foldJs\<close> over the list
    of its counter values; \<open>foldJs_add\<close> and \<open>foldJs_add_count\<close> turn an
    accumulating loop into a sum.
  \<^item> \<^verbatim>\<open>%\<close> on integers truncates towards zero (\<open>jsRem\<close>).
  \<^item> \<^verbatim>\<open>Math.random()\<close> returns a number of the unit interval \<open>[0, 1)\<close>: the type
    \<open>urand\<close>. The sequence of its results is an explicit input of the model, a
    stream (\<open>rng\<close>) from which every call takes the head.
  \<^item> An integer that a template literal interpolates is printed in decimal
    (\<open>natToString\<close>), which is what JavaScript does below \<open>10\<^sup>2\<^sup>1\<close>; the counters
    and the pixel widths the script prints are far below. \<open>stringToNat\<close> and
    \<open>cssPixels\<close> read such a text back, as the browser reads a length in pixels.
  \<^item> A JavaScript number is modelled as a real (\<open>number\<close>): the rounding of IEEE
    754 doubles is not modelled. Where the program divides by zero and a real
    quotient would differ from the double's infinity or NaN, the component
    theories write the case out.
\<close>

section \<open>Fact collections\<close>

named_theorems js_returns \<open>when a computation that may throw returns a value\<close>
named_theorems wf_keeps \<open>operations that keep the grid well formed\<close>
named_theorems on_wf \<open>what an operation computes on a well-formed grid\<close>

section \<open>Uncaught exceptions as values\<close>

datatype jsError = TypeError | SyntaxError

type_synonym 'a js = "jsError + 'a"

type_synonym number = real

definition bindJs :: "'a js \<Rightarrow> ('a \<Rightarrow> 'b js) \<Rightarrow> 'b js" where
  "bindJs m f = (case m of Inl e \<Rightarrow> Inl e | Inr x \<Rightarrow> f x)"

fun foldJs :: "('b \<Rightarrow> 'a \<Rightarrow> 'b js) \<Rightarrow> 'b \<Rightarrow> 'a list \<Rightarrow> 'b js" where
  "foldJs f acc [] = Inr acc"
| "foldJs f acc (x # xs) = bindJs (f acc x) (\<lambda>acc'. foldJs f acc' xs)"

definition returns :: "'a js \<Rightarrow> bool" where
  "returns m = (case m of Inl e \<Rightarrow> False | Inr x \<Rightarrow> True)"

section \<open>Arrays with holes\<close>

type_synonym 'a jsArray = "'a option list"

definition jsGet :: "'a jsArray \<Rightarrow> nat \<Rightarrow> 'a option" where
  "jsGet xs i = (if i < length xs then xs ! i else None)"

definition jsSet :: "'a jsArray \<Rightarrow> nat \<Rightarrow> 'a \<Rightarrow> 'a jsArray" where
  "jsSet xs i v =
     (if i < length xs then xs[i := Some v]
      else xs @ replicate (i - length xs) None @ [Some v])"

definition dense :: "'a jsArray \<Rightarrow> bool" where
  "dense xs = list_all (\<lambda>c. c \<noteq> None) xs"

section \<open>Integer remainder\<close>

definition jsRem :: "int \<Rightarrow> int \<Rightarrow> int" where
  "jsRem a b = a smod b"

section \<open>The random source\<close>

typedef urand = "{x::real. 0 \<le> x \<and> x < 1}"
  by (rule exI [of _ 0]) simp

type_synonym rng = "urand stream"

definition mkRand :: "real \<Rightarrow> urand" where
  "mkRand x = Abs_urand (if 0 \<le> x \<and> x < 1 then x else 0)"

definition randomBelow :: "urand \<Rightarrow> nat \<Rightarrow> nat" where
  "randomBelow u n = nat \<lfloor>Rep_urand u * real n\<rfloor>"

section \<open>Integers as text\<close>

definition digitChar :: "nat \<Rightarrow> char" where
  "digitChar d = ''0123456789'' ! d"

fun natToString :: "nat \<Rightarrow> string" where
  "natToString n =
     (if n < 10 then [digitChar n] else natToString (n div 10) @ [digitChar (n mod 10)])"

declare natToString.simps [simp del]

definition digitValue :: "char \<Rightarrow> nat option" where
  "digitValue c =
     (let k = of_char c :: nat in if 48 \<le> k \<and> k \<le> 57 then Some (k - 48) else None)"

definition stringToNat :: "string \<Rightarrow> nat option" where
  "stringToNat s =
     (if s = [] then None
      else foldl (\<lambda>acc c. case (acc, digitValue c) of
                    (Some a, Some d) \<Rightarrow> Some (10 * a + d) | _ \<Rightarrow> None)
             (Some 0) s)"

definition cssPixels :: "string \<Rightarrow> nat option" where
  "cssPixels s =
     (if 2 \<le> length s \<and> drop (length s - 2) s = ''px'' then stringToNat (take (length s - 2) s)
      else None)"

section \<open>Lemmas: the exception monad\<close>

lemma bindJs_Inr [simp]: "bindJs (Inr x) f = f x"
  by (simp add: bindJs_def)

lemma bindJs_Inl [simp]: "bindJs (Inl e) f = Inl e"
  by (simp add: bindJs_def)

lemma bindJs_return [simp]: "bindJs m Inr = m"
  by (cases m) simp_all

lemma bindJs_assoc: "bindJs (bindJs m f) g = bindJs m (\<lambda>x. bindJs (f x) g)"
  by (cases m) simp_all

lemma bindJs_Inr_iff [js_returns]:
  "bindJs m f = Inr y \<longleftrightarrow> (\<exists>x. m = Inr x \<and> f x = Inr y)"
  by (cases m) simp_all

lemma bindJs_Inl_iff:
  "bindJs m f = Inl e \<longleftrightarrow> m = Inl e \<or> (\<exists>x. m = Inr x \<and> f x = Inl e)"
  by (cases m) simp_all

lemma bindJs_cong [fundef_cong]:
  assumes "m = m'" and "\<And>x. m' = Inr x \<Longrightarrow> f x = f' x"
  shows "bindJs m f = bindJs m' f'"
  using assms by (cases m') simp_all

text \<open>Case analysis on the first of two sequenced computations.\<close>

lemma bindJs_cases:
  obtains (throws) err where "c = Inl err" "bindJs c k = Inl err"
  | (returned) v where "c = Inr v" "bindJs c k = k v"
  by (cases c) simp_all

lemma returns_Inr [simp]: "returns (Inr x)"
  by (simp add: returns_def)

lemma returns_Inl [simp]: "\<not> returns (Inl e)"
  by (simp add: returns_def)

lemma returns_iff: "returns m \<longleftrightarrow> (\<exists>x. m = Inr x)"
  by (cases m) simp_all

lemma returns_bindJs [simp]:
  "returns (bindJs m f) \<longleftrightarrow> (\<exists>x. m = Inr x \<and> returns (f x))"
  by (cases m) simp_all

section \<open>Lemmas: loops\<close>

lemma foldJs_append [simp]:
  "foldJs f acc (xs @ ys) = bindJs (foldJs f acc xs) (\<lambda>acc'. foldJs f acc' ys)"
  by (induction xs arbitrary: acc) (simp_all add: bindJs_assoc)

lemma foldJs_cong [fundef_cong]:
  assumes "xs = ys" and "acc = acc'" and "\<And>a x. x \<in> set ys \<Longrightarrow> f a x = g a x"
  shows "foldJs f acc xs = foldJs g acc' ys"
  using assms by (induction ys arbitrary: xs acc acc') (auto intro: bindJs_cong)

text \<open>A loop whose body never throws is a plain left fold.\<close>

lemma foldJs_total:
  assumes "\<And>a x. x \<in> set xs \<Longrightarrow> f a x = Inr (g a x)"
  shows "foldJs f acc xs = Inr (foldl g acc xs)"
  using assms by (induction xs arbitrary: acc) simp_all

text \<open>A loop that keeps an invariant of its accumulator and never throws under it.\<close>

lemma foldJs_invariant:
  assumes "P acc"
    and "\<And>a x. x \<in> set xs \<Longrightarrow> P a \<Longrightarrow> \<exists>a'. f a x = Inr a' \<and> P a'"
  shows "\<exists>r. foldJs f acc xs = Inr r \<and> P r"
  using assms
proof (induction xs arbitrary: acc)
  case Nil
  then show ?case by simp
next
  case (Cons x xs)
  from Cons.prems obtain a' where a': "f acc x = Inr a'" "P a'"
    by (meson list.set_intros(1))
  from Cons.IH [OF a'(2)] Cons.prems(2) obtain r where "foldJs f a' xs = Inr r" "P r"
    by (meson list.set_intros(2))
  with a' show ?case by simp
qed

text \<open>
  A loop whose body ignores the counter and, under an invariant, returns
  \<open>step\<close> of its state: the result is \<open>step\<close> iterated once per counter value.
\<close>

lemma foldJs_iterate:
  assumes "P st"
    and "\<And>a. P a \<Longrightarrow> f a = Inr (step a) \<and> P (step a)"
  shows "foldJs (\<lambda>a x. f a) st xs = Inr ((step ^^ length xs) st) \<and> P ((step ^^ length xs) st)"
  using assms(1)
proof (induction xs arbitrary: st)
  case Nil
  then show ?case by simp
next
  case (Cons x xs)
  from assms(2) [OF Cons.prems] have "f st = Inr (step st)" and "P (step st)"
    by simp_all
  with Cons.IH [of "step st"] show ?case
    by (simp add: funpow_swap1)
qed

text \<open>A quantity that no step increases is not increased by any number of steps.\<close>

lemma funpow_keeps_and_bounds:
  fixes m :: "'a \<Rightarrow> 'b::preorder"
  assumes "P st"
    and "\<And>a. P a \<Longrightarrow> P (step a) \<and> m (step a) \<le> m a"
  shows "P ((step ^^ n) st) \<and> m ((step ^^ n) st) \<le> m st"
proof (induction n)
  case 0
  show ?case using assms(1) by simp
next
  case (Suc n)
  from assms(2) [of "(step ^^ n) st"] Suc
  have "P (step ((step ^^ n) st))" and "m (step ((step ^^ n) st)) \<le> m ((step ^^ n) st)"
    by simp_all
  with Suc show ?case
    by (auto intro: order_trans)
qed

text \<open>An accumulating loop, \<^verbatim>\<open>acc += w(x)\<close>, is a sum.\<close>

lemma foldJs_add:
  fixes acc :: "'n::monoid_add"
  assumes "\<And>a x. x \<in> set xs \<Longrightarrow> f a x = Inr (a + w x)"
  shows "foldJs f acc xs = Inr (acc + sum_list (map w xs))"
  using assms by (induction xs arbitrary: acc) (simp_all add: add.assoc)

text \<open>The same with a second accumulator that counts the iterations.\<close>

lemma foldJs_add_count:
  fixes acc :: "'n::monoid_add" and cnt :: nat
  assumes "\<And>a c x. x \<in> set xs \<Longrightarrow> f (a, c) x = Inr (a + w x, Suc c)"
  shows "foldJs f (acc, cnt) xs = Inr (acc + sum_list (map w xs), cnt + length xs)"
  using assms by (induction xs arbitrary: acc cnt) (simp_all add: add.assoc)

text \<open>Two nested accumulating loops are a double sum.\<close>

lemma foldJs_add_nested:
  fixes acc :: "'n::monoid_add"
  assumes "\<And>a i j. i \<in> set xs \<Longrightarrow> j \<in> set ys \<Longrightarrow> f a i j = Inr (a + w i j)"
  shows "foldJs (\<lambda>a i. foldJs (\<lambda>b j. f b i j) a ys) acc xs =
         Inr (acc + (\<Sum>i\<leftarrow>xs. \<Sum>j\<leftarrow>ys. w i j))"
proof (rule foldJs_add)
  fix a i assume "i \<in> set xs"
  then show "foldJs (\<lambda>b j. f b i j) a ys = Inr (a + (\<Sum>j\<leftarrow>ys. w i j))"
    by (intro foldJs_add assms)
qed

lemma foldJs_add_count_nested:
  fixes acc :: "'n::monoid_add" and cnt :: nat
  assumes "\<And>a c i j. i \<in> set xs \<Longrightarrow> j \<in> set ys \<Longrightarrow> f (a, c) i j = Inr (a + w i j, Suc c)"
  shows "foldJs (\<lambda>a i. foldJs (\<lambda>b j. f b i j) a ys) (acc, cnt) xs =
         Inr (acc + (\<Sum>i\<leftarrow>xs. \<Sum>j\<leftarrow>ys. w i j), cnt + length xs * length ys)"
  using assms
proof (induction xs arbitrary: acc cnt)
  case Nil
  then show ?case by simp
next
  case (Cons i xs)
  have "foldJs (\<lambda>b j. f b i j) (acc, cnt) ys =
        Inr (acc + (\<Sum>j\<leftarrow>ys. w i j), cnt + length ys)"
    by (rule foldJs_add_count) (simp add: Cons.prems)
  then show ?case
    using Cons.IH [of "acc + (\<Sum>j\<leftarrow>ys. w i j)" "cnt + length ys"] Cons.prems
    by (simp add: add.assoc)
qed

lemma sum_list_product:
  "(\<Sum>i\<leftarrow>xs. \<Sum>j\<leftarrow>ys. w i j) = (\<Sum>s\<leftarrow>List.product xs ys. w (fst s) (snd s))"
  by (induction xs) (simp_all add: comp_def)

text \<open>Two sums over the same set whose summands differ at two points only.\<close>

lemma sum_differ_at_two:
  fixes f f' :: "'a \<Rightarrow> 'n::ab_group_add"
  assumes "finite S" and "a \<in> S" and "b \<in> S" and "a \<noteq> b"
    and "\<And>t. t \<in> S \<Longrightarrow> t \<noteq> a \<Longrightarrow> t \<noteq> b \<Longrightarrow> f' t = f t"
  shows "sum f' S - sum f S = (f' a - f a) + (f' b - f b)"
proof -
  let ?R = "S - {a} - {b}"
  have b: "b \<in> S - {a}" using assms by simp
  have split: "\<And>h :: 'a \<Rightarrow> 'n. sum h S = h a + (h b + sum h ?R)"
    using assms(1,2) b by (simp add: sum.remove [of S a] sum.remove [of "S - {a}" b])
  have "sum f' ?R = sum f ?R"
    by (rule sum.cong) (auto intro: assms(5))
  then show ?thesis
    by (simp add: split [of f] split [of f'])
qed

lemma sum_differ_at_one:
  fixes f f' :: "'a \<Rightarrow> 'n::ab_group_add"
  assumes "finite S" and "a \<in> S"
    and "\<And>t. t \<in> S \<Longrightarrow> t \<noteq> a \<Longrightarrow> f' t = f t"
  shows "sum f' S - sum f S = f' a - f a"
proof -
  have "sum f' (S - {a}) = sum f (S - {a})"
    by (rule sum.cong) (auto intro: assms(3))
  then show ?thesis
    using assms(1,2) by (simp add: sum.remove [of S a])
qed

text \<open>A loop that pushes one computed element per iteration onto an array.\<close>

lemma foldJs_push:
  assumes "\<And>a x. x \<in> set xs \<Longrightarrow> f a x = Inr (a @ [v x])"
  shows "foldJs f acc xs = Inr (acc @ map v xs)"
  using assms by (induction xs arbitrary: acc) simp_all

text \<open>A loop that appends a list each round, and two nested loops that push.\<close>

lemma foldJs_append_each:
  assumes "\<And>a x. x \<in> set xs \<Longrightarrow> f a x = Inr (a @ w x)"
  shows "foldJs f acc xs = Inr (acc @ concat (map w xs))"
  using assms by (induction xs arbitrary: acc) simp_all

lemma map_product:
  "map f (List.product xs ys) = concat (map (\<lambda>x. map (\<lambda>y. f (x, y)) ys) xs)"
  by (induction xs) (simp_all add: comp_def)

lemma foldJs_push_nested:
  assumes "\<And>a i j. i \<in> set xs \<Longrightarrow> j \<in> set ys \<Longrightarrow> f a i j = Inr (a @ [v (i, j)])"
  shows "foldJs (\<lambda>a i. foldJs (\<lambda>b j. f b i j) a ys) acc xs = Inr (acc @ map v (List.product xs ys))"
proof -
  have "foldJs (\<lambda>a i. foldJs (\<lambda>b j. f b i j) a ys) acc xs =
        Inr (acc @ concat (map (\<lambda>i. map (\<lambda>j. v (i, j)) ys) xs))"
    by (rule foldJs_append_each) (intro foldJs_push assms)
  then show ?thesis
    by (simp add: map_product)
qed

text \<open>
  A loop that assigns the elements of an array of the right length one after the
  other, \<^verbatim>\<open>a[k] = v(k)\<close> for \<open>k\<close> from \<open>0\<close>, and the same loop on one row of an
  array of arrays, \<^verbatim>\<open>m[q][k] = v(k)\<close>.
\<close>

lemma foldJs_fill_prefix:
  assumes "P xs"
    and "\<And>a k. k < n \<Longrightarrow> P a \<Longrightarrow> f a k = Inr (a[k := v k]) \<and> P (a[k := v k])"
    and "m \<le> n" and "n \<le> length xs"
  shows "foldJs f xs [0..<m] = Inr (map v [0..<m] @ drop m xs) \<and> P (map v [0..<m] @ drop m xs)"
  using assms(3)
proof (induction m)
  case 0
  show ?case using assms(1) by simp
next
  case (Suc m)
  let ?a = "map v [0..<m] @ drop m xs"
  from Suc have m: "m < n" "m < length xs" and a: "foldJs f xs [0..<m] = Inr ?a" "P ?a"
    using assms(4) by simp_all
  have "?a[m := v m] = map v [0..<m] @ v m # drop (Suc m) xs"
    using m(2) by (simp add: list_update_append Cons_nth_drop_Suc [symmetric])
  with assms(2) [OF m(1) a(2)] a(1) show ?case
    by simp
qed

lemma foldJs_fill:
  assumes "P xs" and "length xs = n"
    and "\<And>a k. k < n \<Longrightarrow> P a \<Longrightarrow> f a k = Inr (a[k := v k]) \<and> P (a[k := v k])"
  shows "foldJs f xs [0..<n] = Inr (map v [0..<n])"
  using foldJs_fill_prefix [of P xs n f v n] assms by simp

lemma foldJs_fill_row:
  assumes "\<And>a k. k < n \<Longrightarrow> f a k = Inr (a[q := (a ! q)[k := v k]])"
    and "q < length rows" and "length (rows ! q) = n"
  shows "foldJs f rows [0..<n] = Inr (rows[q := map v [0..<n]])"
proof -
  have "foldJs f rows [0..<m] = Inr (rows[q := map v [0..<m] @ drop m (rows ! q)])" if "m \<le> n" for m
    using that
  proof (induction m)
    case 0
    show ?case by simp
  next
    case (Suc m)
    then have m: "m < n" "m < length (rows ! q)"
      using assms(3) by simp_all
    have "(map v [0..<m] @ drop m (rows ! q))[m := v m] =
          map v [0..<m] @ v m # drop (Suc m) (rows ! q)"
      using m(2) by (simp add: list_update_append Cons_nth_drop_Suc [symmetric])
    with Suc m(1) assms(2) show ?case
      by (simp add: assms(1))
  qed
  from this [of n] assms(3) show ?thesis by simp
qed

lemma foldl_add:
  fixes a :: "'n::monoid_add"
  shows "foldl (\<lambda>t x. t + w x) a xs = a + sum_list (map w xs)"
  by (induction xs arbitrary: a) (simp_all add: add.assoc)

lemma sum_list_nth: "sum_list (map f xs) = (\<Sum>i\<leftarrow>[0..<length xs]. f (xs ! i))"
proof -
  have "sum_list (map f xs) = sum_list (map f (map ((!) xs) [0..<length xs]))"
    by (simp only: map_nth)
  also have "\<dots> = (\<Sum>i\<leftarrow>[0..<length xs]. f (xs ! i))"
    by (simp only: map_map comp_def)
  finally show ?thesis .
qed

lemma sum_list_upt_sum: "sum_list (map f [0..<n]) = (\<Sum>i<n. f i)"
  by (simp add: sum_list_sum_nth lessThan_atLeast0 atLeast_upt [symmetric] interv_sum_list_conv_sum_set_nat)

lemma of_int_sum_list_map:
  "of_int (sum_list (map f xs)) = sum_list (map (\<lambda>x. of_int (f x)) xs)"
  by (induction xs) simp_all

lemma sum_list_const_int:
  "(\<And>x. x \<in> set xs \<Longrightarrow> f x = (c::int)) \<Longrightarrow> sum_list (map f xs) = int (length xs) * c"
  by (induction xs) (simp_all add: algebra_simps)

lemma sum_list_abs_le:
  "(\<And>x. x \<in> set xs \<Longrightarrow> \<bar>f x\<bar> \<le> (c::int)) \<Longrightarrow> \<bar>sum_list (map f xs)\<bar> \<le> int (length xs) * c"
proof (induction xs)
  case Nil
  then show ?case by simp
next
  case (Cons x xs)
  then have "\<bar>f x\<bar> \<le> c" and "\<bar>sum_list (map f xs)\<bar> \<le> int (length xs) * c"
    by simp_all
  then show ?case by (simp add: algebra_simps)
qed

section \<open>Lemmas: arrays\<close>

lemma jsGet_in [simp]: "i < length xs \<Longrightarrow> jsGet xs i = xs ! i"
  by (simp add: jsGet_def)

lemma jsGet_out [simp]: "length xs \<le> i \<Longrightarrow> jsGet xs i = None"
  by (simp add: jsGet_def)

lemma jsSet_in [simp]: "i < length xs \<Longrightarrow> jsSet xs i v = xs[i := Some v]"
  by (simp add: jsSet_def)

lemma length_jsSet: "length (jsSet xs i v) = max (length xs) (Suc i)"
  by (simp add: jsSet_def)

lemma jsGet_jsSet_same [simp]: "jsGet (jsSet xs i v) i = Some v"
  by (simp add: jsSet_def jsGet_def nth_append)

lemma jsGet_jsSet_other: "i \<noteq> j \<Longrightarrow> jsGet (jsSet xs i v) j = jsGet xs j"
  by (auto simp: jsSet_def jsGet_def nth_append)

lemma dense_nth: "dense xs \<Longrightarrow> i < length xs \<Longrightarrow> \<exists>v. xs ! i = Some v"
  by (auto simp: dense_def list_all_length)

lemma dense_jsSet_in [simp]: "dense xs \<Longrightarrow> i < length xs \<Longrightarrow> dense (jsSet xs i v)"
  by (auto simp: dense_def list_all_length nth_list_update)

lemma dense_replicate [simp]: "dense (replicate n (Some v))"
  by (simp add: dense_def list_all_length)

text \<open>A write past the end leaves a hole exactly when it skips an index.\<close>

lemma dense_jsSet_out:
  "dense xs \<Longrightarrow> length xs \<le> i \<Longrightarrow> dense (jsSet xs i v) \<longleftrightarrow> i = length xs"
  by (auto simp: dense_def jsSet_def list_all_iff)

section \<open>Lemmas: remainder\<close>

lemma jsRem_nonneg: "0 \<le> a \<Longrightarrow> 0 < b \<Longrightarrow> jsRem a b = a mod b"
  by (simp add: jsRem_def signed_modulo_int_def sgn_if)

lemma jsRem_neg: "a < 0 \<Longrightarrow> 0 < b \<Longrightarrow> jsRem a b = - ((- a) mod b)"
  by (simp add: jsRem_def signed_modulo_int_def sgn_if)

section \<open>Lemmas: the random source\<close>

lemma Rep_urand_ge [simp]: "0 \<le> Rep_urand u"
  using Rep_urand [of u] by simp

lemma Rep_urand_less [simp]: "Rep_urand u < 1"
  using Rep_urand [of u] by simp

lemma Rep_mkRand [simp]: "Rep_urand (mkRand x) = (if 0 \<le> x \<and> x < 1 then x else 0)"
  by (simp add: mkRand_def Abs_urand_inverse)

lemma randomBelow_less [simp]: "0 < n \<Longrightarrow> randomBelow u n < n"
proof -
  assume n: "0 < n"
  have "Rep_urand u * real n < real n"
    using n by simp
  then have "\<lfloor>Rep_urand u * real n\<rfloor> < int n"
    by (simp add: floor_less_iff)
  then show ?thesis
    by (simp add: randomBelow_def nat_less_iff)
qed

lemma sdrop_numerals [simp]: "sdrop 2 r = stl (stl r)" "sdrop 3 r = stl (stl (stl r))"
  by (simp_all add: numeral_2_eq_2 numeral_3_eq_3)

lemma sset_sdrop_subset: "sset (sdrop n r) \<subseteq> sset r"
  by (induction n arbitrary: r) (auto dest: stl_sset)

text \<open>Every index below \<open>n\<close> is drawn by some random number.\<close>

lemma randomBelow_onto: "k < n \<Longrightarrow> randomBelow (mkRand (real k / real n)) n = k"
  by (simp add: randomBelow_def)

section \<open>Lemmas: integers as text\<close>

lemma digit_cases: "d < 10 \<Longrightarrow> d \<in> {0, 1, 2, 3, 4, 5, 6, 7, 8, 9::nat}"
  by auto

lemma digitValue_digitChar [simp]: "d < 10 \<Longrightarrow> digitValue (digitChar d) = Some d"
  by (drule digit_cases) (auto simp: digitValue_def digitChar_def)

lemma digitChar_plain: "d < 10 \<Longrightarrow> digitChar d \<in> set ''0123456789''"
  by (drule digit_cases) (auto simp: digitChar_def)

lemma natToString_small: "n < 10 \<Longrightarrow> natToString n = [digitChar n]"
  by (subst natToString.simps) simp

lemma natToString_large:
  "10 \<le> n \<Longrightarrow> natToString n = natToString (n div 10) @ [digitChar (n mod 10)]"
  by (subst natToString.simps) simp

lemmas natToString_eval = natToString_small natToString_large digitChar_def

lemma natToString_nonempty [simp]: "natToString n \<noteq> []"
  by (subst natToString.simps) simp

text \<open>The text of an integer holds digits only, so no character of markup.\<close>

lemma natToString_digits: "set (natToString n) \<subseteq> set ''0123456789''"
proof (induction n rule: natToString.induct)
  case (1 n)
  show ?case
  proof (cases "n < 10")
    case True
    with digitChar_plain [of n] show ?thesis
      by (simp add: natToString_small)
  next
    case False
    with 1 digitChar_plain [of "n mod 10"] show ?thesis
      by (simp add: natToString_large)
  qed
qed

lemma stringToNat_snoc:
  "s \<noteq> [] \<Longrightarrow> stringToNat (s @ [c]) =
     (case (stringToNat s, digitValue c) of (Some a, Some d) \<Rightarrow> Some (10 * a + d) | _ \<Rightarrow> None)"
  by (simp add: stringToNat_def)

lemma stringToNat_natToString [simp]: "stringToNat (natToString n) = Some n"
proof (induction n rule: natToString.induct)
  case (1 n)
  show ?case
  proof (cases "n < 10")
    case True
    then show ?thesis
      by (simp add: natToString_small stringToNat_def)
  next
    case False
    with 1 show ?thesis
      by (simp add: natToString_large stringToNat_snoc)
  qed
qed

lemma natToString_inj: "natToString m = natToString n \<Longrightarrow> m = n"
  by (metis option.inject stringToNat_natToString)

lemma cssPixels_px [simp]: "cssPixels (natToString n @ ''px'') = Some n"
  by (simp add: cssPixels_def)

end
