(* ===== verification/Spin_Lattice.thy ===== *)
theory Spin_Lattice
  imports JS_Prelude
begin

text \<open>
  The lattice of \<^verbatim>\<open>script.js\<close>: the global \<^verbatim>\<open>spins\<close>, a \<^verbatim>\<open>gridSize\<close> by
  \<^verbatim>\<open>gridSize\<close> array of arrays of the strings \<^verbatim>\<open>'up'\<close> and \<^verbatim>\<open>'down'\<close>, with
  periodic boundaries.

  \<^item> \<open>spin\<close> is the two strings; a \<open>cell\<close> is what an array slot can hold, a spin
    or nothing (\<open>None\<close>: a hole, read as \<^verbatim>\<open>undefined\<close>); a \<open>grid\<close> is the array
    of rows.
  \<^item> \<open>readSpin\<close> and \<open>writeSpin\<close> are the expressions \<^verbatim>\<open>spins[i][j]\<close> and
    \<^verbatim>\<open>spins[i][j] = v\<close>: a row index outside the array throws, a column index
    outside the row reads \<^verbatim>\<open>undefined\<close> and, written, extends the row.
  \<^item> \<open>flipSite\<close> is the statement that the click handler and both update
    algorithms use to flip one site.
  \<^item> \<open>wrapIndex\<close> and \<open>neighbour\<close> are the index arithmetic of the periodic
    boundary, over the four \<open>directions\<close>.
  \<^item> \<open>wf_grid\<close> is the invariant the program keeps: \<^verbatim>\<open>gridSize\<close> rows of
    \<^verbatim>\<open>gridSize\<close> spins each, no hole. Under it no access throws.
  \<^item> \<open>spinAt\<close> is the abstract view of a grid, the value \<open>+1\<close> or \<open>-1\<close> of each
    site, over which the specifications of the other theories are stated.

  Indices are natural numbers: every index the program computes is a loop
  counter, the floor of a product of non-negative numbers, or a remainder whose
  dividend \<open>wrap_dividend_nonneg\<close> shows to be non-negative.
\<close>

section \<open>Data\<close>

datatype spin = Up | Down

type_synonym cell = "spin option"

type_synonym grid = "cell list list"

type_synonym site = "nat \<times> nat"

definition gridSize :: nat where
  "gridSize = 10"

definition initialSpins :: grid where
  "initialSpins = replicate gridSize (replicate gridSize (Some Up))"

section \<open>Operations\<close>

definition spinToValue :: "cell \<Rightarrow> int" where
  "spinToValue c = (if c = Some Up then 1 else - 1)"

definition flipped :: "cell \<Rightarrow> spin" where
  "flipped c = (if c = Some Up then Down else Up)"

definition readSpin :: "grid \<Rightarrow> nat \<Rightarrow> nat \<Rightarrow> cell js" where
  "readSpin g i j = (if i < length g then Inr (jsGet (g ! i) j) else Inl TypeError)"

definition writeSpin :: "grid \<Rightarrow> nat \<Rightarrow> nat \<Rightarrow> spin \<Rightarrow> grid js" where
  "writeSpin g i j v =
     (if i < length g then Inr (g[i := jsSet (g ! i) j v]) else Inl TypeError)"

definition flipSite :: "grid \<Rightarrow> nat \<Rightarrow> nat \<Rightarrow> grid js" where
  "flipSite g i j = bindJs (readSpin g i j) (\<lambda>c. writeSpin g i j (flipped c))"

definition directions :: "(int \<times> int) list" where
  "directions = [(0, 1), (1, 0), (0, - 1), (- 1, 0)]"

definition wrapIndex :: "nat \<Rightarrow> int \<Rightarrow> nat" where
  "wrapIndex i d = nat (jsRem (int i + d + int gridSize) (int gridSize))"

definition neighbour :: "site \<Rightarrow> int \<times> int \<Rightarrow> site" where
  "neighbour s d = (wrapIndex (fst s) (fst d), wrapIndex (snd s) (snd d))"

section \<open>The invariant and the abstract view\<close>

definition wf_grid :: "grid \<Rightarrow> bool" where
  "wf_grid g \<longleftrightarrow> length g = gridSize \<and> list_all (\<lambda>r. length r = gridSize \<and> dense r) g"

definition inGrid :: "site \<Rightarrow> bool" where
  "inGrid s \<longleftrightarrow> fst s < gridSize \<and> snd s < gridSize"

definition cellAt :: "grid \<Rightarrow> site \<Rightarrow> cell" where
  "cellAt g s = (case readSpin g (fst s) (snd s) of Inl e \<Rightarrow> None | Inr c \<Rightarrow> c)"

definition spinAt :: "grid \<Rightarrow> site \<Rightarrow> int" where
  "spinAt g s = spinToValue (cellAt g s)"

definition flipAt :: "site \<Rightarrow> grid \<Rightarrow> grid" where
  "flipAt s g = g[fst s := (g ! fst s)[snd s := Some (flipped (cellAt g s))]]"

definition sites :: "site list" where
  "sites = List.product [0..<gridSize] [0..<gridSize]"

definition uniform :: "spin \<Rightarrow> grid" where
  "uniform v = replicate gridSize (replicate gridSize (Some v))"

definition checkerboard :: grid where
  "checkerboard =
     map (\<lambda>i. map (\<lambda>j. Some (if even (i + j) then Up else Down)) [0..<gridSize]) [0..<gridSize]"

section \<open>Values of spins\<close>

lemma gridSize_pos [simp]: "0 < gridSize"
  by (simp add: gridSize_def)

lemma gridSize_neq0 [simp]: "gridSize \<noteq> 0"
  by (simp add: gridSize_def)

lemma gridSize_ge3: "3 \<le> gridSize"
  by (simp add: gridSize_def)

lemma gridSize_even: "even gridSize"
  by (simp add: gridSize_def)

lemma spinToValue_simps [simp]:
  "spinToValue (Some Up) = 1" "spinToValue (Some Down) = - 1" "spinToValue None = - 1"
  by (simp_all add: spinToValue_def)

lemma spinToValue_cases: "spinToValue c = 1 \<or> spinToValue c = - 1"
  by (simp add: spinToValue_def)

lemma spinToValue_abs [simp]: "\<bar>spinToValue c\<bar> = 1"
  by (simp add: spinToValue_def)

lemma spinToValue_square [simp]: "spinToValue c * spinToValue c = 1"
  by (simp add: spinToValue_def)

lemma flipped_simps [simp]:
  "flipped (Some Up) = Down" "flipped (Some Down) = Up" "flipped None = Up"
  by (simp_all add: flipped_def)

lemma flipped_flipped [simp]: "flipped (Some (flipped (Some v))) = v"
  by (cases v) simp_all

lemma spinToValue_flipped [simp]: "spinToValue (Some (flipped (Some v))) = - spinToValue (Some v)"
  by (cases v) simp_all

section \<open>Well-formed grids\<close>

lemma wf_gridI:
  assumes "length g = gridSize"
    and "\<And>i. i < gridSize \<Longrightarrow> length (g ! i) = gridSize"
    and "\<And>i j. i < gridSize \<Longrightarrow> j < gridSize \<Longrightarrow> g ! i ! j \<noteq> None"
  shows "wf_grid g"
  using assms by (auto simp: wf_grid_def dense_def list_all_length)

lemma wf_grid_length: "wf_grid g \<Longrightarrow> length g = gridSize"
  by (simp add: wf_grid_def)

lemma wf_grid_row: "wf_grid g \<Longrightarrow> i < gridSize \<Longrightarrow> length (g ! i) = gridSize"
  by (simp add: wf_grid_def list_all_length)

lemma wf_grid_dense: "wf_grid g \<Longrightarrow> i < gridSize \<Longrightarrow> dense (g ! i)"
  by (simp add: wf_grid_def list_all_length)

text \<open>
  From here on the invariant is used through these facts only: \<open>wf_grid_def\<close> is
  not unfolded again.
\<close>

declare wf_grid_length [simp] wf_grid_row [simp]

lemma wf_grid_cell:
  "wf_grid g \<Longrightarrow> i < gridSize \<Longrightarrow> j < gridSize \<Longrightarrow> \<exists>v. g ! i ! j = Some v"
  using dense_nth [OF wf_grid_dense, of g i j] by simp

lemma wf_grid_uniform [simp]: "wf_grid (uniform v)"
  by (rule wf_gridI) (simp_all add: uniform_def)

lemma initialSpins_uniform: "initialSpins = uniform Up"
  by (simp add: uniform_def initialSpins_def)

lemma wf_grid_initialSpins [simp]: "wf_grid initialSpins"
  by (simp add: initialSpins_uniform)

lemma wf_grid_checkerboard [simp]: "wf_grid checkerboard"
  by (rule wf_gridI) (simp_all add: checkerboard_def)

section \<open>Reading and writing\<close>

lemma readSpin_wf [on_wf]:
  "wf_grid g \<Longrightarrow> i < gridSize \<Longrightarrow> j < gridSize \<Longrightarrow> readSpin g i j = Inr (g ! i ! j)"
  by (simp add: readSpin_def)

lemma readSpin_throws: "length g \<le> i \<Longrightarrow> readSpin g i j = Inl TypeError"
  by (simp add: readSpin_def)

lemma readSpin_undefined:
  "i < length g \<Longrightarrow> length (g ! i) \<le> j \<Longrightarrow> readSpin g i j = Inr None"
  by (simp add: readSpin_def)

lemma writeSpin_wf [on_wf]:
  "wf_grid g \<Longrightarrow> i < gridSize \<Longrightarrow> j < gridSize \<Longrightarrow>
   writeSpin g i j v = Inr (g[i := (g ! i)[j := Some v]])"
  by (simp add: writeSpin_def)

lemma wf_grid_update [wf_keeps]:
  assumes "wf_grid g" and "i < gridSize" and "j < gridSize"
  shows "wf_grid (g[i := (g ! i)[j := Some v]])"
proof (rule wf_gridI)
  show "length (g[i := (g ! i)[j := Some v]]) = gridSize"
    using assms by simp
next
  fix k assume "k < gridSize"
  then show "length (g[i := (g ! i)[j := Some v]] ! k) = gridSize"
    using assms by (cases "k = i") simp_all
next
  fix k l assume "k < gridSize" "l < gridSize"
  then show "g[i := (g ! i)[j := Some v]] ! k ! l \<noteq> None"
    using assms wf_grid_cell [of g k l]
    by (cases "k = i"; cases "l = j") auto
qed

lemma cellAt_wf [on_wf]: "wf_grid g \<Longrightarrow> inGrid s \<Longrightarrow> cellAt g s = g ! fst s ! snd s"
  by (simp add: cellAt_def inGrid_def readSpin_wf)

lemma cellAt_Some: "wf_grid g \<Longrightarrow> inGrid s \<Longrightarrow> \<exists>v. cellAt g s = Some v"
  using wf_grid_cell [of g "fst s" "snd s"] by (simp add: cellAt_wf) (simp add: inGrid_def)

lemma readSpin_cellAt [on_wf]:
  "wf_grid g \<Longrightarrow> i < gridSize \<Longrightarrow> j < gridSize \<Longrightarrow> readSpin g i j = Inr (cellAt g (i, j))"
  by (simp add: cellAt_def readSpin_def)

lemma spinAt_abs [simp]: "\<bar>spinAt g s\<bar> = 1"
  by (simp add: spinAt_def)

lemma spinAt_square [simp]: "spinAt g s * spinAt g s = 1"
  by (simp add: spinAt_def)

lemma spinAt_cases: "spinAt g s = 1 \<or> spinAt g s = - 1"
  by (simp add: spinAt_def spinToValue_def)

lemma spinAt_real_abs [simp]: "\<bar>real_of_int (spinAt g s)\<bar> = 1"
  using spinAt_cases [of g s] by auto

lemma spinAt_real_square [simp]: "real_of_int (spinAt g s) * real_of_int (spinAt g s) = 1"
  using spinAt_cases [of g s] by auto

lemma cellAt_uniform [simp]: "inGrid s \<Longrightarrow> cellAt (uniform v) s = Some v"
  by (simp add: cellAt_def readSpin_def uniform_def inGrid_def)

lemma spinAt_uniform [simp]: "inGrid s \<Longrightarrow> spinAt (uniform v) s = spinToValue (Some v)"
  by (simp add: spinAt_def)

lemma cellAt_checkerboard [simp]:
  "inGrid s \<Longrightarrow> cellAt checkerboard s = Some (if even (fst s + snd s) then Up else Down)"
  by (simp add: cellAt_def readSpin_def checkerboard_def inGrid_def)

section \<open>Flipping a site\<close>

lemma flipSite_wf [on_wf]:
  "wf_grid g \<Longrightarrow> inGrid s \<Longrightarrow> flipSite g (fst s) (snd s) = Inr (flipAt s g)"
  by (simp add: flipSite_def flipAt_def inGrid_def readSpin_cellAt writeSpin_wf)

text \<open>Two well-formed grids with the same cells are the same grid.\<close>

lemma wf_grid_ext:
  assumes "wf_grid g" and "wf_grid g'" and "\<And>s. inGrid s \<Longrightarrow> cellAt g s = cellAt g' s"
  shows "g = g'"
proof (rule nth_equalityI)
  show "length g = length g'"
    using assms(1,2) by simp
next
  fix i assume "i < length g"
  with assms(1) have i: "i < gridSize" by simp
  show "g ! i = g' ! i"
  proof (rule nth_equalityI)
    show "length (g ! i) = length (g' ! i)"
      using assms(1,2) i by simp
  next
    fix j assume "j < length (g ! i)"
    with assms(1) i have "inGrid (i, j)" by (simp add: inGrid_def)
    from assms(3) [OF this] cellAt_wf [OF assms(1) this] cellAt_wf [OF assms(2) this]
    show "g ! i ! j = g' ! i ! j" by simp
  qed
qed

lemma wf_grid_flipAt [wf_keeps]: "wf_grid g \<Longrightarrow> inGrid s \<Longrightarrow> wf_grid (flipAt s g)"
  by (simp add: flipAt_def inGrid_def wf_grid_update)

lemma cellAt_flipAt:
  assumes "wf_grid g" and "inGrid s" and "inGrid t"
  shows "cellAt (flipAt s g) t = (if t = s then Some (flipped (cellAt g s)) else cellAt g t)"
proof -
  have "cellAt (flipAt s g) t = flipAt s g ! fst t ! snd t"
    using assms by (simp add: cellAt_wf wf_grid_flipAt)
  also have "\<dots> = (if t = s then Some (flipped (cellAt g s)) else g ! fst t ! snd t)"
    using assms by (cases "fst t = fst s"; cases "snd t = snd s")
      (auto simp: flipAt_def inGrid_def prod_eq_iff)
  finally show ?thesis
    using assms by (simp add: cellAt_wf)
qed

lemma spinAt_flipAt:
  assumes "wf_grid g" and "inGrid s" and "inGrid t"
  shows "spinAt (flipAt s g) t = (if t = s then - spinAt g s else spinAt g t)"
proof -
  from cellAt_Some [OF assms(1,2)] obtain v where "cellAt g s = Some v" ..
  then show ?thesis
    using assms by (simp add: spinAt_def cellAt_flipAt)
qed

lemma flipAt_flipAt:
  assumes "wf_grid g" and "inGrid s"
  shows "flipAt s (flipAt s g) = g"
proof -
  from cellAt_Some [OF assms] obtain v where v: "cellAt g s = Some v" ..
  have c: "cellAt (flipAt s g) s = Some (flipped (Some v))"
    using assms v by (simp add: cellAt_flipAt)
  have "g ! fst s ! snd s = Some v"
    using assms v by (simp add: cellAt_wf)
  then have e: "(g ! fst s)[snd s := Some v] = g ! fst s"
    by (metis list_update_id)
  show ?thesis
    using assms unfolding flipAt_def [of s "flipAt s g"] c
    by (simp add: flipAt_def inGrid_def e)
qed

lemma flipSite_throws: "length g \<le> i \<Longrightarrow> flipSite g i j = Inl TypeError"
  by (simp add: flipSite_def readSpin_def)

lemma flipSite_extends:
  assumes "i < length g" and "length (g ! i) \<le> j"
  shows "flipSite g i j = Inr (g[i := g ! i @ replicate (j - length (g ! i)) None @ [Some Up]])"
  using assms by (simp add: flipSite_def readSpin_def writeSpin_def jsSet_def)

section \<open>Periodic boundaries\<close>

lemma wrap_dividend_nonneg: "- 1 \<le> d \<Longrightarrow> 0 \<le> int i + d + int gridSize"
  using gridSize_pos by linarith

lemma wrapIndex_mod: "- 1 \<le> d \<Longrightarrow> int (wrapIndex i d) = (int i + d + int gridSize) mod int gridSize"
  by (simp add: wrapIndex_def jsRem_nonneg wrap_dividend_nonneg)

lemma wrapIndex_less [simp]: "- 1 \<le> d \<Longrightarrow> wrapIndex i d < gridSize"
  using wrapIndex_mod [of d i] pos_mod_bound [of "int gridSize" "int i + d + int gridSize"]
  by (simp del: pos_mod_bound)

lemma wrapIndex_0: "wrapIndex i 0 = i mod gridSize"
  using wrapIndex_mod [of 0 i] by (simp add: zmod_int [symmetric] del: of_nat_mod)

lemma wrapIndex_1: "wrapIndex i 1 = (i + 1) mod gridSize"
proof -
  have "(int i + 1 + int gridSize) mod int gridSize = (int i + 1) mod int gridSize"
    by (rule mod_add_self2)
  then have "int (wrapIndex i 1) = int ((i + 1) mod gridSize)"
    using wrapIndex_mod [of 1 i] by (simp add: zmod_int add.commute)
  then show ?thesis by (simp only: of_nat_eq_iff)
qed

lemma wrapIndex_m1: "wrapIndex i (- 1) = (i + gridSize - 1) mod gridSize"
proof -
  have "int i + - 1 + int gridSize = int (i + gridSize - 1)"
    using gridSize_pos by linarith
  then have "int (wrapIndex i (- 1)) = int ((i + gridSize - 1) mod gridSize)"
    using wrapIndex_mod [of "- 1" i] by (simp add: zmod_int)
  then show ?thesis by (simp only: of_nat_eq_iff)
qed

lemmas wrapIndex_simps = wrapIndex_0 wrapIndex_1 wrapIndex_m1

lemma directions_ge: "d \<in> set directions \<Longrightarrow> - 1 \<le> fst d \<and> - 1 \<le> snd d"
  by (auto simp: directions_def)

lemma inGrid_neighbour [simp]: "d \<in> set directions \<Longrightarrow> inGrid (neighbour s d)"
  by (simp add: inGrid_def neighbour_def directions_ge)

lemma wrapIndex_same [simp]: "i < gridSize \<Longrightarrow> wrapIndex i 0 = i"
  by (simp add: wrapIndex_0)

lemma wrapIndex_succ: "i < gridSize \<Longrightarrow> wrapIndex i 1 = (if Suc i = gridSize then 0 else Suc i)"
  by (auto simp: wrapIndex_1 mod_Suc)

lemma wrapIndex_pred: "i < gridSize \<Longrightarrow> wrapIndex i (- 1) = (if i = 0 then gridSize - 1 else i - 1)"
proof (cases "i = 0")
  case True
  then show ?thesis by (simp add: wrapIndex_m1)
next
  case False
  assume less: "i < gridSize"
  from False have "i + gridSize - 1 = (i - 1) + gridSize"
    by simp
  then have "(i + gridSize - 1) mod gridSize = (i - 1) mod gridSize"
    by (simp only: mod_add_self2)
  with False less show ?thesis by (simp add: wrapIndex_m1)
qed

lemmas wrapIndex_step = wrapIndex_succ wrapIndex_pred

text \<open>One step forward and one step back cancel; a step never stays in place.\<close>

lemma wrapIndex_pred_succ [simp]: "i < gridSize \<Longrightarrow> wrapIndex (wrapIndex i 1) (- 1) = i"
  using gridSize_ge3 by (auto simp: wrapIndex_step)

lemma wrapIndex_succ_pred [simp]: "i < gridSize \<Longrightarrow> wrapIndex (wrapIndex i (- 1)) 1 = i"
  using gridSize_ge3 by (auto simp: wrapIndex_step)

lemma wrapIndex_succ_neq [simp]: "i < gridSize \<Longrightarrow> wrapIndex i 1 \<noteq> i"
  using gridSize_ge3 by (auto simp: wrapIndex_step)

lemma wrapIndex_pred_neq [simp]: "i < gridSize \<Longrightarrow> wrapIndex i (- 1) \<noteq> i"
  using gridSize_ge3 by (auto simp: wrapIndex_step)

lemma wrapIndex_succ_neq_pred [simp]: "i < gridSize \<Longrightarrow> wrapIndex i 1 \<noteq> wrapIndex i (- 1)"
  using gridSize_ge3 by (auto simp: wrapIndex_step)

lemma wrapIndex_parity:
  assumes "i < gridSize" and "d = 1 \<or> d = - 1"
  shows "even (wrapIndex i d) \<longleftrightarrow> odd i"
proof -
  have last: "odd (gridSize - 1)"
    using gridSize_even gridSize_pos by simp
  have succ: "even (wrapIndex i 1) \<longleftrightarrow> odd i"
  proof (cases "Suc i = gridSize")
    case True
    then have "i = gridSize - 1" by simp
    with last True assms(1) show ?thesis by (simp add: wrapIndex_succ)
  next
    case False
    with assms(1) show ?thesis by (simp add: wrapIndex_succ)
  qed
  have pred: "even (wrapIndex i (- 1)) \<longleftrightarrow> odd i"
  proof (cases "i = 0")
    case True
    with last assms(1) show ?thesis by (simp add: wrapIndex_pred)
  next
    case False
    with assms(1) show ?thesis by (simp add: wrapIndex_pred)
  qed
  from succ pred assms(2) show ?thesis by auto
qed

section \<open>The four neighbours of a site\<close>

abbreviation right :: "site \<Rightarrow> site" where "right s \<equiv> neighbour s (0, 1)"
abbreviation below :: "site \<Rightarrow> site" where "below s \<equiv> neighbour s (1, 0)"
abbreviation left :: "site \<Rightarrow> site" where "left s \<equiv> neighbour s (0, - 1)"
abbreviation above :: "site \<Rightarrow> site" where "above s \<equiv> neighbour s (- 1, 0)"

lemma inGrid_pair [simp]: "inGrid (i, j) \<longleftrightarrow> i < gridSize \<and> j < gridSize"
  by (simp add: inGrid_def)

lemma inGrid_step [simp]:
  "inGrid (right s)" "inGrid (below s)" "inGrid (left s)" "inGrid (above s)"
  by (simp_all add: directions_def)

lemma below_eq: "snd s < gridSize \<Longrightarrow> below s = ((fst s + 1) mod gridSize, snd s)"
  by (simp add: neighbour_def wrapIndex_1)

lemma right_eq: "fst s < gridSize \<Longrightarrow> right s = (fst s, (snd s + 1) mod gridSize)"
  by (simp add: neighbour_def wrapIndex_1)

lemma neighbour_inverse [simp]:
  assumes "inGrid s"
  shows "left (right s) = s" "right (left s) = s" "above (below s) = s" "below (above s) = s"
  using assms by (simp_all add: neighbour_def inGrid_def prod_eq_iff)

lemma neighbour_neq [simp]:
  assumes "inGrid s"
  shows "right s \<noteq> s" "below s \<noteq> s" "left s \<noteq> s" "above s \<noteq> s"
  using assms by (simp_all add: neighbour_def inGrid_def prod_eq_iff)

lemma neighbour_neq_self: "inGrid s \<Longrightarrow> d \<in> set directions \<Longrightarrow> neighbour s d \<noteq> s"
  by (auto simp: directions_def)

lemma neighbours_distinct:
  assumes "inGrid s"
  shows "distinct (map (neighbour s) directions)"
  using assms by (auto simp: directions_def neighbour_def inGrid_def)

text \<open>The neighbour relation is symmetric: each direction has its opposite.\<close>

lemma neighbour_sym:
  assumes "inGrid s" and "inGrid t"
  shows "t \<in> neighbour s ` set directions \<longleftrightarrow> s \<in> neighbour t ` set directions"
proof -
  have "\<And>a b. inGrid a \<Longrightarrow> b \<in> neighbour a ` set directions \<Longrightarrow> a \<in> neighbour b ` set directions"
    by (auto simp: directions_def)
  with assms show ?thesis by blast
qed

section \<open>All sites\<close>

lemma set_sites [simp]: "set sites = {s. inGrid s}"
  by (auto simp: sites_def inGrid_def)

lemma distinct_sites [simp]: "distinct sites"
  by (simp add: sites_def distinct_product)

lemma length_sites [simp]: "length sites = gridSize * gridSize"
  by (simp add: sites_def)

lemma finite_inGrid [simp]: "finite {s. inGrid s}"
  using finite_set [of sites] unfolding set_sites .

lemma card_inGrid [simp]: "card {s. inGrid s} = gridSize * gridSize"
  using distinct_card [OF distinct_sites] by simp

lemma sum_list_sites: "sum_list (map f sites) = sum f {s. inGrid s}"
  using sum_list_distinct_conv_sum_set [OF distinct_sites, of f] by simp

lemma sum_rows_columns:
  "(\<Sum>i\<leftarrow>[0..<gridSize]. \<Sum>j\<leftarrow>[0..<gridSize]. w i j) = (\<Sum>s | inGrid s. w (fst s) (snd s))"
  by (simp add: sum_list_product sum_list_sites [symmetric] sites_def)

text \<open>A sum over all sites may be taken at the neighbours in a fixed direction.\<close>

lemma sum_shift:
  "(\<Sum>s | inGrid s. f (right s)) = (\<Sum>s | inGrid s. f s)"
  "(\<Sum>s | inGrid s. f (left s)) = (\<Sum>s | inGrid s. f s)"
  "(\<Sum>s | inGrid s. f (below s)) = (\<Sum>s | inGrid s. f s)"
  "(\<Sum>s | inGrid s. f (above s)) = (\<Sum>s | inGrid s. f s)"
proof -
  show "(\<Sum>s | inGrid s. f (right s)) = (\<Sum>s | inGrid s. f s)"
    by (rule sum.reindex_bij_witness [where i = left and j = right]) simp_all
  show "(\<Sum>s | inGrid s. f (left s)) = (\<Sum>s | inGrid s. f s)"
    by (rule sum.reindex_bij_witness [where i = right and j = left]) simp_all
  show "(\<Sum>s | inGrid s. f (below s)) = (\<Sum>s | inGrid s. f s)"
    by (rule sum.reindex_bij_witness [where i = above and j = below]) simp_all
  show "(\<Sum>s | inGrid s. f (above s)) = (\<Sum>s | inGrid s. f s)"
    by (rule sum.reindex_bij_witness [where i = below and j = above]) simp_all
qed

section \<open>Properties of the lattice\<close>

text \<open>
  C34. Flipping a site of a well-formed grid never throws, keeps the grid well
  formed, negates the value of that site and leaves every other site as it was.
\<close>

theorem flipSite_correct:
  assumes "wf_grid g" and "inGrid s"
  shows "\<exists>g'. flipSite g (fst s) (snd s) = Inr g' \<and> wf_grid g' \<and>
           spinAt g' s = - spinAt g s \<and>
           (\<forall>t. inGrid t \<and> t \<noteq> s \<longrightarrow> spinAt g' t = spinAt g t)"
  using assms by (simp add: flipSite_wf wf_grid_flipAt spinAt_flipAt)

theorem flipSite_correct_witness:
  "wf_grid initialSpins \<and> inGrid (2, 3) \<and>
   (\<exists>g'. flipSite initialSpins 2 3 = Inr g' \<and> wf_grid g' \<and>
      spinAt g' (2, 3) = - spinAt initialSpins (2, 3))"
  using flipSite_correct [of initialSpins "(2, 3)"]
  by (auto simp: inGrid_def gridSize_def)

text \<open>
  Flipping the same site twice gives the grid back: the click handler is an
  involution on well-formed grids.
\<close>

theorem flipSite_involution:
  assumes "wf_grid g" and "inGrid s"
  shows "bindJs (flipSite g (fst s) (snd s)) (\<lambda>g'. flipSite g' (fst s) (snd s)) = Inr g"
  using assms by (simp add: flipSite_wf wf_grid_flipAt flipAt_flipAt)

theorem flipSite_involution_witness:
  "bindJs (flipSite checkerboard 0 9) (\<lambda>g'. flipSite g' 0 9) = Inr checkerboard"
  using flipSite_involution [of checkerboard "(0, 9)"]
  by (simp add: inGrid_def gridSize_def)

text \<open>
  C35. A column index outside the row does not fail: the program writes
  \<^verbatim>\<open>'up'\<close> there, the row grows, and the grid is no longer well formed.
\<close>

theorem flipSite_outside_breaks_grid:
  assumes "wf_grid g" and "i < gridSize" and "gridSize \<le> j"
  shows "\<exists>g'. flipSite g i j = Inr g' \<and> length (g' ! i) = Suc j \<and>
           jsGet (g' ! i) j = Some Up \<and> \<not> wf_grid g'"
proof -
  let ?g' = "g[i := g ! i @ replicate (j - length (g ! i)) None @ [Some Up]]"
  have eq: "flipSite g i j = Inr ?g'"
    using assms by (intro flipSite_extends) simp_all
  have len: "length (?g' ! i) = Suc j"
    using assms by simp
  have "jsGet (?g' ! i) j = Some Up"
    using assms by (simp add: jsGet_def nth_append)
  moreover have "\<not> wf_grid ?g'"
    using len assms wf_grid_row [of ?g' i] by auto
  ultimately show ?thesis
    using eq len by blast
qed

theorem flipSite_outside_breaks_grid_witness:
  "wf_grid initialSpins \<and> (\<exists>g'. flipSite initialSpins 0 12 = Inr g' \<and>
     length (g' ! 0) = 13 \<and> jsGet (g' ! 0) 12 = Some Up \<and> \<not> wf_grid g')"
  using flipSite_outside_breaks_grid [of initialSpins 0 12]
  by (simp add: gridSize_def)

end
