(* ===== verification/Energy.thy ===== *)
theory Energy
  imports Spin_Lattice
begin

text \<open>
  The energy model of \<^verbatim>\<open>script.js\<close>.

  \<^item> \<open>deltaEnergy\<close> is the function of that name: the sum, over the four
    neighbours of a site, of \<open>2 J s s'\<close>, plus \<open>2 h s\<close>. It reads the grid five
    times and throws when a row is missing.
  \<^item> \<open>calculateEnergy\<close> is the function of that name: minus half of
    \<open>deltaEnergy\<close>, summed over all sites and divided by the number of sites.
  \<^item> The specification is the nearest-neighbour Ising Hamiltonian
    \<open>H = - J \<Sum> s s' - h \<Sum> s\<close>, the first sum over the bonds of the periodic
    lattice, each bond once (\<open>bondSum\<close>), the second over the sites
    (\<open>spinSum\<close>).

  The lemmas show that on a well-formed grid \<open>deltaEnergy\<close> returns \<open>flipCost\<close>,
  that \<open>flipCost\<close> is exactly the change of \<open>hamiltonian\<close> when the site is
  flipped, that flipping back costs the opposite, and what \<open>calculateEnergy\<close>
  returns in terms of \<open>bondSum\<close> and \<open>spinSum\<close>.
\<close>

section \<open>The program\<close>

definition deltaEnergy :: "grid \<Rightarrow> nat \<Rightarrow> nat \<Rightarrow> number \<Rightarrow> number \<Rightarrow> number js" where
  "deltaEnergy g row col J h =
     bindJs (readSpin g row col) (\<lambda>c.
       let spin = real_of_int (spinToValue c) in
       bindJs
         (foldJs (\<lambda>dE d.
            bindJs (readSpin g (wrapIndex row (fst d)) (wrapIndex col (snd d))) (\<lambda>nc.
              let neighborSpin = real_of_int (spinToValue nc) in
              Inr (dE + 2 * J * spin * neighborSpin)))
            0 directions)
         (\<lambda>dE. Inr (dE + 2 * h * spin)))"

definition calculateEnergy :: "grid \<Rightarrow> number \<Rightarrow> number \<Rightarrow> number js" where
  "calculateEnergy g J h =
     bindJs
       (foldJs (\<lambda>total i.
          foldJs (\<lambda>totalEnergy j.
            bindJs (deltaEnergy g i j J h) (\<lambda>dE. Inr (totalEnergy - dE / 2)))
            total [0..<gridSize])
          0 [0..<gridSize])
       (\<lambda>totalEnergy. Inr (totalEnergy / real (gridSize * gridSize)))"

section \<open>The specification\<close>

definition neighbourSum :: "grid \<Rightarrow> site \<Rightarrow> int" where
  "neighbourSum g s = (\<Sum>d\<leftarrow>directions. spinAt g (neighbour s d))"

definition flipCost :: "number \<Rightarrow> number \<Rightarrow> grid \<Rightarrow> site \<Rightarrow> number" where
  "flipCost J h g s =
     2 * J * real_of_int (spinAt g s * neighbourSum g s) + 2 * h * real_of_int (spinAt g s)"

definition bondSum :: "grid \<Rightarrow> int" where
  "bondSum g = (\<Sum>s\<leftarrow>sites. spinAt g s * spinAt g (right s) + spinAt g s * spinAt g (below s))"

definition spinSum :: "grid \<Rightarrow> int" where
  "spinSum g = (\<Sum>s\<leftarrow>sites. spinAt g s)"

definition hamiltonian :: "number \<Rightarrow> number \<Rightarrow> grid \<Rightarrow> number" where
  "hamiltonian J h g = - J * real_of_int (bondSum g) - h * real_of_int (spinSum g)"

section \<open>What deltaEnergy returns\<close>

lemma neighbourSum_unfold:
  "neighbourSum g s =
     spinAt g (right s) + spinAt g (below s) + spinAt g (left s) + spinAt g (above s)"
  by (simp add: neighbourSum_def directions_def)

lemma readSpin_neighbour:
  assumes "wf_grid g" and "d \<in> set directions"
  shows "readSpin g (wrapIndex row (fst d)) (wrapIndex col (snd d)) =
         Inr (cellAt g (neighbour (row, col) d))"
  using assms directions_ge [OF assms(2)] by (simp add: readSpin_cellAt neighbour_def)

lemma deltaEnergy_wf [on_wf]:
  assumes "wf_grid g" and "row < gridSize" and "col < gridSize"
  shows "deltaEnergy g row col J h = Inr (flipCost J h g (row, col))"
proof -
  let ?s = "real_of_int (spinAt g (row, col))"
  let ?w = "\<lambda>d. 2 * J * ?s * real_of_int (spinAt g (neighbour (row, col) d))"
  have loop: "foldJs (\<lambda>dE d.
      bindJs (readSpin g (wrapIndex row (fst d)) (wrapIndex col (snd d))) (\<lambda>nc.
        let neighborSpin = real_of_int (spinToValue nc) in
        Inr (dE + 2 * J * ?s * neighborSpin))) 0 directions
      = Inr (0 + sum_list (map ?w directions))"
    by (rule foldJs_add) (simp add: readSpin_neighbour [OF assms(1)] spinAt_def)
  have "sum_list (map ?w directions) = 2 * J * real_of_int (spinAt g (row, col) * neighbourSum g (row, col))"
    by (simp add: neighbourSum_def directions_def algebra_simps)
  with loop show ?thesis
    using assms by (simp add: deltaEnergy_def readSpin_cellAt flipCost_def spinAt_def Let_def)
qed

lemma deltaEnergy_throws: "length g \<le> row \<Longrightarrow> deltaEnergy g row col J h = Inl TypeError"
  by (simp add: deltaEnergy_def readSpin_throws)

section \<open>The Hamiltonian as a sum over the set of sites\<close>

lemma bondSum_set:
  "bondSum g = (\<Sum>s | inGrid s. spinAt g s * spinAt g (right s)) +
               (\<Sum>s | inGrid s. spinAt g s * spinAt g (below s))"
  by (simp add: bondSum_def sum_list_sites sum.distrib)

lemma spinSum_set: "spinSum g = (\<Sum>s | inGrid s. spinAt g s)"
  by (simp add: spinSum_def sum_list_sites)

text \<open>Summing each site against its four neighbours counts every bond twice.\<close>

lemma sum_neighbourSum: "(\<Sum>s | inGrid s. spinAt g s * neighbourSum g s) = 2 * bondSum g"
proof -
  have l: "(\<Sum>s | inGrid s. spinAt g s * spinAt g (left s)) =
           (\<Sum>s | inGrid s. spinAt g s * spinAt g (right s))"
    using sum_shift(1) [of "\<lambda>s. spinAt g s * spinAt g (left s)"]
    by (simp add: mult.commute cong: sum.cong_simp)
  have a: "(\<Sum>s | inGrid s. spinAt g s * spinAt g (above s)) =
           (\<Sum>s | inGrid s. spinAt g s * spinAt g (below s))"
    using sum_shift(3) [of "\<lambda>s. spinAt g s * spinAt g (above s)"]
    by (simp add: mult.commute cong: sum.cong_simp)
  show ?thesis
    by (simp add: neighbourSum_unfold distrib_left sum.distrib l a bondSum_set)
qed

section \<open>Flipping one site\<close>

text \<open>
  The bonds along one axis: \<open>fwd\<close> and \<open>bwd\<close> are the two opposite steps. A
  flip of \<open>s\<close> changes the bond from \<open>s\<close> forward and the bond into \<open>s\<close>.
\<close>

lemma bond_flip:
  assumes wf: "wf_grid g" and s: "inGrid s"
    and step: "\<And>t. inGrid t \<Longrightarrow>
      inGrid (fwd t) \<and> inGrid (bwd t) \<and> bwd (fwd t) = t \<and> fwd (bwd t) = t \<and> fwd t \<noteq> t"
  shows "(\<Sum>t | inGrid t. spinAt (flipAt s g) t * spinAt (flipAt s g) (fwd t)) -
         (\<Sum>t | inGrid t. spinAt g t * spinAt g (fwd t)) =
         - 2 * spinAt g s * (spinAt g (fwd s) + spinAt g (bwd s))"
proof -
  let ?f' = "\<lambda>t. spinAt (flipAt s g) t * spinAt (flipAt s g) (fwd t)"
  let ?f = "\<lambda>t. spinAt g t * spinAt g (fwd t)"
  note at = spinAt_flipAt [OF wf s]
  have b: "inGrid (bwd s)" "fwd (bwd s) = s" "bwd s \<noteq> s" "inGrid (fwd s)" "fwd s \<noteq> s"
    using step [OF s] step [of "bwd s"] by auto
  have other: "?f' t = ?f t" if "inGrid t" "t \<noteq> s" "t \<noteq> bwd s" for t
  proof -
    have "fwd t \<noteq> s" using step [OF that(1)] that(3) by auto
    then show ?thesis using that step [OF that(1)] by (simp add: at)
  qed
  have "sum ?f' {t. inGrid t} - sum ?f {t. inGrid t} = (?f' s - ?f s) + (?f' (bwd s) - ?f (bwd s))"
    using s b other by (intro sum_differ_at_two) auto
  also have "\<dots> = - 2 * spinAt g s * (spinAt g (fwd s) + spinAt g (bwd s))"
    using s b by (simp add: at algebra_simps)
  finally show ?thesis .
qed

lemma bondSum_flipAt:
  assumes "wf_grid g" and "inGrid s"
  shows "bondSum (flipAt s g) - bondSum g = - 2 * spinAt g s * neighbourSum g s"
proof -
  have "(\<Sum>t | inGrid t. spinAt (flipAt s g) t * spinAt (flipAt s g) (right t)) -
        (\<Sum>t | inGrid t. spinAt g t * spinAt g (right t)) =
        - 2 * spinAt g s * (spinAt g (right s) + spinAt g (left s))"
    using assms by (intro bond_flip) simp_all
  moreover have "(\<Sum>t | inGrid t. spinAt (flipAt s g) t * spinAt (flipAt s g) (below t)) -
        (\<Sum>t | inGrid t. spinAt g t * spinAt g (below t)) =
        - 2 * spinAt g s * (spinAt g (below s) + spinAt g (above s))"
    using assms by (intro bond_flip) simp_all
  ultimately show ?thesis
    by (simp add: bondSum_set neighbourSum_unfold algebra_simps)
qed

lemma spinSum_flipAt:
  assumes "wf_grid g" and "inGrid s"
  shows "spinSum (flipAt s g) - spinSum g = - 2 * spinAt g s"
proof -
  have "sum (spinAt (flipAt s g)) {t. inGrid t} - sum (spinAt g) {t. inGrid t} =
        spinAt (flipAt s g) s - spinAt g s"
    using assms by (intro sum_differ_at_one) (simp_all add: spinAt_flipAt)
  then show ?thesis
    using assms by (simp add: spinSum_set spinAt_flipAt)
qed

lemma hamiltonian_flipAt:
  assumes "wf_grid g" and "inGrid s"
  shows "hamiltonian J h (flipAt s g) - hamiltonian J h g = flipCost J h g s"
proof -
  have b: "bondSum (flipAt s g) = bondSum g - 2 * spinAt g s * neighbourSum g s"
    using bondSum_flipAt [OF assms] by simp
  have sp: "spinSum (flipAt s g) = spinSum g - 2 * spinAt g s"
    using spinSum_flipAt [OF assms] by simp
  show ?thesis
    unfolding hamiltonian_def flipCost_def b sp by (simp add: algebra_simps)
qed

lemma neighbourSum_flipAt:
  assumes "wf_grid g" and "inGrid s"
  shows "neighbourSum (flipAt s g) s = neighbourSum g s"
  using assms by (simp add: neighbourSum_unfold spinAt_flipAt)

lemma flipCost_flipAt:
  assumes "wf_grid g" and "inGrid s"
  shows "flipCost J h (flipAt s g) s = - flipCost J h g s"
  using assms by (simp add: flipCost_def neighbourSum_flipAt spinAt_flipAt)

section \<open>What calculateEnergy returns\<close>

lemma sum_flipCost:
  "(\<Sum>s | inGrid s. flipCost J h g s) =
     4 * J * real_of_int (bondSum g) + 2 * h * real_of_int (spinSum g)"
proof -
  have "(\<Sum>s | inGrid s. flipCost J h g s) =
        2 * J * real_of_int (\<Sum>s | inGrid s. spinAt g s * neighbourSum g s) +
        2 * h * real_of_int (\<Sum>s | inGrid s. spinAt g s)"
    by (simp add: flipCost_def sum.distrib sum_distrib_left)
  then show ?thesis
    by (simp add: sum_neighbourSum spinSum_set)
qed

lemma calculateEnergy_wf [on_wf]:
  assumes "wf_grid g"
  shows "calculateEnergy g J h =
         Inr ((- 2 * J * real_of_int (bondSum g) - h * real_of_int (spinSum g)) /
              real (gridSize * gridSize))"
proof -
  let ?w = "\<lambda>i j. - (flipCost J h g (i, j) / 2)"
  have "foldJs (\<lambda>total i.
          foldJs (\<lambda>totalEnergy j.
            bindJs (deltaEnergy g i j J h) (\<lambda>dE. Inr (totalEnergy - dE / 2)))
            total [0..<gridSize]) 0 [0..<gridSize] =
        Inr (0 + (\<Sum>i\<leftarrow>[0..<gridSize]. \<Sum>j\<leftarrow>[0..<gridSize]. ?w i j))"
    by (rule foldJs_add_nested) (simp add: deltaEnergy_wf [OF assms])
  moreover have "(\<Sum>i\<leftarrow>[0..<gridSize]. \<Sum>j\<leftarrow>[0..<gridSize]. ?w i j) =
        - ((\<Sum>s | inGrid s. flipCost J h g s) / 2)"
    by (simp add: sum_rows_columns sum_negf sum_divide_distrib)
  moreover have "- ((\<Sum>s | inGrid s. flipCost J h g s) / 2) =
        - 2 * J * real_of_int (bondSum g) - h * real_of_int (spinSum g)"
    by (simp add: sum_flipCost add_divide_distrib)
  ultimately show ?thesis
    by (simp add: calculateEnergy_def)
qed

section \<open>Two reference configurations\<close>

lemma bondSum_uniform [simp]: "bondSum (uniform v) = 2 * int (gridSize * gridSize)"
  by (simp add: bondSum_set)

lemma spinSum_uniform [simp]:
  "spinSum (uniform v) = int (gridSize * gridSize) * spinToValue (Some v)"
  by (simp add: spinSum_set)

lemma neighbourSum_uniform: "neighbourSum (uniform v) s = 4 * spinToValue (Some v)"
  by (simp add: neighbourSum_unfold)

lemma flipCost_uniform:
  "inGrid s \<Longrightarrow> flipCost J h (uniform v) s = 8 * J + 2 * h * real_of_int (spinToValue (Some v))"
  by (cases v) (simp_all add: flipCost_def neighbourSum_uniform)

lemma spinAt_checkerboard:
  "inGrid s \<Longrightarrow> spinAt checkerboard s = (if even (fst s + snd s) then 1 else - 1)"
  by (simp add: spinAt_def)

lemma checkerboard_bond:
  assumes "inGrid s"
  shows "spinAt checkerboard s * spinAt checkerboard (right s) = - 1"
    and "spinAt checkerboard s * spinAt checkerboard (below s) = - 1"
  using assms wrapIndex_parity [of "snd s" 1] wrapIndex_parity [of "fst s" 1]
  by (auto simp: spinAt_checkerboard neighbour_def inGrid_def)

lemma bondSum_checkerboard [simp]: "bondSum checkerboard = - 2 * int (gridSize * gridSize)"
  by (simp add: bondSum_set checkerboard_bond)

lemma spinSum_checkerboard [simp]: "spinSum checkerboard = 0"
proof -
  have "spinAt checkerboard (right s) = - spinAt checkerboard s" if "inGrid s" for s
    using checkerboard_bond(1) [OF that] spinToValue_cases [of "cellAt checkerboard s"]
    by (auto simp: spinAt_def)
  then have "(\<Sum>s | inGrid s. spinAt checkerboard (right s)) = - (\<Sum>s | inGrid s. spinAt checkerboard s)"
    by (simp add: sum_negf)
  then show ?thesis
    by (simp add: spinSum_set sum_shift(1))
qed

lemma neighbourSum_bound: "\<bar>neighbourSum g s\<bar> \<le> 4"
  using sum_list_abs_le [of directions "\<lambda>d. spinAt g (neighbour s d)" 1]
  by (simp add: neighbourSum_def) (simp add: directions_def)

lemma flipCost_bound: "\<bar>flipCost J h g s\<bar> \<le> 8 * \<bar>J\<bar> + 2 * \<bar>h\<bar>"
proof -
  let ?x = "real_of_int (spinAt g s * neighbourSum g s)"
  have "\<bar>spinAt g s * neighbourSum g s\<bar> \<le> 4"
    using neighbourSum_bound [of g s] by (simp add: abs_mult)
  then have x: "\<bar>?x\<bar> \<le> 4"
    by (simp only: of_int_abs [symmetric])
  have "\<bar>2 * J * ?x\<bar> = (2 * \<bar>J\<bar>) * \<bar>?x\<bar>"
    by (simp add: abs_mult)
  also have "\<dots> \<le> (2 * \<bar>J\<bar>) * 4"
    using x by (intro mult_left_mono) simp_all
  finally have "\<bar>2 * J * ?x\<bar> \<le> 8 * \<bar>J\<bar>"
    by simp
  moreover have "\<bar>2 * h * real_of_int (spinAt g s)\<bar> = 2 * \<bar>h\<bar>"
    by (simp add: abs_mult)
  ultimately show ?thesis
    unfolding flipCost_def by linarith
qed

section \<open>Properties of the energy model\<close>

text \<open>
  C1. On a well-formed grid \<^verbatim>\<open>deltaEnergy\<close> does not throw, and the number it
  returns is exactly the change of the Ising Hamiltonian
  \<open>H = - J \<Sum> s s' - h \<Sum> s\<close> caused by flipping the site.
\<close>

theorem deltaEnergy_is_energy_change:
  assumes "wf_grid g" and "row < gridSize" and "col < gridSize"
  shows "deltaEnergy g row col J h =
         Inr (hamiltonian J h (flipAt (row, col) g) - hamiltonian J h g)"
  using assms by (simp add: deltaEnergy_wf hamiltonian_flipAt)

theorem deltaEnergy_is_energy_change_witness:
  "wf_grid checkerboard \<and>
   deltaEnergy checkerboard 3 4 1 (1 / 2) =
     Inr (hamiltonian 1 (1 / 2) (flipAt (3, 4) checkerboard) - hamiltonian 1 (1 / 2) checkerboard)"
  using deltaEnergy_is_energy_change [of checkerboard 3 4 1 "1 / 2"]
  by (simp add: gridSize_def)

text \<open>
  C25. Flipping a site and asking for the cost of flipping it again gives the
  opposite of the first cost: a move and its reverse have opposite energy
  changes, which is what the Metropolis acceptance rule relies on.
\<close>

theorem deltaEnergy_reverse:
  assumes "wf_grid g" and "row < gridSize" and "col < gridSize"
  shows "bindJs (flipSite g row col) (\<lambda>g'. deltaEnergy g' row col J h) =
         bindJs (deltaEnergy g row col J h) (\<lambda>dE. Inr (- dE))"
  using assms flipSite_wf [of g "(row, col)"] wf_grid_flipAt [of g "(row, col)"]
  by (simp add: deltaEnergy_wf flipCost_flipAt)

theorem deltaEnergy_reverse_witness:
  "bindJs (flipSite initialSpins 0 9) (\<lambda>g'. deltaEnergy g' 0 9 1 0) =
   bindJs (deltaEnergy initialSpins 0 9 1 0) (\<lambda>dE. Inr (- dE))"
  using deltaEnergy_reverse [of initialSpins 0 9 1 0]
  by (simp add: gridSize_def)

text \<open>
  C5. \<^verbatim>\<open>calculateEnergy\<close> does not return the Hamiltonian per site: halving the
  sum of \<^verbatim>\<open>deltaEnergy\<close> over all sites still counts every bond twice, so the
  result is the Hamiltonian with the bond term doubled, per site.
\<close>

theorem calculateEnergy_counts_bonds_twice:
  assumes "wf_grid g"
  shows "calculateEnergy g J h =
         Inr ((hamiltonian J h g - J * real_of_int (bondSum g)) / real (gridSize * gridSize))"
  using assms by (simp add: calculateEnergy_wf hamiltonian_def)

theorem calculateEnergy_counts_bonds_twice_witness:
  "wf_grid initialSpins \<and>
   calculateEnergy initialSpins 1 0 =
     Inr ((hamiltonian 1 0 initialSpins - 1 * real_of_int (bondSum initialSpins)) /
          real (gridSize * gridSize))"
  using calculateEnergy_counts_bonds_twice [of initialSpins 1 0]
  by simp

text \<open>
  C26. With no field the energy that \<^verbatim>\<open>calculateEnergy\<close> reports is \<open>- 4 J\<close> for
  a lattice of equal spins and \<open>4 J\<close> for the alternating lattice: for a positive
  coupling the aligned lattice is strictly lower.
\<close>

theorem energy_aligned_and_alternating:
  "calculateEnergy (uniform v) J 0 = Inr (- 4 * J) \<and>
   calculateEnergy checkerboard J 0 = Inr (4 * J)"
  by (simp add: calculateEnergy_wf)

text \<open>
  The cost of a flip is bounded by the coupling and the field:
  \<open>|dE| \<le> 8 |J| + 2 |h|\<close>.
\<close>

theorem deltaEnergy_bound:
  assumes "wf_grid g" and "row < gridSize" and "col < gridSize"
  shows "\<exists>dE. deltaEnergy g row col J h = Inr dE \<and> \<bar>dE\<bar> \<le> 8 * \<bar>J\<bar> + 2 * \<bar>h\<bar>"
  using assms by (simp add: deltaEnergy_wf flipCost_bound)

theorem deltaEnergy_bound_witness:
  "\<exists>dE. deltaEnergy initialSpins 5 5 (- 2) 3 = Inr dE \<and> \<bar>dE\<bar> \<le> 8 * \<bar>- 2 :: real\<bar> + 2 * \<bar>3 :: real\<bar>"
  using deltaEnergy_bound [of initialSpins 5 5 "- 2" 3]
  by (simp add: gridSize_def)

end
