(* ===== verification/Metropolis.thy ===== *)
theory Metropolis
  imports Energy
begin

text \<open>
  The Metropolis-Hastings update of \<^verbatim>\<open>script.js\<close>, function
  \<^verbatim>\<open>runMetropolisHastings\<close>: a hundred trials, each of which draws a site, asks
  \<open>deltaEnergy\<close> for the cost of flipping it and flips it when the cost is
  negative or a further random number is below \<open>exp (- dE * beta)\<close>.

  \<^item> \<open>acceptUphill\<close> is the right operand of the \<^verbatim>\<open>||\<close> in the acceptance test. It
    is only evaluated, and its random number only drawn, when the cost is not
    negative. With \<^verbatim>\<open>temperature\<close> zero the program computes
    \<^verbatim>\<open>beta = 1 / 0 = Infinity\<close>; the exponent is then \<^verbatim>\<open>-Infinity\<close> or, for a zero
    cost, \<^verbatim>\<open>NaN\<close>, and the comparison is false in both cases. The real quotient
    \<open>1 / 0 = 0\<close> would say otherwise, so the case is written out.
  \<^item> \<open>metropolisTrial\<close> is the body of the loop, \<open>runMetropolisHastings\<close> the
    loop. The state of a run is the grid and the random stream; the parameters
    are the globals \<^verbatim>\<open>temperature\<close>, \<^verbatim>\<open>interactionStrength\<close> and
    \<^verbatim>\<open>magneticField\<close>.
  \<^item> \<open>trialSite\<close>, \<open>trialAccepts\<close> and \<open>trialResult\<close> specify a trial on a
    well-formed grid; \<open>metropolisProbability\<close> is the textbook acceptance
    probability \<open>min 1 (exp (- dE / T))\<close> at \<open>T = kT / 10\<close>, for which the last
    section proves detailed balance.
\<close>

section \<open>The program\<close>

definition acceptUphill :: "number \<Rightarrow> number \<Rightarrow> urand \<Rightarrow> bool" where
  "acceptUphill kT dE u =
     (if kT = 0 then False
      else let beta = 1 / (kT / 10) in Rep_urand u < exp (- dE * beta))"

definition metropolisTrial :: "number \<Rightarrow> number \<Rightarrow> number \<Rightarrow> grid \<times> rng \<Rightarrow> (grid \<times> rng) js" where
  "metropolisTrial kT J h st =
     (let g = fst st; r = snd st;
          i = randomBelow (shd r) gridSize;
          j = randomBelow (shd (stl r)) gridSize;
          r = stl (stl r)
      in bindJs (deltaEnergy g i j J h) (\<lambda>dE.
           if dE < 0 then bindJs (flipSite g i j) (\<lambda>g'. Inr (g', r))
           else if acceptUphill kT dE (shd r) then bindJs (flipSite g i j) (\<lambda>g'. Inr (g', stl r))
           else Inr (g, stl r)))"

definition runMetropolisHastings :: "number \<Rightarrow> number \<Rightarrow> number \<Rightarrow> grid \<times> rng \<Rightarrow> (grid \<times> rng) js" where
  "runMetropolisHastings kT J h st = foldJs (\<lambda>st step. metropolisTrial kT J h st) st [0..<100]"

section \<open>The specification of one trial\<close>

definition trialSite :: "rng \<Rightarrow> site" where
  "trialSite r = (randomBelow (shd r) gridSize, randomBelow (shd (stl r)) gridSize)"

definition trialAccepts :: "number \<Rightarrow> number \<Rightarrow> number \<Rightarrow> grid \<Rightarrow> rng \<Rightarrow> bool" where
  "trialAccepts kT J h g r =
     (let dE = flipCost J h g (trialSite r)
      in dE < 0 \<or> acceptUphill kT dE (shd (stl (stl r))))"

definition trialDraws :: "number \<Rightarrow> number \<Rightarrow> grid \<Rightarrow> rng \<Rightarrow> nat" where
  "trialDraws J h g r = (if flipCost J h g (trialSite r) < 0 then 2 else 3)"

definition trialResult :: "number \<Rightarrow> number \<Rightarrow> number \<Rightarrow> grid \<times> rng \<Rightarrow> grid \<times> rng" where
  "trialResult kT J h st =
     (let g = fst st; r = snd st
      in (if trialAccepts kT J h g r then flipAt (trialSite r) g else g,
          sdrop (trialDraws J h g r) r))"

definition metropolisProbability :: "number \<Rightarrow> number \<Rightarrow> number" where
  "metropolisProbability kT dE = min 1 (exp (- dE / (kT / 10)))"

definition wf_state :: "grid \<times> rng \<Rightarrow> bool" where
  "wf_state st = wf_grid (fst st)"

section \<open>One trial\<close>

lemma inGrid_trialSite [simp]: "inGrid (trialSite r)"
  by (simp add: trialSite_def)

lemma metropolisTrial_wf [on_wf]:
  assumes "wf_grid (fst st)"
  shows "metropolisTrial kT J h st = Inr (trialResult kT J h st)"
proof -
  obtain g r where st: "st = (g, r)" by (cases st)
  let ?i = "randomBelow (shd r) gridSize" and ?j = "randomBelow (shd (stl r)) gridSize"
  have wf: "wf_grid g" using assms st by simp
  have dE: "deltaEnergy g ?i ?j J h = Inr (flipCost J h g (trialSite r))"
    using wf by (simp add: deltaEnergy_wf trialSite_def)
  have flip: "flipSite g ?i ?j = Inr (flipAt (trialSite r) g)"
    using flipSite_wf [OF wf inGrid_trialSite [of r]] by (simp add: trialSite_def)
  show ?thesis
    by (simp add: metropolisTrial_def st dE flip trialResult_def trialAccepts_def
        trialDraws_def Let_def)
qed

lemma wf_grid_trialResult [wf_keeps]:
  "wf_grid (fst st) \<Longrightarrow> wf_grid (fst (trialResult kT J h st))"
  by (simp add: trialResult_def Let_def wf_grid_flipAt)

lemma metropolisTrial_keeps:
  assumes "wf_state st"
  shows "\<exists>st'. metropolisTrial kT J h st = Inr st' \<and> wf_state st'"
  using assms by (simp add: wf_state_def metropolisTrial_wf wf_grid_trialResult)

section \<open>The acceptance test\<close>

lemma acceptUphill_zero [simp]: "\<not> acceptUphill 0 dE u"
  by (simp add: acceptUphill_def)

lemma acceptUphill_iff:
  "kT \<noteq> 0 \<Longrightarrow> acceptUphill kT dE u \<longleftrightarrow> Rep_urand u < exp (- dE / (kT / 10))"
  by (simp add: acceptUphill_def)

lemma acceptUphill_negative_temperature:
  assumes "kT < 0" and "0 \<le> dE"
  shows "acceptUphill kT dE u"
proof -
  have "0 \<le> - dE / (kT / 10)"
    using assms by (simp add: divide_nonneg_neg)
  then have "1 \<le> exp (- dE / (kT / 10))"
    by simp
  then have "Rep_urand u < exp (- dE / (kT / 10))"
    using Rep_urand_less [of u] by linarith
  with assms(1) show ?thesis
    by (simp add: acceptUphill_iff)
qed

lemma exp_downhill:
  fixes kT dE :: real
  assumes "0 < kT" and "dE < 0"
  shows "1 < exp (- dE / (kT / 10))"
proof -
  have "0 < - dE / (kT / 10)"
    using assms by (simp add: divide_neg_pos)
  then show ?thesis by simp
qed

lemma acceptance_is_metropolis:
  assumes "0 < kT"
  shows "dE < 0 \<or> acceptUphill kT dE u \<longleftrightarrow> Rep_urand u < metropolisProbability kT dE"
proof (cases "dE < 0")
  case True
  with assms have "metropolisProbability kT dE = 1"
    using exp_downhill [of kT dE] by (simp add: metropolisProbability_def)
  with True show ?thesis by simp
next
  case False
  with assms have "exp (- dE / (kT / 10)) \<le> 1"
    by simp
  then have "metropolisProbability kT dE = exp (- dE / (kT / 10))"
    by (simp add: metropolisProbability_def)
  with False assms show ?thesis
    by (simp add: acceptUphill_iff)
qed

section \<open>The effect of a trial\<close>

lemma spinAt_trialResult:
  assumes "wf_grid g" and "inGrid t"
  shows "spinAt (fst (trialResult kT J h (g, r))) t =
         (if t = trialSite r \<and> trialAccepts kT J h g r then - spinAt g t else spinAt g t)"
  using assms by (simp add: trialResult_def Let_def spinAt_flipAt)

lemma hamiltonian_trialResult:
  assumes "wf_grid g"
  shows "hamiltonian J h (fst (trialResult kT J h (g, r))) =
         hamiltonian J h g + (if trialAccepts kT J h g r then flipCost J h g (trialSite r) else 0)"
  using hamiltonian_flipAt [OF assms inGrid_trialSite, of J h r]
  by (simp add: trialResult_def Let_def)

lemma trialAccepts_zero: "trialAccepts 0 J h g r \<longleftrightarrow> flipCost J h g (trialSite r) < 0"
  by (simp add: trialAccepts_def Let_def)

lemma trialAccepts_negative: "kT < 0 \<Longrightarrow> trialAccepts kT J h g r"
  using acceptUphill_negative_temperature [of kT "flipCost J h g (trialSite r)"]
  by (fastforce simp: trialAccepts_def Let_def)

lemma snd_trialResult: "snd (trialResult kT J h (g, r)) = sdrop (trialDraws J h g r) r"
  by (simp add: trialResult_def Let_def)

section \<open>A run of a hundred trials\<close>

lemma runMetropolisHastings_wf [on_wf]:
  assumes "wf_state st"
  shows "runMetropolisHastings kT J h st = Inr ((trialResult kT J h ^^ 100) st)"
    and "wf_state ((trialResult kT J h ^^ 100) st)"
proof -
  have "foldJs (\<lambda>a step. metropolisTrial kT J h a) st [0..<100] =
          Inr ((trialResult kT J h ^^ length [0..<100]) st) \<and>
        wf_state ((trialResult kT J h ^^ length [0..<100]) st)"
    using assms
    by (rule foldJs_iterate) (simp add: wf_state_def metropolisTrial_wf wf_grid_trialResult)
  then show "runMetropolisHastings kT J h st = Inr ((trialResult kT J h ^^ 100) st)"
    and "wf_state ((trialResult kT J h ^^ 100) st)"
    by (simp_all add: runMetropolisHastings_def)
qed

text \<open>The random numbers a number of trials consumes: two or three each.\<close>

lemma trials_draws:
  "\<exists>k. 2 * n \<le> k \<and> k \<le> 3 * n \<and> snd ((trialResult kT J h ^^ n) st) = sdrop k (snd st)"
proof (induction n)
  case 0
  show ?case by simp
next
  case (Suc n)
  then obtain k where k: "2 * n \<le> k" "k \<le> 3 * n"
    "snd ((trialResult kT J h ^^ n) st) = sdrop k (snd st)"
    by blast
  let ?st = "(trialResult kT J h ^^ n) st"
  let ?d = "trialDraws J h (fst ?st) (snd ?st)"
  have "snd (trialResult kT J h ?st) = sdrop ?d (snd ?st)"
    using snd_trialResult [of kT J h "fst ?st" "snd ?st"] by simp
  then have "snd ((trialResult kT J h ^^ Suc n) st) = sdrop (k + ?d) (snd st)"
    by (simp add: k(3) sdrop_add add.commute)
  moreover have "2 \<le> ?d" "?d \<le> 3"
    by (simp_all add: trialDraws_def)
  ultimately show ?case
    using k(1,2) by (intro exI [of _ "k + ?d"]) simp
qed

lemma zero_temperature_trial:
  assumes "wf_state st"
  shows "wf_state (trialResult 0 J h st) \<and>
         hamiltonian J h (fst (trialResult 0 J h st)) \<le> hamiltonian J h (fst st)"
proof -
  obtain g r where st: "st = (g, r)" by (cases st)
  with assms have wf: "wf_grid g" by (simp add: wf_state_def)
  show ?thesis
    using wf wf_grid_trialResult [of st 0 J h]
    by (simp add: st wf_state_def hamiltonian_trialResult trialAccepts_zero)
qed

section \<open>Properties of the Metropolis update\<close>

text \<open>
  C16. A run of \<^verbatim>\<open>runMetropolisHastings\<close> on a well-formed grid never throws and
  leaves a well-formed grid, whatever the parameters and the random numbers.
\<close>

theorem runMetropolisHastings_keeps_grid:
  assumes "wf_grid g"
  shows "\<exists>g' r'. runMetropolisHastings kT J h (g, r) = Inr (g', r') \<and> wf_grid g'"
proof -
  have "wf_state (g, r)" using assms by (simp add: wf_state_def)
  from runMetropolisHastings_wf [OF this, of kT J h] show ?thesis
    by (cases "(trialResult kT J h ^^ 100) (g, r)") (simp add: wf_state_def)
qed

theorem runMetropolisHastings_keeps_grid_witness:
  "wf_grid initialSpins \<and>
   (\<exists>g' r'. runMetropolisHastings 50 1 0 (initialSpins, sconst (mkRand (1 / 2))) = Inr (g', r') \<and>
      wf_grid g')"
  using runMetropolisHastings_keeps_grid [of initialSpins 50 1 0 "sconst (mkRand (1 / 2))"]
  by simp

text \<open>
  C2. One trial on a well-formed grid draws a site from the first two random
  numbers, negates that site exactly when the move is accepted (the cost is
  negative, or the third random number passes the uphill test), leaves every
  other site alone and consumes two random numbers when the cost is negative
  and three otherwise.
\<close>

theorem metropolisTrial_flips_drawn_site:
  assumes "wf_grid g"
  shows "\<exists>g' r'. metropolisTrial kT J h (g, r) = Inr (g', r') \<and> wf_grid g' \<and>
           (\<forall>t. inGrid t \<longrightarrow> spinAt g' t =
              (if t = trialSite r \<and> trialAccepts kT J h g r then - spinAt g t else spinAt g t)) \<and>
           r' = sdrop (trialDraws J h g r) r"
proof -
  obtain g' r' where res: "trialResult kT J h (g, r) = (g', r')"
    by (cases "trialResult kT J h (g, r)")
  have "metropolisTrial kT J h (g, r) = Inr (g', r')"
    using assms by (simp add: metropolisTrial_wf res)
  moreover have "wf_grid g'"
    using wf_grid_trialResult [of "(g, r)" kT J h] assms res by simp
  moreover have "spinAt g' t =
      (if t = trialSite r \<and> trialAccepts kT J h g r then - spinAt g t else spinAt g t)"
    if "inGrid t" for t
    using spinAt_trialResult [OF assms that, of kT J h r] res by simp
  moreover have "r' = sdrop (trialDraws J h g r) r"
    using snd_trialResult [of kT J h g r] res by simp
  ultimately show ?thesis by blast
qed

theorem metropolisTrial_flips_drawn_site_witness:
  "wf_grid initialSpins \<and>
   (\<exists>g' r'. metropolisTrial 0 (- 1) 0 (initialSpins, sconst (mkRand (1 / 2))) = Inr (g', r') \<and>
      spinAt g' (5, 5) = - spinAt initialSpins (5, 5) \<and>
      r' = sdrop (trialDraws (- 1) 0 initialSpins (sconst (mkRand (1 / 2)))) (sconst (mkRand (1 / 2))))"
proof -
  have site: "trialSite (sconst (mkRand (1 / 2))) = (5, 5)"
    by (simp add: trialSite_def randomBelow_def gridSize_def)
  have "flipCost (- 1) 0 initialSpins (5, 5) = - 8"
    by (simp add: initialSpins_uniform flipCost_uniform gridSize_def)
  then have acc: "trialAccepts 0 (- 1) 0 initialSpins (sconst (mkRand (1 / 2)))"
    by (simp add: trialAccepts_def site)
  from metropolisTrial_flips_drawn_site [of initialSpins 0 "- 1" 0 "sconst (mkRand (1 / 2))"]
  obtain g' r' where
    "metropolisTrial 0 (- 1) 0 (initialSpins, sconst (mkRand (1 / 2))) = Inr (g', r')"
    "\<forall>t. inGrid t \<longrightarrow> spinAt g' t =
       (if t = trialSite (sconst (mkRand (1 / 2))) \<and>
           trialAccepts 0 (- 1) 0 initialSpins (sconst (mkRand (1 / 2)))
        then - spinAt initialSpins t else spinAt initialSpins t)"
    "r' = sdrop (trialDraws (- 1) 0 initialSpins (sconst (mkRand (1 / 2)))) (sconst (mkRand (1 / 2)))"
    by auto
  moreover have "inGrid (5, 5)" by (simp add: gridSize_def)
  ultimately show ?thesis
    using acc site by auto
qed

text \<open>
  C6. For a positive temperature the acceptance test of the program is the
  Metropolis rule: a move of cost \<open>dE\<close> is accepted exactly when the random number
  is below \<open>min 1 (exp (- dE / T))\<close>, with \<open>T = temperature / 10\<close>.
\<close>

theorem acceptance_rule:
  assumes "0 < kT"
  shows "dE < 0 \<or> acceptUphill kT dE u \<longleftrightarrow> Rep_urand u < metropolisProbability kT dE"
  using assms by (rule acceptance_is_metropolis)

theorem acceptance_rule_witness:
  "(0 :: real) < 50 \<and>
   ((- 8 :: real) < 0 \<or> acceptUphill 50 (- 8) (mkRand (1 / 2)) \<longleftrightarrow>
    Rep_urand (mkRand (1 / 2)) < metropolisProbability 50 (- 8))"
  using acceptance_rule [of 50 "- 8" "mkRand (1 / 2)"] by simp

text \<open>
  C27. At temperature zero the program divides by zero, and the infinite
  \<^verbatim>\<open>beta\<close> makes the uphill test fail: only moves of negative cost are
  accepted, so a run never raises the energy of the lattice.
\<close>

theorem zero_temperature_never_raises_energy:
  assumes "wf_grid g"
  shows "\<exists>g' r'. runMetropolisHastings 0 J h (g, r) = Inr (g', r') \<and>
           hamiltonian J h g' \<le> hamiltonian J h g"
proof -
  have wf: "wf_state (g, r)" using assms by (simp add: wf_state_def)
  have "wf_state ((trialResult 0 J h ^^ 100) (g, r)) \<and>
        hamiltonian J h (fst ((trialResult 0 J h ^^ 100) (g, r))) \<le> hamiltonian J h (fst (g, r))"
    using wf by (rule funpow_keeps_and_bounds) (rule zero_temperature_trial)
  with runMetropolisHastings_wf(1) [OF wf, of 0 J h] show ?thesis
    by (cases "(trialResult 0 J h ^^ 100) (g, r)") simp
qed

theorem zero_temperature_never_raises_energy_witness:
  "wf_grid checkerboard \<and>
   (\<exists>g' r'. runMetropolisHastings 0 1 0 (checkerboard, sconst (mkRand 0)) = Inr (g', r') \<and>
      hamiltonian 1 0 g' \<le> hamiltonian 1 0 checkerboard)"
  using zero_temperature_never_raises_energy [of checkerboard 1 0 "sconst (mkRand 0)"]
  by simp

text \<open>
  C39. A negative temperature is not rejected: every trial then flips the site
  it draws, whatever the cost.
\<close>

theorem negative_temperature_accepts_all:
  assumes "kT < 0" and "wf_grid g"
  shows "\<exists>g' r'. metropolisTrial kT J h (g, r) = Inr (g', r') \<and>
           spinAt g' (trialSite r) = - spinAt g (trialSite r)"
proof -
  obtain g' r' where res: "trialResult kT J h (g, r) = (g', r')"
    by (cases "trialResult kT J h (g, r)")
  have "spinAt g' (trialSite r) = - spinAt g (trialSite r)"
    using spinAt_trialResult [OF assms(2) inGrid_trialSite, of kT J h r r]
      trialAccepts_negative [OF assms(1)] res by simp
  then show ?thesis
    using assms(2) by (simp add: metropolisTrial_wf res)
qed

theorem negative_temperature_accepts_all_witness:
  "(- 1 :: real) < 0 \<and> wf_grid initialSpins \<and>
   (\<exists>g' r'. metropolisTrial (- 1) 1 0 (initialSpins, sconst (mkRand 0)) = Inr (g', r') \<and>
      spinAt g' (trialSite (sconst (mkRand 0))) = - spinAt initialSpins (trialSite (sconst (mkRand 0))))"
  using negative_temperature_accepts_all [of "- 1" initialSpins 1 0 "sconst (mkRand 0)"]
  by simp

text \<open>
  A run consumes between two hundred and three hundred random numbers,
  in order: the stream it leaves is the stream it was given without a prefix of
  that length.
\<close>

theorem runMetropolisHastings_draws:
  assumes "wf_grid g"
  shows "\<exists>g' r' k. runMetropolisHastings kT J h (g, r) = Inr (g', r') \<and>
           200 \<le> k \<and> k \<le> 300 \<and> r' = sdrop k r"
proof -
  have wf: "wf_state (g, r)" using assms by (simp add: wf_state_def)
  from trials_draws [of 100 kT J h "(g, r)"] obtain k where
    "200 \<le> k" "k \<le> 300" "snd ((trialResult kT J h ^^ 100) (g, r)) = sdrop k r"
    by auto
  with runMetropolisHastings_wf(1) [OF wf, of kT J h] show ?thesis
    by (cases "(trialResult kT J h ^^ 100) (g, r)") auto
qed

theorem runMetropolisHastings_draws_witness:
  "wf_grid initialSpins \<and>
   (\<exists>g' r' k. runMetropolisHastings 50 1 0 (initialSpins, sconst (mkRand 0)) = Inr (g', r') \<and>
      200 \<le> k \<and> k \<le> 300 \<and> r' = sdrop k (sconst (mkRand 0)))"
  using runMetropolisHastings_draws [of initialSpins 50 1 0 "sconst (mkRand 0)"]
  by simp

section \<open>Detailed balance\<close>

lemma metropolis_balance:
  fixes kT dE E :: real
  assumes "0 < kT"
  shows "metropolisProbability kT dE * exp (- E / (kT / 10)) =
         metropolisProbability kT (- dE) * exp (- (E + dE) / (kT / 10))"
proof -
  define T where "T = kT / 10"
  define up where "up = exp (- dE / T)"
  define down where "down = exp (- (- dE) / T)"
  define w where "w = exp (- E / T)"
  define w' where "w' = exp (- (E + dE) / T)"
  have T: "0 < T"
    using assms by (simp add: T_def)
  have "- (E + dE) / T = - E / T + - dE / T"
    by (simp add: diff_divide_distrib)
  then have split: "w' = w * up"
    unfolding w'_def w_def up_def by (simp only: exp_add)
  have inverse: "down * up = 1"
    by (simp add: down_def up_def exp_add [symmetric])
  have "min 1 up * w = min 1 down * w'"
  proof (cases "0 \<le> dE")
    case True
    with T have "up \<le> 1" "1 \<le> down"
      by (simp_all add: up_def down_def divide_nonpos_pos)
    then show ?thesis
      by (simp add: min_def split)
  next
    case False
    with T have "1 < up" "down < 1"
      by (simp_all add: up_def down_def divide_neg_pos)
    moreover have "down * (w * up) = w * (down * up)"
      by (simp add: mult_ac)
    ultimately show ?thesis
      by (simp add: min_def split inverse)
  qed
  then show ?thesis
    by (simp only: metropolisProbability_def T_def up_def down_def w_def w'_def)
qed

text \<open>
  C13. The single-site move satisfies detailed balance at the temperature
  \<open>kT / 10\<close>: the Boltzmann weight of a grid times the probability of accepting
  the flip of a site is the Boltzmann weight of the flipped grid times the
  probability of accepting the flip back, where both costs are the ones
  \<^verbatim>\<open>deltaEnergy\<close> returns.
\<close>

theorem metropolis_detailed_balance:
  assumes "wf_grid g" and "row < gridSize" and "col < gridSize" and "0 < kT"
  shows "\<exists>dE g' dE'. deltaEnergy g row col J h = Inr dE \<and> flipSite g row col = Inr g' \<and>
           deltaEnergy g' row col J h = Inr dE' \<and>
           metropolisProbability kT dE * exp (- hamiltonian J h g / (kT / 10)) =
           metropolisProbability kT dE' * exp (- hamiltonian J h g' / (kT / 10))"
proof -
  let ?s = "(row, col)"
  from assms(2,3) have s: "inGrid ?s" by simp
  have cost: "deltaEnergy g row col J h = Inr (flipCost J h g ?s)"
    using assms(1-3) by (simp add: deltaEnergy_wf)
  have flip: "flipSite g row col = Inr (flipAt ?s g)"
    using flipSite_wf [OF assms(1) s] by simp
  have reverse: "deltaEnergy (flipAt ?s g) row col J h = Inr (- flipCost J h g ?s)"
    using assms(2,3) wf_grid_flipAt [OF assms(1) s]
    by (simp add: deltaEnergy_wf flipCost_flipAt [OF assms(1) s])
  have "hamiltonian J h g + flipCost J h g ?s = hamiltonian J h (flipAt ?s g)"
    using hamiltonian_flipAt [OF assms(1) s, of J h] by simp
  with metropolis_balance [OF assms(4), of "flipCost J h g ?s" "hamiltonian J h g"]
  have "metropolisProbability kT (flipCost J h g ?s) * exp (- hamiltonian J h g / (kT / 10)) =
        metropolisProbability kT (- flipCost J h g ?s) *
          exp (- hamiltonian J h (flipAt ?s g) / (kT / 10))"
    by (simp only:)
  with cost flip reverse show ?thesis
    by blast
qed

theorem metropolis_detailed_balance_witness:
  "\<exists>dE g' dE'. deltaEnergy checkerboard 2 7 1 0 = Inr dE \<and> flipSite checkerboard 2 7 = Inr g' \<and>
     deltaEnergy g' 2 7 1 0 = Inr dE' \<and>
     metropolisProbability 50 dE * exp (- hamiltonian 1 0 checkerboard / (50 / 10)) =
     metropolisProbability 50 dE' * exp (- hamiltonian 1 0 g' / (50 / 10))"
  using metropolis_detailed_balance [of checkerboard 2 7 50 1 0]
  by (simp add: gridSize_def del: divide_divide_eq_left divide_divide_eq_right)

end
