(* ===== verification/Wolff.thy ===== *)
theory Wolff
  imports Energy
begin

text \<open>
  The Wolff cluster update of \<^verbatim>\<open>script.js\<close>, function \<^verbatim>\<open>runWolffCluster\<close>: it
  draws a seed site, grows one cluster of sites from it with a stack, and flips
  every site of the cluster.

  \<^item> \<open>bondAccept\<close> is the last operand of the condition under which a neighbour
    is pushed, \<^verbatim>\<open>Math.random() < 1 - Math.exp(-2 * J / (kT / 10))\<close>. With
    \<^verbatim>\<open>temperature\<close> zero the program divides by zero: the quotient is
    \<^verbatim>\<open>-Infinity\<close> for a positive \<^verbatim>\<open>J\<close> (the bound is 1 and every number drawn
    is below it), \<^verbatim>\<open>Infinity\<close> for a negative and \<^verbatim>\<open>NaN\<close> for a zero \<^verbatim>\<open>J\<close> (the
    comparison is false). The case is written out.
  \<^item> \<open>tryNeighbour\<close> is the body of the \<^verbatim>\<open>forEach\<close> over the four directions.
    The operands of \<^verbatim>\<open>&&\<close> are evaluated from the left, so a random number is
    drawn only for a neighbour that has the seed's spin and is not in the
    cluster. Cells are compared with \<^verbatim>\<open>===\<close>, under which a hole equals a hole.
  \<^item> \<open>growCluster\<close> is the \<^verbatim>\<open>while\<close> loop. Its state is the stack, the cluster
    and the random stream; the head of the list \<open>stack\<close> is the top of the
    stack, so \<^verbatim>\<open>pop\<close> takes the head and \<^verbatim>\<open>push\<close> is \<open>#\<close>, and the cluster is in
    the order of its \<^verbatim>\<open>push\<close>es. The loop ends on every input: a site is added
    to the cluster at most once and every site pushed is a site of the grid.
  \<^item> \<open>runWolffCluster\<close> draws the seed, runs the loop and flips the cluster.
    The constants \<^verbatim>\<open>h\<close> and \<^verbatim>\<open>beta\<close> of the function are never used; \<^verbatim>\<open>h\<close> is
    kept as a parameter so that both engines are called alike.
\<close>

section \<open>The program\<close>

definition bondAccept :: "number \<Rightarrow> number \<Rightarrow> urand \<Rightarrow> bool" where
  "bondAccept kT J u =
     (if kT = 0 then 0 < J else Rep_urand u < 1 - exp (- 2 * J / (kT / 10)))"

definition tryNeighbour ::
  "grid \<Rightarrow> cell \<Rightarrow> number \<Rightarrow> number \<Rightarrow> site \<Rightarrow> site list \<Rightarrow> site list \<times> rng \<Rightarrow> int \<times> int \<Rightarrow>
   (site list \<times> rng) js" where
  "tryNeighbour g initialSpin kT J s cluster st d =
     (let stack = fst st; r = snd st;
          ni = wrapIndex (fst s) (fst d);
          nj = wrapIndex (snd s) (snd d)
      in bindJs (readSpin g ni nj) (\<lambda>c.
           if c = initialSpin \<and> (ni, nj) \<notin> set cluster then
             (if bondAccept kT J (shd r) then Inr ((ni, nj) # stack, stl r)
              else Inr (stack, stl r))
           else Inr (stack, r)))"

function growCluster ::
  "grid \<Rightarrow> cell \<Rightarrow> number \<Rightarrow> number \<Rightarrow> site list \<Rightarrow> site list \<Rightarrow> rng \<Rightarrow> (site list \<times> rng) js" where
  "growCluster g initialSpin kT J [] cluster r = Inr (cluster, r)"
| "growCluster g initialSpin kT J (s # stack) cluster r =
     (if s \<in> set cluster then growCluster g initialSpin kT J stack cluster r
      else
        let cluster' = cluster @ [s] in
        bindJs (foldJs (tryNeighbour g initialSpin kT J s cluster') (stack, r) directions)
          (\<lambda>st. growCluster g initialSpin kT J (fst st) cluster' (snd st)))"
  by pat_completeness auto

definition runWolffCluster :: "number \<Rightarrow> number \<Rightarrow> number \<Rightarrow> grid \<times> rng \<Rightarrow> (grid \<times> rng) js" where
  "runWolffCluster kT J h st =
     (let g = fst st; r = snd st;
          startRow = randomBelow (shd r) gridSize;
          startCol = randomBelow (shd (stl r)) gridSize;
          r = stl (stl r)
      in bindJs (readSpin g startRow startCol) (\<lambda>initialSpin.
         bindJs (growCluster g initialSpin kT J [(startRow, startCol)] [] r) (\<lambda>(cluster, r).
         bindJs (foldJs (\<lambda>g s. flipSite g (fst s) (snd s)) g cluster) (\<lambda>g. Inr (g, r)))))"

section \<open>The specification\<close>

text \<open>
  \<open>seedSite\<close> is the site the first two random numbers choose. \<open>visit\<close> is what
  one round of the \<^verbatim>\<open>forEach\<close> does to the stack and the stream on a well-formed
  grid, \<open>flipAll\<close> the final \<^verbatim>\<open>forEach\<close> over the cluster. \<open>reach S seed\<close> is the
  set of sites that can be reached from the seed by steps to a neighbour that
  stay inside \<open>S\<close>.
\<close>

definition seedSite :: "rng \<Rightarrow> site" where
  "seedSite r = (randomBelow (shd r) gridSize, randomBelow (shd (stl r)) gridSize)"

definition visit ::
  "grid \<Rightarrow> cell \<Rightarrow> number \<Rightarrow> number \<Rightarrow> site \<Rightarrow> site list \<Rightarrow> site list \<times> rng \<Rightarrow> int \<times> int \<Rightarrow>
   site list \<times> rng" where
  "visit g c kT J s cluster st d =
     (let n = neighbour s d in
      if cellAt g n = c \<and> n \<notin> set cluster
      then (if bondAccept kT J (shd (snd st)) then n # fst st else fst st, stl (snd st))
      else st)"

definition flipAll :: "site list \<Rightarrow> grid \<Rightarrow> grid" where
  "flipAll cluster g = foldl (\<lambda>g s. flipAt s g) g cluster"

inductive_set reach :: "site set \<Rightarrow> site \<Rightarrow> site set" for S :: "site set" and seed :: site where
  seed: "seed \<in> S \<Longrightarrow> seed \<in> reach S seed"
| step: "s \<in> reach S seed \<Longrightarrow> d \<in> set directions \<Longrightarrow> neighbour s d \<in> S \<Longrightarrow>
         neighbour s d \<in> reach S seed"

text \<open>
  The contract of a cluster grown from the seed \<open>s0\<close> on the grid \<open>g\<close>: it starts
  with the seed, has no site twice, all its sites carry the seed's spin, and
  each of them is joined to the seed by a chain of neighbours inside the
  cluster. \<open>clusterInv\<close> is the invariant of the loop that establishes it.
\<close>

definition wolffCluster :: "grid \<Rightarrow> site \<Rightarrow> site list \<Rightarrow> bool" where
  "wolffCluster g s0 cluster \<longleftrightarrow>
     cluster \<noteq> [] \<and> hd cluster = s0 \<and> distinct cluster \<and>
     (\<forall>s \<in> set cluster. inGrid s \<and> cellAt g s = cellAt g s0 \<and> s \<in> reach (set cluster) s0)"

definition clusterInv :: "grid \<Rightarrow> site \<Rightarrow> site list \<Rightarrow> site list \<Rightarrow> bool" where
  "clusterInv g s0 stack cluster \<longleftrightarrow>
     wolffCluster g s0 cluster \<and>
     (\<forall>s \<in> set stack. cellAt g s = cellAt g s0 \<and>
        (\<exists>p \<in> set cluster. \<exists>d \<in> set directions. s = neighbour p d))"

definition component :: "grid \<Rightarrow> site \<Rightarrow> site set" where
  "component g s0 = reach {t. inGrid t \<and> cellAt g t = cellAt g s0} s0"

definition closedInv :: "grid \<Rightarrow> site \<Rightarrow> site list \<Rightarrow> site list \<Rightarrow> bool" where
  "closedInv g s0 stack cluster \<longleftrightarrow>
     (\<forall>s \<in> set cluster. \<forall>d \<in> set directions.
        cellAt g (neighbour s d) = cellAt g s0 \<longrightarrow> neighbour s d \<in> set cluster \<union> set stack)"

definition drawsInv :: "rng \<Rightarrow> site list \<Rightarrow> rng \<Rightarrow> bool" where
  "drawsInv r0 cluster r \<longleftrightarrow> (\<exists>k. k \<le> 4 * length cluster \<and> r = sdrop k r0)"

section \<open>The loop ends\<close>

text \<open>Whatever the grid, the body of the \<^verbatim>\<open>forEach\<close> only pushes sites of the grid.\<close>

lemma tryNeighbour_pushes:
  assumes "d \<in> set directions" and "tryNeighbour g c kT J s cluster (stack, r) d = Inr (stack', r')"
  shows "set stack' \<subseteq> {t. inGrid t} \<union> set stack"
  using assms directions_ge [OF assms(1)]
  by (auto simp: tryNeighbour_def Let_def bindJs_Inr_iff inGrid_def split: if_splits)

lemma visit_pushes:
  assumes "foldJs (tryNeighbour g c kT J s cluster) (stack, r) ds = Inr (stack', r')"
    and "set ds \<subseteq> set directions"
  shows "set stack' \<subseteq> {t. inGrid t} \<union> set stack"
  using assms
proof (induction ds arbitrary: stack r)
  case Nil
  then show ?case by auto
next
  case (Cons d ds)
  from Cons.prems(1) obtain stack1 r1
    where d: "tryNeighbour g c kT J s cluster (stack, r) d = Inr (stack1, r1)"
      and ds: "foldJs (tryNeighbour g c kT J s cluster) (stack1, r1) ds = Inr (stack', r')"
    by (auto simp: bindJs_Inr_iff)
  from tryNeighbour_pushes [OF _ d] Cons.IH [OF ds] Cons.prems(2) show ?case
    by auto
qed

termination growCluster
proof (relation "inv_image (finite_psubset <*lex*> less_than)
    (\<lambda>(g, c, kT, J, stack, cluster, r). (({t. inGrid t} \<union> set stack) - set cluster, length stack))",
    goal_cases)
  case 1
  show ?case by (intro wf_inv_image wf_lex_prod wf_finite_psubset wf_less_than)
next
  case (2 g c kT J s stack cluster r)
  then have "({t. inGrid t} \<union> set stack) - set cluster = ({t. inGrid t} \<union> set (s # stack)) - set cluster"
    by auto
  then show ?case by simp
next
  case (3 g c kT J s stack cluster r cluster' st)
  from visit_pushes [of g c kT J s cluster' stack r directions "fst st" "snd st"] 3(3)
  have "set (fst st) \<subseteq> {t. inGrid t} \<union> set stack" by simp
  with 3(1,2) have "({t. inGrid t} \<union> set (fst st)) - set cluster' \<subset>
      ({t. inGrid t} \<union> set (s # stack)) - set cluster"
    by auto
  then show ?case by (simp add: finite_psubset_def)
qed

section \<open>One round of the loop on a well-formed grid\<close>

lemma inGrid_seedSite [simp]: "inGrid (seedSite r)"
  by (simp add: seedSite_def)

lemma tryNeighbour_wf [on_wf]:
  assumes "wf_grid g" and "d \<in> set directions"
  shows "tryNeighbour g c kT J s cluster st d = Inr (visit g c kT J s cluster st d)"
  using readSpin_neighbour [OF assms, of "fst s" "snd s"]
  by (cases st) (simp add: tryNeighbour_def visit_def Let_def neighbour_def)

lemma visit_round_wf [on_wf]:
  assumes "wf_grid g"
  shows "foldJs (tryNeighbour g c kT J s cluster) st directions =
         Inr (foldl (visit g c kT J s cluster) st directions)"
  by (rule foldJs_total) (rule tryNeighbour_wf [OF assms])

text \<open>What one neighbour adds to the stack, and how many random numbers it draws.\<close>

lemma visit_step:
  "\<exists>p j. visit g c kT J s cluster (stack, r) d = (p @ stack, sdrop j r) \<and> j \<le> 1 \<and>
         set p \<subseteq> {n. n = neighbour s d \<and> cellAt g n = c \<and> n \<notin> set cluster}"
proof (cases "cellAt g (neighbour s d) = c \<and> neighbour s d \<notin> set cluster")
  case True
  then show ?thesis
    by (intro exI [of _ "if bondAccept kT J (shd r) then [neighbour s d] else []"] exI [of _ 1])
       (auto simp: visit_def)
next
  case False
  then show ?thesis
    by (intro exI [of _ "[]"] exI [of _ 0]) (auto simp: visit_def)
qed

text \<open>The same for a round over several directions.\<close>

lemma visit_round:
  "\<exists>ps k. foldl (visit g c kT J s cluster) (stack, r) ds = (ps @ stack, sdrop k r) \<and>
          k \<le> length ds \<and>
          set ps \<subseteq> {n. \<exists>d \<in> set ds. n = neighbour s d \<and> cellAt g n = c \<and> n \<notin> set cluster}"
proof (induction ds arbitrary: stack r)
  case Nil
  show ?case by (intro exI [of _ "[]"] exI [of _ 0]) simp
next
  case (Cons d ds)
  from visit_step [of g c kT J s cluster stack r d]
  obtain p j where first: "visit g c kT J s cluster (stack, r) d = (p @ stack, sdrop j r)"
    and j: "j \<le> 1"
    and p: "set p \<subseteq> {n. n = neighbour s d \<and> cellAt g n = c \<and> n \<notin> set cluster}"
    by blast
  from Cons.IH [of "p @ stack" "sdrop j r"] obtain ps k
    where rest: "foldl (visit g c kT J s cluster) (p @ stack, sdrop j r) ds =
                 (ps @ p @ stack, sdrop k (sdrop j r))"
      and k: "k \<le> length ds"
      and ps: "set ps \<subseteq> {n. \<exists>d \<in> set ds. n = neighbour s d \<and> cellAt g n = c \<and> n \<notin> set cluster}"
    by blast
  show ?case
  proof (intro exI [of _ "ps @ p"] exI [of _ "j + k"] conjI)
    show "foldl (visit g c kT J s cluster) (stack, r) (d # ds) = ((ps @ p) @ stack, sdrop (j + k) r)"
      by (simp add: first rest sdrop_add add.commute)
    show "j + k \<le> length (d # ds)"
      using j k by simp
    show "set (ps @ p) \<subseteq>
          {n. \<exists>d \<in> set (d # ds). n = neighbour s d \<and> cellAt g n = c \<and> n \<notin> set cluster}"
      using p ps by auto
  qed
qed

text \<open>The numbers a round leaves are numbers of the stream it was given.\<close>

lemma sset_visit_round:
  "sset (snd (foldl (visit g c kT J s cluster) (stack, r) ds)) \<subseteq> sset r"
proof -
  from visit_round [of g c kT J s cluster stack r ds]
  obtain k where "snd (foldl (visit g c kT J s cluster) (stack, r) ds) = sdrop k r" by auto
  then show ?thesis by (simp add: sset_sdrop_subset)
qed

text \<open>When no number of the stream passes the bond test a round leaves the stack as it is.\<close>

lemma visit_round_never:
  assumes "\<forall>u \<in> sset r. \<not> bondAccept kT J u"
  shows "fst (foldl (visit g c kT J s cluster) (stack, r) ds) = stack"
  using assms
proof (induction ds arbitrary: r)
  case Nil
  show ?case by simp
next
  case (Cons d ds)
  from Cons.prems have reject: "\<not> bondAccept kT J (shd r)"
    and rest: "\<forall>u \<in> sset (stl r). \<not> bondAccept kT J u"
    by (auto simp: shd_sset dest: stl_sset)
  from reject have "visit g c kT J s cluster (stack, r) d = (stack, r) \<or>
             visit g c kT J s cluster (stack, r) d = (stack, stl r)"
    by (simp add: visit_def Let_def)
  with Cons.IH [OF Cons.prems] Cons.IH [OF rest] show ?case
    by auto
qed

text \<open>When every number of the stream passes it a round pushes every candidate.\<close>

lemma visit_round_always:
  assumes "\<forall>u \<in> sset r. bondAccept kT J u"
  shows "set (fst (foldl (visit g c kT J s cluster) (stack, r) ds)) =
         set stack \<union> {n. \<exists>d \<in> set ds. n = neighbour s d \<and> cellAt g n = c \<and> n \<notin> set cluster}"
  using assms
proof (induction ds arbitrary: stack r)
  case Nil
  show ?case by simp
next
  case (Cons d ds)
  let ?n = "neighbour s d"
  from Cons.prems have accept: "bondAccept kT J (shd r)" and rest: "\<forall>u \<in> sset (stl r). bondAccept kT J u"
    by (auto simp: shd_sset dest: stl_sset)
  show ?case
  proof (cases "cellAt g ?n = c \<and> ?n \<notin> set cluster")
    case True
    with accept have "visit g c kT J s cluster (stack, r) d = (?n # stack, stl r)"
      by (simp add: visit_def Let_def)
    with Cons.IH [OF rest, of "?n # stack"] True show ?thesis by auto
  next
    case False
    then have "visit g c kT J s cluster (stack, r) d = (stack, r)"
      by (auto simp: visit_def Let_def)
    with Cons.IH [OF Cons.prems, of stack] False show ?thesis by auto
  qed
qed

section \<open>An invariant rule for the loop\<close>

lemma growCluster_rule:
  assumes wf: "wf_grid g"
    and init: "I stack cluster r"
    and pop: "\<And>s stack cluster r. I (s # stack) cluster r \<Longrightarrow> s \<in> set cluster \<Longrightarrow> I stack cluster r"
    and round: "\<And>s stack cluster r stack' r'. I (s # stack) cluster r \<Longrightarrow> s \<notin> set cluster \<Longrightarrow>
       foldl (visit g c kT J s (cluster @ [s])) (stack, r) directions = (stack', r') \<Longrightarrow>
       I stack' (cluster @ [s]) r'"
  shows "\<exists>cluster' r'. growCluster g c kT J stack cluster r = Inr (cluster', r') \<and> I [] cluster' r'"
  using assms
proof (induction g c kT J stack cluster r rule: growCluster.induct)
  case (1 g c kT J cluster r)
  then show ?case by simp
next
  case (2 g c kT J s stack cluster r)
  note wf = "2.prems"(1) and pop = "2.prems"(3) and round = "2.prems"(4)
  show ?case
  proof (cases "s \<in> set cluster")
    case True
    from pop [OF "2.prems"(2) True] have "I stack cluster r" .
    from "2.IH"(1) [OF True wf this pop round] True show ?thesis
      by simp
  next
    case False
    obtain stack' r' where st: "foldl (visit g c kT J s (cluster @ [s])) (stack, r) directions = (stack', r')"
      by (cases "foldl (visit g c kT J s (cluster @ [s])) (stack, r) directions")
    then have run: "foldJs (tryNeighbour g c kT J s (cluster @ [s])) (stack, r) directions = Inr (stack', r')"
      by (simp add: visit_round_wf [OF wf])
    have "I stack' (cluster @ [s]) r'"
      by (rule round [OF "2.prems"(2) False st])
    from "2.IH"(2) [OF False refl run wf _ pop round] this False run show ?thesis
      by simp
  qed
qed

section \<open>The invariant of the loop\<close>

lemma reach_mono: "s \<in> reach S s0 \<Longrightarrow> S \<subseteq> T \<Longrightarrow> s \<in> reach T s0"
  by (induction rule: reach.induct) (auto intro: reach.intros)

lemma reach_subset: "s \<in> reach S s0 \<Longrightarrow> s \<in> S"
  by (induction rule: reach.induct) auto

lemma length_directions [simp]: "length directions = 4"
  by (simp add: directions_def)

lemma wolffCluster_seed: "inGrid s0 \<Longrightarrow> wolffCluster g s0 [s0]"
  by (simp add: wolffCluster_def reach.seed)

lemma wolffCluster_grow:
  assumes "wolffCluster g s0 cluster" and "s \<notin> set cluster" and "cellAt g s = cellAt g s0"
    and "p \<in> set cluster" and "d \<in> set directions" and "s = neighbour p d"
  shows "wolffCluster g s0 (cluster @ [s])"
proof -
  have old: "t \<in> reach (set (cluster @ [s])) s0" if "t \<in> set cluster" for t
    using assms(1) that by (auto simp: wolffCluster_def intro: reach_mono [where S = "set cluster"])
  from reach.step [OF old [OF assms(4)] assms(5)] assms(6)
  have "s \<in> reach (set (cluster @ [s])) s0" by simp
  with old assms show ?thesis
    by (auto simp: wolffCluster_def)
qed

lemma clusterInv_seed:
  assumes "inGrid s0"
    and "foldl (visit g (cellAt g s0) kT J s0 [s0]) ([], r) directions = (stack, r')"
  shows "clusterInv g s0 stack [s0]"
  using visit_round [of g "cellAt g s0" kT J s0 "[s0]" "[]" r directions] assms
  by (auto simp: clusterInv_def wolffCluster_seed)

lemma clusterInv_pop: "clusterInv g s0 (s # stack) cluster \<Longrightarrow> clusterInv g s0 stack cluster"
  by (simp add: clusterInv_def)

lemma clusterInv_round:
  assumes inv: "clusterInv g s0 (s # stack) cluster" and new: "s \<notin> set cluster"
    and round: "foldl (visit g (cellAt g s0) kT J s (cluster @ [s])) (stack, r) directions = (stack', r')"
  shows "clusterInv g s0 stack' (cluster @ [s])"
proof -
  from inv obtain p d where s: "cellAt g s = cellAt g s0" "p \<in> set cluster" "d \<in> set directions"
      "s = neighbour p d"
    by (auto simp: clusterInv_def)
  from inv have "wolffCluster g s0 cluster"
    by (simp add: clusterInv_def)
  then have grown: "wolffCluster g s0 (cluster @ [s])"
    using new s by (rule wolffCluster_grow)
  from visit_round [of g "cellAt g s0" kT J s "cluster @ [s]" stack r directions] round
  obtain ps where "stack' = ps @ stack"
    and "set ps \<subseteq> {n. \<exists>d \<in> set directions. n = neighbour s d \<and> cellAt g n = cellAt g s0}"
    by auto
  with inv grown show ?thesis
    by (fastforce simp: clusterInv_def)
qed

lemma drawsInv_round:
  assumes "drawsInv r0 cluster r"
    and "foldl (visit g c kT J s cluster') (stack, r) directions = (stack', r')"
  shows "drawsInv r0 (cluster @ [s]) r'"
proof -
  from assms(1) obtain k where k: "k \<le> 4 * length cluster" "r = sdrop k r0"
    by (auto simp: drawsInv_def)
  from visit_round [of g c kT J s cluster' stack r directions] assms(2)
  obtain j where j: "j \<le> 4" "r' = sdrop j r"
    by auto
  show ?thesis
    unfolding drawsInv_def
    by (rule exI [of _ "k + j"]) (use k j in \<open>simp add: sdrop_add add.commute\<close>)
qed

text \<open>The loop, started as \<^verbatim>\<open>runWolffCluster\<close> starts it, returns a cluster.\<close>

lemma growCluster_from_seed:
  assumes "wf_grid g" and "inGrid s0"
  shows "\<exists>cluster r'. growCluster g (cellAt g s0) kT J [s0] [] r = Inr (cluster, r') \<and>
           wolffCluster g s0 cluster \<and> drawsInv r cluster r'"
proof -
  let ?c = "cellAt g s0"
  let ?I = "\<lambda>stack cluster r'. clusterInv g s0 stack cluster \<and> drawsInv r cluster r'"
  obtain stack r1 where first: "foldl (visit g ?c kT J s0 [s0]) ([], r) directions = (stack, r1)"
    by (cases "foldl (visit g ?c kT J s0 [s0]) ([], r) directions")
  have "drawsInv r [] r"
    by (auto simp: drawsInv_def intro: exI [of _ 0])
  from drawsInv_round [OF this first] clusterInv_seed [OF assms(2) first]
  have "?I stack [s0] r1" by simp
  with assms(1) have "\<exists>cluster r'. growCluster g ?c kT J stack [s0] r1 = Inr (cluster, r') \<and>
      ?I [] cluster r'"
    by (rule growCluster_rule) (auto intro: clusterInv_pop clusterInv_round drawsInv_round)
  then show ?thesis
    using first assms(1) by (simp add: visit_round_wf clusterInv_def)
qed

section \<open>Flipping the cluster\<close>

lemma flipAll_simps [simp]:
  "flipAll [] g = g" "flipAll (s # cluster) g = flipAll cluster (flipAt s g)"
  by (simp_all add: flipAll_def)

lemma flipLoop_wf [on_wf]:
  assumes "wf_grid g" and "\<forall>s \<in> set cluster. inGrid s"
  shows "foldJs (\<lambda>g s. flipSite g (fst s) (snd s)) g cluster = Inr (flipAll cluster g)"
  using assms by (induction cluster arbitrary: g) (simp_all add: flipSite_wf wf_grid_flipAt)

lemma wf_grid_flipAll [wf_keeps]:
  assumes "wf_grid g" and "\<forall>s \<in> set cluster. inGrid s"
  shows "wf_grid (flipAll cluster g)"
  using assms by (induction cluster arbitrary: g) (simp_all add: wf_grid_flipAt)

lemma cellAt_flipAll:
  assumes "wf_grid g" and "\<forall>s \<in> set cluster. inGrid s" and "distinct cluster" and "inGrid t"
  shows "cellAt (flipAll cluster g) t =
         (if t \<in> set cluster then Some (flipped (cellAt g t)) else cellAt g t)"
  using assms
  by (induction cluster arbitrary: g) (auto simp: wf_grid_flipAt cellAt_flipAt)

lemma spinAt_flipAll:
  assumes "wf_grid g" and "\<forall>s \<in> set cluster. inGrid s" and "distinct cluster" and "inGrid t"
  shows "spinAt (flipAll cluster g) t = (if t \<in> set cluster then - spinAt g t else spinAt g t)"
  using cellAt_flipAll [OF assms] cellAt_Some [OF assms(1,4)]
  by (auto simp: spinAt_def)

lemma wolffCluster_inGrid: "wolffCluster g s0 cluster \<Longrightarrow> \<forall>s \<in> set cluster. inGrid s"
  by (simp add: wolffCluster_def)

section \<open>What a call of runWolffCluster returns\<close>

lemma runWolffCluster_wf [on_wf]:
  assumes "wf_grid g"
  shows "\<exists>cluster r'. runWolffCluster kT J h (g, r) = Inr (flipAll cluster g, r') \<and>
           wolffCluster g (seedSite r) cluster \<and> drawsInv (stl (stl r)) cluster r'"
proof -
  let ?s = "seedSite r"
  have seed: "readSpin g (fst ?s) (snd ?s) = Inr (cellAt g ?s)"
    using assms by (simp add: readSpin_cellAt seedSite_def)
  from growCluster_from_seed [OF assms inGrid_seedSite, of r kT J "stl (stl r)"]
  obtain cluster r' where grow: "growCluster g (cellAt g ?s) kT J [?s] [] (stl (stl r)) = Inr (cluster, r')"
    and cluster: "wolffCluster g ?s cluster" and draws: "drawsInv (stl (stl r)) cluster r'"
    by blast
  have "runWolffCluster kT J h (g, r) = Inr (flipAll cluster g, r')"
    using seed grow flipLoop_wf [OF assms wolffCluster_inGrid [OF cluster]]
    by (simp add: runWolffCluster_def Let_def seedSite_def)
  with cluster draws show ?thesis by blast
qed

text \<open>The magnetic field plays no part in the cluster update.\<close>

lemma runWolffCluster_ignores_field: "runWolffCluster kT J h st = runWolffCluster kT J h' st"
  by (simp add: runWolffCluster_def)

section \<open>The bond test\<close>

lemma bondAccept_never:
  assumes "(0 \<le> kT \<and> J \<le> 0) \<or> (kT < 0 \<and> 0 \<le> J)"
  shows "\<not> bondAccept kT J u"
proof (cases "kT = 0")
  case True
  with assms show ?thesis by (simp add: bondAccept_def)
next
  case False
  with assms have "J / kT \<le> 0"
    by (auto simp: divide_le_0_iff)
  moreover have "- 2 * J / (kT / 10) = - 20 * (J / kT)"
    by simp
  ultimately have "0 \<le> - 2 * J / (kT / 10)"
    by simp
  then have "1 - exp (- 2 * J / (kT / 10)) \<le> 0"
    by simp
  then have "\<not> Rep_urand u < 1 - exp (- 2 * J / (kT / 10))"
    using Rep_urand_ge [of u] by linarith
  with False show ?thesis by (simp add: bondAccept_def)
qed

lemma bondAccept_always: "0 < J \<Longrightarrow> bondAccept 0 J u"
  by (simp add: bondAccept_def)

lemma bond_probability:
  fixes kT J :: real
  assumes "0 < kT" and "0 < J"
  shows "0 < 1 - exp (- 2 * J / (kT / 10))" and "1 - exp (- 2 * J / (kT / 10)) < 1"
proof -
  from assms have "- 2 * J / (kT / 10) < 0"
    by (simp add: divide_neg_pos)
  then show "0 < 1 - exp (- 2 * J / (kT / 10))" by simp
  show "1 - exp (- 2 * J / (kT / 10)) < 1" by simp
qed

section \<open>The loop when no bond or every bond is accepted\<close>

lemma growCluster_rejecting:
  assumes "wf_grid g" and "\<forall>u \<in> sset r. \<not> bondAccept kT J u"
  shows "\<exists>r'. growCluster g c kT J [s0] [] r = Inr ([s0], r')"
proof -
  obtain stack r' where round: "foldl (visit g c kT J s0 [s0]) ([], r) directions = (stack, r')"
    by (cases "foldl (visit g c kT J s0 [s0]) ([], r) directions")
  with visit_round_never [OF assms(2), of g c s0 "[s0]" "[]" directions]
  have "stack = []" by simp
  with round assms(1) show ?thesis
    by (simp add: visit_round_wf)
qed

lemma closedInv_round:
  assumes accept: "\<forall>u \<in> sset r. bondAccept kT J u"
    and inv: "closedInv g s0 (s # stack) cluster"
    and round: "foldl (visit g (cellAt g s0) kT J s (cluster @ [s])) (stack, r) directions = (stack', r')"
  shows "closedInv g s0 stack' (cluster @ [s])"
proof -
  from visit_round_always [OF accept, of g "cellAt g s0" s "cluster @ [s]" stack directions] round
  have "set stack' = set stack \<union>
      {n. \<exists>d \<in> set directions. n = neighbour s d \<and> cellAt g n = cellAt g s0 \<and> n \<notin> set (cluster @ [s])}"
    by simp
  with inv show ?thesis
    unfolding closedInv_def by auto
qed

lemma closedInv_pop:
  "closedInv g s0 (s # stack) cluster \<Longrightarrow> s \<in> set cluster \<Longrightarrow> closedInv g s0 stack cluster"
  unfolding closedInv_def by auto

lemma closed_cluster_is_component:
  assumes "wolffCluster g s0 cluster" and "closedInv g s0 [] cluster"
  shows "set cluster = component g s0"
proof (intro set_eqI iffI)
  fix t assume "t \<in> set cluster"
  with assms(1) have "t \<in> reach (set cluster) s0" and "set cluster \<subseteq> {t. inGrid t \<and> cellAt g t = cellAt g s0}"
    by (auto simp: wolffCluster_def)
  then show "t \<in> component g s0"
    unfolding component_def by (rule reach_mono)
next
  fix t assume "t \<in> component g s0"
  then have "t \<in> reach {t. inGrid t \<and> cellAt g t = cellAt g s0} s0"
    by (simp add: component_def)
  then show "t \<in> set cluster"
  proof (induction rule: reach.induct)
    case seed
    from assms(1) show ?case
      by (cases cluster) (simp_all add: wolffCluster_def)
  next
    case (step s d)
    with assms(2) show ?case
      by (auto simp: closedInv_def)
  qed
qed

text \<open>
  The invariant of the loop on a stream of numbers that all pass the bond
  test: the cluster is closed up to the stack, and the numbers left are numbers
  of such a stream.
\<close>

lemma acceptingInv_round:
  assumes inv: "clusterInv g s0 (s # stack) cluster \<and> closedInv g s0 (s # stack) cluster \<and>
      (\<forall>u \<in> sset r. bondAccept kT J u)"
    and new: "s \<notin> set cluster"
    and round: "foldl (visit g (cellAt g s0) kT J s (cluster @ [s])) (stack, r) directions = (stack', r')"
  shows "clusterInv g s0 stack' (cluster @ [s]) \<and> closedInv g s0 stack' (cluster @ [s]) \<and>
      (\<forall>u \<in> sset r'. bondAccept kT J u)"
proof (intro conjI)
  from inv new round show "clusterInv g s0 stack' (cluster @ [s])"
    by (intro clusterInv_round) simp_all
  from inv round show "closedInv g s0 stack' (cluster @ [s])"
    by (intro closedInv_round [where r = r]) simp_all
  from sset_visit_round [of g "cellAt g s0" kT J s "cluster @ [s]" stack r directions] round inv
  show "\<forall>u \<in> sset r'. bondAccept kT J u" by auto
qed

lemma growCluster_accepting:
  assumes "wf_grid g" and "inGrid s0" and accept: "\<forall>u \<in> sset r. bondAccept kT J u"
  shows "\<exists>cluster r'. growCluster g (cellAt g s0) kT J [s0] [] r = Inr (cluster, r') \<and>
           wolffCluster g s0 cluster \<and> set cluster = component g s0"
proof -
  let ?c = "cellAt g s0"
  let ?I = "\<lambda>stack cluster r'. clusterInv g s0 stack cluster \<and> closedInv g s0 stack cluster \<and>
      (\<forall>u \<in> sset r'. bondAccept kT J u)"
  obtain stack r1 where first: "foldl (visit g ?c kT J s0 [s0]) ([], r) directions = (stack, r1)"
    by (cases "foldl (visit g ?c kT J s0 [s0]) ([], r) directions")
  have "closedInv g s0 [s0] []"
    by (simp add: closedInv_def)
  from closedInv_round [where s = s0 and stack = "[]" and cluster = "[]", OF accept this] first
    clusterInv_seed [OF assms(2) first]
    sset_visit_round [of g ?c kT J s0 "[s0]" "[]" r directions] accept
  have "?I stack [s0] r1" by auto
  with assms(1) have "\<exists>cluster r'. growCluster g ?c kT J stack [s0] r1 = Inr (cluster, r') \<and>
      ?I [] cluster r'"
  proof (rule growCluster_rule)
    show "?I stack cluster r" if "?I (s # stack) cluster r" "s \<in> set cluster" for s stack cluster r
      using that by (auto intro: clusterInv_pop closedInv_pop)
  qed (rule acceptingInv_round)
  then show ?thesis
    using first assms(1) closed_cluster_is_component [of g s0]
    by (auto simp: visit_round_wf clusterInv_def)
qed

section \<open>The component of a lattice of equal spins\<close>

lemma reach_torus:
  assumes "inGrid s0" and "inGrid t"
  shows "t \<in> reach {t. inGrid t} s0"
proof -
  let ?R = "reach {t. inGrid t} s0"
  have down: "((fst s0 + k) mod gridSize, snd s0) \<in> ?R" for k
  proof (induction k)
    case 0
    from assms(1) reach.seed [of s0 "{t. inGrid t}"] show ?case
      by (simp add: inGrid_def)
  next
    case (Suc k)
    from reach.step [OF Suc, of "(1, 0)"] assms(1) show ?case
      by (simp add: directions_def below_eq inGrid_def mod_Suc_eq)
  qed
  have across: "((fst s0 + k) mod gridSize, (snd s0 + l) mod gridSize) \<in> ?R" for k l
  proof (induction l)
    case 0
    from down [of k] assms(1) show ?case
      by (simp add: inGrid_def)
  next
    case (Suc l)
    from reach.step [OF Suc, of "(0, 1)"] show ?case
      by (simp add: directions_def right_eq mod_Suc_eq)
  qed
  from assms have "(fst s0 + (fst t + gridSize - fst s0)) mod gridSize = fst t"
    and "(snd s0 + (snd t + gridSize - snd s0)) mod gridSize = snd t"
    by (simp_all add: inGrid_def)
  with across [of "fst t + gridSize - fst s0" "snd t + gridSize - snd s0"] show ?thesis
    by simp
qed

lemma component_uniform:
  assumes "inGrid s0"
  shows "component (uniform v) s0 = {t. inGrid t}"
proof -
  have same: "{t. inGrid t \<and> cellAt (uniform v) t = cellAt (uniform v) s0} = {t. inGrid t}"
    using assms by (intro Collect_cong) auto
  show ?thesis
    unfolding component_def same
  proof (intro set_eqI iffI)
    fix t assume "t \<in> reach {t. inGrid t} s0"
    then show "t \<in> {t. inGrid t}" by (rule reach_subset)
  next
    fix t assume "t \<in> {t. inGrid t}"
    then show "t \<in> reach {t. inGrid t} s0"
      using reach_torus [OF assms, of t] by simp
  qed
qed

lemma flipAll_uniform:
  assumes "distinct cluster" and "set cluster = {t. inGrid t}"
  shows "flipAll cluster (uniform v) = uniform (flipped (Some v))"
proof (rule wf_grid_ext)
  show "wf_grid (flipAll cluster (uniform v))"
    using assms(2) by (intro wf_grid_flipAll) simp_all
  show "cellAt (flipAll cluster (uniform v)) s = cellAt (uniform (flipped (Some v))) s"
    if "inGrid s" for s
    using that assms by (simp add: cellAt_flipAll)
qed simp

lemma wolffCluster_length:
  assumes "wolffCluster g s0 cluster"
  shows "length cluster \<le> gridSize * gridSize"
proof -
  from assms have "distinct cluster" and "set cluster \<subseteq> {t. inGrid t}"
    by (auto simp: wolffCluster_def)
  with card_mono [of "{t. inGrid t}" "set cluster"] distinct_card [of cluster] show ?thesis
    by simp
qed

section \<open>A call on numbers that all fail or all pass the bond test\<close>

lemma runWolffCluster_rejecting:
  assumes "wf_grid g" and "\<forall>u \<in> sset (stl (stl r)). \<not> bondAccept kT J u"
  shows "\<exists>r'. runWolffCluster kT J h (g, r) = Inr (flipAt (seedSite r) g, r')"
proof -
  let ?s = "seedSite r"
  have seed: "readSpin g (fst ?s) (snd ?s) = Inr (cellAt g ?s)"
    using assms(1) by (simp add: readSpin_cellAt seedSite_def)
  from growCluster_rejecting [OF assms, of "cellAt g ?s" ?s]
  obtain r' where "growCluster g (cellAt g ?s) kT J [?s] [] (stl (stl r)) = Inr ([?s], r')" ..
  with seed flipSite_wf [OF assms(1) inGrid_seedSite [of r]] show ?thesis
    by (simp add: runWolffCluster_def Let_def seedSite_def)
qed

lemma runWolffCluster_accepting:
  assumes "wf_grid g" and "\<forall>u \<in> sset (stl (stl r)). bondAccept kT J u"
  shows "\<exists>cluster r'. runWolffCluster kT J h (g, r) = Inr (flipAll cluster g, r') \<and>
           wolffCluster g (seedSite r) cluster \<and> set cluster = component g (seedSite r)"
proof -
  let ?s = "seedSite r"
  have seed: "readSpin g (fst ?s) (snd ?s) = Inr (cellAt g ?s)"
    using assms(1) by (simp add: readSpin_cellAt seedSite_def)
  from growCluster_accepting [OF assms(1) inGrid_seedSite assms(2)]
  obtain cluster r' where grow: "growCluster g (cellAt g ?s) kT J [?s] [] (stl (stl r)) = Inr (cluster, r')"
    and cluster: "wolffCluster g ?s cluster" and all: "set cluster = component g ?s"
    by blast
  have "runWolffCluster kT J h (g, r) = Inr (flipAll cluster g, r')"
    using seed grow flipLoop_wf [OF assms(1) wolffCluster_inGrid [OF cluster]]
    by (simp add: runWolffCluster_def Let_def seedSite_def)
  with cluster all show ?thesis by blast
qed

lemma flips_component:
  assumes "wf_grid g" and "wolffCluster g s0 cluster" and "set cluster = component g s0"
    and "inGrid t"
  shows "spinAt (flipAll cluster g) t = (if t \<in> component g s0 then - spinAt g t else spinAt g t)"
proof -
  from assms(2) have "distinct cluster" and "\<forall>s \<in> set cluster. inGrid s"
    by (simp_all add: wolffCluster_def)
  with assms(1,3,4) show ?thesis
    by (simp add: spinAt_flipAll)
qed

section \<open>Properties of the Wolff update\<close>

text \<open>
  C17. A call of \<^verbatim>\<open>runWolffCluster\<close> on a well-formed grid returns: the loop
  ends, nothing throws, and the grid it leaves is well formed, whatever the
  parameters and the random numbers are.
\<close>

theorem runWolffCluster_keeps_grid:
  assumes "wf_grid g"
  shows "\<exists>g' r'. runWolffCluster kT J h (g, r) = Inr (g', r') \<and> wf_grid g'"
proof -
  from runWolffCluster_wf [OF assms, of kT J h r] obtain cluster r'
    where "runWolffCluster kT J h (g, r) = Inr (flipAll cluster g, r')"
      and "wolffCluster g (seedSite r) cluster"
    by blast
  with wf_grid_flipAll [OF assms wolffCluster_inGrid, of g "seedSite r" cluster] show ?thesis
    by simp
qed

theorem runWolffCluster_keeps_grid_witness:
  "wf_grid checkerboard \<and>
   (\<exists>g' r'. runWolffCluster 50 1 0 (checkerboard, sconst (mkRand (1 / 2))) = Inr (g', r') \<and> wf_grid g')"
  using runWolffCluster_keeps_grid [of checkerboard 50 1 0 "sconst (mkRand (1 / 2))"] by simp

text \<open>
  C3. A call flips exactly one cluster: there is a list of sites that starts
  with the seed site drawn by the first two random numbers, holds no site
  twice, holds only sites that carried the seed's spin, and in which every site
  is joined to the seed by a chain of neighbours inside the list; the call
  negates the spin of every site of the list and leaves every other site
  unchanged.
\<close>

theorem runWolffCluster_flips_one_cluster:
  assumes "wf_grid g"
  shows "\<exists>cluster g' r'. runWolffCluster kT J h (g, r) = Inr (g', r') \<and>
           wolffCluster g (seedSite r) cluster \<and>
           (\<forall>t. inGrid t \<longrightarrow>
              spinAt g' t = (if t \<in> set cluster then - spinAt g t else spinAt g t))"
proof -
  from runWolffCluster_wf [OF assms, of kT J h r] obtain cluster r'
    where run: "runWolffCluster kT J h (g, r) = Inr (flipAll cluster g, r')"
      and cluster: "wolffCluster g (seedSite r) cluster"
    by blast
  from cluster have "distinct cluster" and "\<forall>s \<in> set cluster. inGrid s"
    by (simp_all add: wolffCluster_def)
  with run cluster assms show ?thesis
    by (auto simp: spinAt_flipAll intro!: exI [of _ cluster])
qed

theorem runWolffCluster_flips_one_cluster_witness:
  "wf_grid initialSpins \<and>
   (\<exists>cluster g' r'. runWolffCluster 50 1 0 (initialSpins, sconst (mkRand 0)) = Inr (g', r') \<and>
      wolffCluster initialSpins (seedSite (sconst (mkRand 0))) cluster \<and>
      (\<forall>t. inGrid t \<longrightarrow>
         spinAt g' t = (if t \<in> set cluster then - spinAt initialSpins t else spinAt initialSpins t)))"
  using runWolffCluster_flips_one_cluster [of initialSpins 50 1 0 "sconst (mkRand 0)"] by simp

text \<open>
  C28. When no bond can be accepted, that is with a coupling that is not
  positive at a temperature that is not negative, or a coupling that is not
  negative at a negative temperature, the cluster is the seed alone: the call
  flips the seed site and nothing else.
\<close>

theorem wolff_without_bonds_flips_seed:
  assumes "wf_grid g" and "(0 \<le> kT \<and> J \<le> 0) \<or> (kT < 0 \<and> 0 \<le> J)"
  shows "\<exists>r'. runWolffCluster kT J h (g, r) = Inr (flipAt (seedSite r) g, r')"
  using assms(1) by (rule runWolffCluster_rejecting) (simp add: bondAccept_never [OF assms(2)])

theorem wolff_without_bonds_flips_seed_witness:
  "\<exists>r'. runWolffCluster 50 (- 1) 0 (initialSpins, sconst (mkRand (1 / 2))) =
         Inr (flipAt (5, 5) initialSpins, r')"
  using wolff_without_bonds_flips_seed [of initialSpins 50 "- 1" 0 "sconst (mkRand (1 / 2))"]
  by (simp add: seedSite_def randomBelow_def gridSize_def)

text \<open>
  C9. With temperature 0 and a positive coupling the division by zero makes
  every bond test succeed, and the cluster is the whole connected component of
  the seed among the sites that carry its spin: the call negates the sites of
  the component and no other site.
\<close>

theorem wolff_zero_temperature_flips_component:
  assumes "wf_grid g" and "0 < J"
  shows "\<exists>g' r'. runWolffCluster 0 J h (g, r) = Inr (g', r') \<and>
           (\<forall>t. inGrid t \<longrightarrow>
              spinAt g' t = (if t \<in> component g (seedSite r) then - spinAt g t else spinAt g t))"
proof -
  have "\<forall>u \<in> sset (stl (stl r)). bondAccept 0 J u"
    by (simp add: bondAccept_always [OF assms(2)])
  from runWolffCluster_accepting [OF assms(1) this, of h] obtain cluster r'
    where "runWolffCluster 0 J h (g, r) = Inr (flipAll cluster g, r')"
      and "wolffCluster g (seedSite r) cluster" and "set cluster = component g (seedSite r)"
    by blast
  with flips_component [OF assms(1)] show ?thesis
    by simp
qed

theorem wolff_zero_temperature_flips_component_witness:
  "wf_grid checkerboard \<and> (0 :: real) < 1 \<and>
   (\<exists>g' r'. runWolffCluster 0 1 0 (checkerboard, sconst (mkRand 0)) = Inr (g', r') \<and>
      (\<forall>t. inGrid t \<longrightarrow>
         spinAt g' t = (if t \<in> component checkerboard (seedSite (sconst (mkRand 0)))
                        then - spinAt checkerboard t else spinAt checkerboard t)))"
  using wolff_zero_temperature_flips_component [of checkerboard 1 0 "sconst (mkRand 0)"] by simp

text \<open>
  On a lattice of equal spins, temperature 0 and a positive coupling, one
  call flips the whole lattice.
\<close>

theorem wolff_zero_temperature_flips_aligned_lattice:
  assumes "0 < J"
  shows "\<exists>r'. runWolffCluster 0 J h (uniform v, r) = Inr (uniform (flipped (Some v)), r')"
proof -
  have "\<forall>u \<in> sset (stl (stl r)). bondAccept 0 J u"
    by (simp add: bondAccept_always [OF assms])
  from runWolffCluster_accepting [OF wf_grid_uniform [of v] this, of h] obtain cluster r'
    where run: "runWolffCluster 0 J h (uniform v, r) = Inr (flipAll cluster (uniform v), r')"
      and cluster: "wolffCluster (uniform v) (seedSite r) cluster"
      and all: "set cluster = component (uniform v) (seedSite r)"
    by blast
  from cluster have "distinct cluster"
    by (simp add: wolffCluster_def)
  from flipAll_uniform [OF this] all component_uniform [OF inGrid_seedSite] run show ?thesis
    by simp
qed

theorem wolff_zero_temperature_flips_aligned_lattice_witness:
  "\<exists>r'. runWolffCluster 0 1 0 (initialSpins, sconst (mkRand 0)) = Inr (uniform Down, r')"
  using wolff_zero_temperature_flips_aligned_lattice [of 1 0 Up "sconst (mkRand 0)"]
  by (simp add: initialSpins_uniform)

text \<open>
  C14. At a temperature other than 0 the random numbers decide the cluster
  through the comparison with \<open>1 - exp (- 2 J / (kT / 10))\<close>. When every number
  drawn after the two of the seed is below this bound the call negates the
  whole connected component of the seed among the sites that carry its spin,
  and when none is below it the call negates the seed site alone; in both
  cases no other site changes.
\<close>

theorem wolff_cluster_follows_draws:
  assumes "wf_grid g" and "kT \<noteq> 0"
  shows "\<exists>g' r'. runWolffCluster kT J h (g, r) = Inr (g', r') \<and>
           ((\<forall>u \<in> sset (stl (stl r)). Rep_urand u < 1 - exp (- 2 * J / (kT / 10))) \<longrightarrow>
              (\<forall>t. inGrid t \<longrightarrow>
                 spinAt g' t = (if t \<in> component g (seedSite r) then - spinAt g t else spinAt g t))) \<and>
           ((\<forall>u \<in> sset (stl (stl r)). \<not> Rep_urand u < 1 - exp (- 2 * J / (kT / 10))) \<longrightarrow>
              g' = flipAt (seedSite r) g)"
proof -
  have test: "bondAccept kT J u \<longleftrightarrow> Rep_urand u < 1 - exp (- 2 * J / (kT / 10))" for u
    using assms(2) by (simp add: bondAccept_def)
  from runWolffCluster_wf [OF assms(1), of kT J h r] obtain g' r'
    where run: "runWolffCluster kT J h (g, r) = Inr (g', r')"
    by blast
  have "spinAt g' t = (if t \<in> component g (seedSite r) then - spinAt g t else spinAt g t)"
    if "\<forall>u \<in> sset (stl (stl r)). bondAccept kT J u" and "inGrid t" for t
  proof -
    from runWolffCluster_accepting [OF assms(1) that(1), of h] run obtain cluster
      where "g' = flipAll cluster g" and "wolffCluster g (seedSite r) cluster"
        and "set cluster = component g (seedSite r)"
      by auto
    with flips_component [OF assms(1) _ _ that(2)] show ?thesis
      by simp
  qed
  moreover have "g' = flipAt (seedSite r) g"
    if "\<forall>u \<in> sset (stl (stl r)). \<not> bondAccept kT J u"
    using runWolffCluster_rejecting [OF assms(1) that, of h] run by auto
  ultimately show ?thesis
    using run by (simp add: test)
qed

theorem wolff_cluster_follows_draws_witness:
  "wf_grid checkerboard \<and> (50 :: real) \<noteq> 0 \<and>
   sset (stl (stl (sconst (mkRand 0)))) = {mkRand 0} \<and>
   Rep_urand (mkRand 0) < 1 - exp (- 2 * 1 / (50 / 10)) \<and>
   (\<exists>g' r'. runWolffCluster 50 1 0 (checkerboard, sconst (mkRand 0)) = Inr (g', r') \<and>
      (\<forall>t. inGrid t \<longrightarrow>
         spinAt g' t = (if t \<in> component checkerboard (seedSite (sconst (mkRand 0)))
                        then - spinAt checkerboard t else spinAt checkerboard t))) \<and>
   \<not> Rep_urand (mkRand 0) < 1 - exp (- 2 * 0 / (50 / 10)) \<and>
   (\<exists>r'. runWolffCluster 50 0 0 (checkerboard, sconst (mkRand 0)) =
           Inr (flipAt (seedSite (sconst (mkRand 0))) checkerboard, r'))"
  using wolff_cluster_follows_draws [of checkerboard 50 1 0 "sconst (mkRand 0)"]
    wolff_cluster_follows_draws [of checkerboard 50 0 0 "sconst (mkRand 0)"]
  by simp

text \<open>
  C40. A call draws two random numbers for the seed and at most four for each
  site of the cluster, hence between 2 and 402 in all, in order: the stream it
  leaves is the given stream without a prefix of that length.
\<close>

theorem runWolffCluster_draws:
  assumes "wf_grid g"
  shows "\<exists>g' k. runWolffCluster kT J h (g, r) = Inr (g', sdrop k r) \<and>
           2 \<le> k \<and> k \<le> 2 + 4 * (gridSize * gridSize)"
proof -
  from runWolffCluster_wf [OF assms, of kT J h r] obtain cluster r'
    where run: "runWolffCluster kT J h (g, r) = Inr (flipAll cluster g, r')"
      and cluster: "wolffCluster g (seedSite r) cluster"
      and draws: "drawsInv (stl (stl r)) cluster r'"
    by blast
  from draws obtain k where k: "k \<le> 4 * length cluster" "r' = sdrop k (stl (stl r))"
    by (auto simp: drawsInv_def)
  have "r' = sdrop (2 + k) r"
    using k(2) by (simp add: sdrop_add [symmetric] del: sdrop_add)
  moreover have "2 + k \<le> 2 + 4 * (gridSize * gridSize)"
    using k(1) wolffCluster_length [OF cluster] by simp
  ultimately show ?thesis
    using run by (intro exI [of _ "flipAll cluster g"] exI [of _ "2 + k"]) simp
qed

theorem runWolffCluster_draws_witness:
  "wf_grid initialSpins \<and>
   (\<exists>g' k. runWolffCluster 50 1 0 (initialSpins, sconst (mkRand 0)) = Inr (g', sdrop k (sconst (mkRand 0))) \<and>
      2 \<le> k \<and> k \<le> 402)"
  using runWolffCluster_draws [of initialSpins 50 1 0 "sconst (mkRand 0)"]
  by (simp add: gridSize_def)

end
