(* ===== verification/Wolff_Energy.thy ===== *)
theory Wolff_Energy
  imports Wolff
begin

text \<open>
  The energy of the lattice across a call of \<^verbatim>\<open>runWolffCluster\<close>: the update of
  theory \<open>Wolff\<close> measured by the Hamiltonian of theory \<open>Energy\<close>, which the
  function itself never computes.

  \<^item> \<open>bonds\<close> lists every bond of the torus once, as the pair of a site and its
    right or lower neighbour; \<open>cutBonds C\<close> are the bonds with exactly one end
    in the set \<open>C\<close>, and \<open>boundarySum g C\<close> is the sum of the products of the two
    spins over these bonds.
    \<open>changedSites g g'\<close> are the sites at which two grids differ, and
    \<open>flippedOn C g g'\<close> says that \<open>g'\<close> is \<open>g\<close> with the spins of \<open>C\<close> negated.
  \<^item> \<open>bondProbability\<close> is the bound the program compares a random number
    with before it pushes a neighbour, \<open>boltzmann\<close> the weight of a grid in the
    model without field at the temperature \<^verbatim>\<open>kT / 10\<close>, and \<open>alignedCut g C\<close>
    the number of bonds cut by \<open>C\<close> that join equal spins: the bonds on which
    the test must fail for a cluster to end there.
  \<^item> Negating the spins of a set of sites negates the products of the bonds
    that are cut by the set and no other, so the bond energy changes by
    \<open>2 J\<close> times the boundary sum; the field energy changes by \<open>2 h\<close> times the
    sum of the spins negated (\<open>hamiltonian_flipped\<close>).
  \<^item> All sites of a cluster carry the spin of the seed, which gives the change
    of the energy by a call. At temperature 0 with a positive coupling the
    cluster is a whole component, every bond it cuts joins opposite spins,
    and the bond energy falls by \<open>2 J\<close> for each of them. The field is not
    weighed anywhere: \<open>wolff_raises_energy_in_field\<close> is a call that raises the
    energy at temperature 0.
  \<^item> \<open>boundary_balance\<close> is an identity of the model without field, true of
    every set of sites and not only of the clusters the program grows: the
    weights of a grid and of the grid with the set negated, each times the
    probability that the bond test fails on the aligned bonds the set cuts,
    are equal. It is the part of the detailed balance of a cluster move that
    depends on the grids.
\<close>

section \<open>The specification\<close>

definition bonds :: "(site \<times> site) list" where
  "bonds = concat (map (\<lambda>s. [(s, right s), (s, below s)]) sites)"

definition cutBonds :: "site set \<Rightarrow> (site \<times> site) list" where
  "cutBonds C = filter (\<lambda>b. (fst b \<in> C) \<noteq> (snd b \<in> C)) bonds"

definition boundarySum :: "grid \<Rightarrow> site set \<Rightarrow> int" where
  "boundarySum g C = (\<Sum>b\<leftarrow>cutBonds C. spinAt g (fst b) * spinAt g (snd b))"

definition changedSites :: "grid \<Rightarrow> grid \<Rightarrow> site list" where
  "changedSites g g' = filter (\<lambda>s. spinAt g' s \<noteq> spinAt g s) sites"

definition flippedOn :: "site set \<Rightarrow> grid \<Rightarrow> grid \<Rightarrow> bool" where
  "flippedOn C g g' \<longleftrightarrow>
     (\<forall>t. inGrid t \<longrightarrow> spinAt g' t = (if t \<in> C then - spinAt g t else spinAt g t))"

definition alignedCut :: "grid \<Rightarrow> site set \<Rightarrow> nat" where
  "alignedCut g C = length (filter (\<lambda>b. spinAt g (fst b) = spinAt g (snd b)) (cutBonds C))"

definition bondProbability :: "number \<Rightarrow> number \<Rightarrow> number" where
  "bondProbability kT J = 1 - exp (- 2 * J / (kT / 10))"

definition boltzmann :: "number \<Rightarrow> number \<Rightarrow> grid \<Rightarrow> number" where
  "boltzmann kT J g = exp (- hamiltonian J 0 g / (kT / 10))"

section \<open>Sums over the bonds\<close>

lemma sum_list_bonds:
  "(\<Sum>b\<leftarrow>bonds. f b) = (\<Sum>s\<leftarrow>sites. f (s, right s) + f (s, below s))"
proof -
  have "(\<Sum>b\<leftarrow>concat (map (\<lambda>s. [(s, right s), (s, below s)]) xs). f b) =
        (\<Sum>s\<leftarrow>xs. f (s, right s) + f (s, below s))" for xs
    by (induction xs) (simp_all add: add.assoc)
  then show ?thesis by (simp add: bonds_def)
qed

lemma bondSum_bonds: "bondSum g = (\<Sum>b\<leftarrow>bonds. spinAt g (fst b) * spinAt g (snd b))"
  by (simp add: bondSum_def sum_list_bonds)

lemma boundarySum_bonds:
  "boundarySum g C =
     (\<Sum>b\<leftarrow>bonds. if (fst b \<in> C) \<noteq> (snd b \<in> C) then spinAt g (fst b) * spinAt g (snd b) else 0)"
  by (simp add: boundarySum_def cutBonds_def sum_list_map_filter')

lemma inGrid_bonds: "b \<in> set bonds \<Longrightarrow> inGrid (fst b) \<and> inGrid (snd b)"
  by (auto simp: bonds_def)

lemma bonds_neighbours:
  assumes "b \<in> set bonds"
  shows "\<exists>d \<in> set directions. snd b = neighbour (fst b) d"
    and "\<exists>d \<in> set directions. fst b = neighbour (snd b) d"
  using assms by (auto simp: bonds_def directions_def)

section \<open>Negating the spins of a set of sites\<close>

lemma flippedOn_spinAt:
  "flippedOn C g g' \<Longrightarrow> inGrid t \<Longrightarrow> spinAt g' t = (if t \<in> C then - spinAt g t else spinAt g t)"
  unfolding flippedOn_def by blast

lemma flippedOn_flipAll:
  assumes "wf_grid g" and "\<forall>s \<in> set cluster. inGrid s" and "distinct cluster"
  shows "flippedOn (set cluster) g (flipAll cluster g)"
  using assms by (simp add: flippedOn_def spinAt_flipAll)

lemma bondSum_flipped:
  assumes "flippedOn C g g'"
  shows "bondSum g' = bondSum g - 2 * boundarySum g C"
proof -
  have "spinAt g' (fst b) * spinAt g' (snd b) =
        spinAt g (fst b) * spinAt g (snd b) -
        2 * (if (fst b \<in> C) \<noteq> (snd b \<in> C) then spinAt g (fst b) * spinAt g (snd b) else 0)"
    if "b \<in> set bonds" for b
    using inGrid_bonds [OF that] by (simp add: flippedOn_spinAt [OF assms])
  then have "bondSum g' =
        (\<Sum>b\<leftarrow>bonds. spinAt g (fst b) * spinAt g (snd b) -
           2 * (if (fst b \<in> C) \<noteq> (snd b \<in> C) then spinAt g (fst b) * spinAt g (snd b) else 0))"
    unfolding bondSum_bonds by (intro arg_cong [where f = sum_list] map_cong refl)
  then show ?thesis
    by (simp add: sum_list_subtractf sum_list_const_mult bondSum_bonds boundarySum_bonds)
qed

lemma spinSum_flipped:
  assumes "flippedOn C g g'"
  shows "spinSum g' = spinSum g - 2 * (\<Sum>s\<leftarrow>filter (\<lambda>s. s \<in> C) sites. spinAt g s)"
proof -
  have "spinSum g' = (\<Sum>s\<leftarrow>sites. spinAt g s - 2 * (if s \<in> C then spinAt g s else 0))"
    unfolding spinSum_def
    by (intro arg_cong [where f = sum_list] map_cong refl) (simp add: flippedOn_spinAt [OF assms])
  then show ?thesis
    by (simp add: sum_list_subtractf sum_list_const_mult spinSum_def sum_list_map_filter')
qed

lemma hamiltonian_flipped:
  assumes "flippedOn C g g'"
  shows "hamiltonian J h g' - hamiltonian J h g =
         2 * J * real_of_int (boundarySum g C) +
         2 * h * real_of_int (\<Sum>s\<leftarrow>filter (\<lambda>s. s \<in> C) sites. spinAt g s)"
  unfolding hamiltonian_def bondSum_flipped [OF assms] spinSum_flipped [OF assms]
  by (simp add: algebra_simps)

lemma changedSites_flipped:
  assumes "flippedOn C g g'"
  shows "changedSites g g' = filter (\<lambda>s. s \<in> C) sites"
  unfolding changedSites_def
proof (rule filter_cong [OF refl])
  fix s assume "s \<in> set sites"
  then show "(spinAt g' s \<noteq> spinAt g s) = (s \<in> C)"
    using spinAt_cases [of g s] by (auto simp: flippedOn_spinAt [OF assms])
qed

section \<open>The sites of a cluster\<close>

lemma wolffCluster_holds_seed: "wolffCluster g s0 cluster \<Longrightarrow> s0 \<in> set cluster"
  by (cases cluster) (auto simp: wolffCluster_def)

lemma cluster_sites:
  assumes "distinct cluster" and "\<forall>s \<in> set cluster. inGrid s"
  shows "set (filter (\<lambda>s. s \<in> set cluster) sites) = set cluster"
    and "length (filter (\<lambda>s. s \<in> set cluster) sites) = length cluster"
proof -
  show eq: "set (filter (\<lambda>s. s \<in> set cluster) sites) = set cluster"
    using assms(2) by auto
  have "distinct (filter (\<lambda>s. s \<in> set cluster) sites)" by simp
  from distinct_card [OF this] distinct_card [OF assms(1)] eq
  show "length (filter (\<lambda>s. s \<in> set cluster) sites) = length cluster" by simp
qed

lemma cluster_spins:
  assumes "wolffCluster g s0 cluster"
  shows "(\<Sum>s\<leftarrow>filter (\<lambda>s. s \<in> set cluster) sites. spinAt g s) = spinAt g s0 * int (length cluster)"
proof -
  from assms have d: "distinct cluster" and i: "\<forall>s \<in> set cluster. inGrid s"
    by (simp_all add: wolffCluster_def)
  have same: "spinAt g s = spinAt g s0" if "s \<in> set cluster" for s
    using assms that by (simp add: wolffCluster_def spinAt_def)
  have "map (spinAt g) (filter (\<lambda>s. s \<in> set cluster) sites) =
        map (\<lambda>s. spinAt g s0) (filter (\<lambda>s. s \<in> set cluster) sites)"
    by (rule map_cong [OF refl]) (simp add: same)
  then have "(\<Sum>s\<leftarrow>filter (\<lambda>s. s \<in> set cluster) sites. spinAt g s) =
             int (length (filter (\<lambda>s. s \<in> set cluster) sites)) * spinAt g s0"
    by (simp only: sum_list_triv)
  then show ?thesis
    by (simp only: cluster_sites(2) [OF d i] mult.commute)
qed

text \<open>The energy across the flip of a cluster grown from the seed \<open>s0\<close>.\<close>

lemma hamiltonian_flipAll:
  assumes "wf_grid g" and "wolffCluster g s0 cluster"
  shows "hamiltonian J h (flipAll cluster g) - hamiltonian J h g =
           2 * J * real_of_int (boundarySum g (set (changedSites g (flipAll cluster g)))) +
           2 * h * real_of_int (spinAt g s0) * real (length (changedSites g (flipAll cluster g)))"
    and "set (changedSites g (flipAll cluster g)) = set cluster"
proof -
  from assms(2) have d: "distinct cluster" and i: "\<forall>s \<in> set cluster. inGrid s"
    by (simp_all add: wolffCluster_def)
  note f = flippedOn_flipAll [OF assms(1) i d]
  show "set (changedSites g (flipAll cluster g)) = set cluster"
    by (simp only: changedSites_flipped [OF f] cluster_sites(1) [OF d i])
  then show "hamiltonian J h (flipAll cluster g) - hamiltonian J h g =
           2 * J * real_of_int (boundarySum g (set (changedSites g (flipAll cluster g)))) +
           2 * h * real_of_int (spinAt g s0) * real (length (changedSites g (flipAll cluster g)))"
    using hamiltonian_flipped [OF f, of J h]
    by (simp add: cluster_spins [OF assms(2)] changedSites_flipped [OF f] cluster_sites(2) [OF d i])
qed

section \<open>The bonds cut by a component\<close>

lemma opposite_spins:
  assumes "wf_grid g" and "inGrid s" and "inGrid t" and "cellAt g s \<noteq> cellAt g t"
  shows "spinAt g s * spinAt g t = - 1"
proof -
  from cellAt_Some [OF assms(1,2)] cellAt_Some [OF assms(1,3)]
  obtain v w where "cellAt g s = Some v" "cellAt g t = Some w" by blast
  with assms(4) show ?thesis
    by (cases v; cases w) (simp_all add: spinAt_def)
qed

lemma component_cut:
  assumes "wf_grid g" and "s \<in> component g s0" and "d \<in> set directions"
    and "neighbour s d \<notin> component g s0"
  shows "spinAt g s * spinAt g (neighbour s d) = - 1"
proof -
  let ?S = "{t. inGrid t \<and> cellAt g t = cellAt g s0}"
  from assms(2) have r: "s \<in> reach ?S s0" by (simp add: component_def)
  from reach_subset [OF r] have s: "inGrid s" "cellAt g s = cellAt g s0" by simp_all
  have "neighbour s d \<notin> ?S"
    using reach.step [OF r assms(3)] assms(4) by (auto simp: component_def)
  then have "cellAt g s \<noteq> cellAt g (neighbour s d)"
    using assms(3) s(2) by simp
  with assms(1,3) s(1) show ?thesis
    by (intro opposite_spins) simp_all
qed

lemma boundarySum_component:
  assumes "wf_grid g"
  shows "boundarySum g (component g s0) = - int (length (cutBonds (component g s0)))"
proof -
  let ?C = "component g s0"
  have "spinAt g (fst b) * spinAt g (snd b) = - 1" if "b \<in> set (cutBonds ?C)" for b
  proof -
    from that have b: "b \<in> set bonds" and cut: "(fst b \<in> ?C) \<noteq> (snd b \<in> ?C)"
      by (simp_all add: cutBonds_def)
    from bonds_neighbours [OF b] obtain d e where
      d: "d \<in> set directions" "snd b = neighbour (fst b) d" and
      e: "e \<in> set directions" "fst b = neighbour (snd b) e"
      by blast
    show ?thesis
    proof (cases "fst b \<in> ?C")
      case True
      with cut component_cut [OF assms True d(1)] d(2) show ?thesis by simp
    next
      case False
      with cut have "snd b \<in> ?C" by simp
      from component_cut [OF assms this e(1)] False e(2) show ?thesis
        by (simp add: mult.commute)
    qed
  qed
  then have "map (\<lambda>b. spinAt g (fst b) * spinAt g (snd b)) (cutBonds ?C) =
             map (\<lambda>b. - 1) (cutBonds ?C)"
    by (intro map_cong refl)
  then have "boundarySum g ?C = int (length (cutBonds ?C)) * (- 1)"
    unfolding boundarySum_def by (simp only: sum_list_triv)
  then show ?thesis by simp
qed

section \<open>The bond test and the weights of the zero-field model\<close>

lemma bondAccept_probability:
  "kT \<noteq> 0 \<Longrightarrow> bondAccept kT J u \<longleftrightarrow> Rep_urand u < bondProbability kT J"
  by (simp add: bondAccept_def bondProbability_def)

lemma bondProbability_range:
  assumes "0 < kT" and "0 \<le> J"
  shows "0 \<le> bondProbability kT J" and "bondProbability kT J < 1"
  using assms by (simp_all add: bondProbability_def)

text \<open>A bond that is cut joins equal spins on one side of the flip only.\<close>

lemma alignedCut_le: "alignedCut g C \<le> length (cutBonds C)"
  by (simp add: alignedCut_def)

lemma alignedCut_flipped:
  assumes "flippedOn C g g'"
  shows "alignedCut g' C = length (cutBonds C) - alignedCut g C"
proof -
  have "(spinAt g' (fst b) = spinAt g' (snd b)) = (spinAt g (fst b) \<noteq> spinAt g (snd b))"
    if "b \<in> set (cutBonds C)" for b
  proof -
    from that have "inGrid (fst b)" "inGrid (snd b)" "(fst b \<in> C) \<noteq> (snd b \<in> C)"
      using inGrid_bonds [of b] by (simp_all add: cutBonds_def)
    then show ?thesis
      using spinAt_cases [of g "fst b"] spinAt_cases [of g "snd b"]
      by (auto simp: flippedOn_spinAt [OF assms])
  qed
  then have "alignedCut g' C =
             length (filter (\<lambda>b. \<not> spinAt g (fst b) = spinAt g (snd b)) (cutBonds C))"
    unfolding alignedCut_def by (intro arg_cong [where f = length] filter_cong refl)
  with sum_length_filter_compl [of "\<lambda>b. spinAt g (fst b) = spinAt g (snd b)" "cutBonds C"]
  show ?thesis by (simp add: alignedCut_def)
qed

lemma boundarySum_alignedCut:
  "boundarySum g C = 2 * int (alignedCut g C) - int (length (cutBonds C))"
proof -
  let ?P = "\<lambda>b. spinAt g (fst b) = spinAt g (snd b)"
  have "spinAt g (fst b) * spinAt g (snd b) = 2 * (if ?P b then 1 else 0) - 1" for b
    using spinAt_cases [of g "fst b"] spinAt_cases [of g "snd b"] by auto
  then have "boundarySum g C = (\<Sum>b\<leftarrow>cutBonds C. 2 * (if ?P b then 1 else 0) - 1)"
    by (simp only: boundarySum_def)
  also have "\<dots> = 2 * (\<Sum>b\<leftarrow>cutBonds C. if ?P b then 1 else 0) - int (length (cutBonds C))"
    by (simp only: sum_list_subtractf sum_list_const_mult sum_list_triv mult_1_right)
  also have "(\<Sum>b\<leftarrow>cutBonds C. if ?P b then 1 else 0) = int (alignedCut g C)"
    unfolding alignedCut_def
    using sum_list_map_filter' [of "\<lambda>b. 1 :: int" ?P "cutBonds C"] by (simp add: sum_list_triv)
  finally show ?thesis .
qed

text \<open>
  The weights of a grid and of the grid with the set \<open>C\<close> negated, each times
  the probability that the bond test fails on every bond cut by \<open>C\<close> that
  joins equal spins.
\<close>

lemma boundary_balance:
  assumes "flippedOn C g g'" and "kT \<noteq> 0"
  shows "boltzmann kT J g * (1 - bondProbability kT J) ^ alignedCut g C =
         boltzmann kT J g' * (1 - bondProbability kT J) ^ alignedCut g' C"
proof -
  define T where "T = kT / 10"
  define a where "a = alignedCut g C"
  define n where "n = length (cutBonds C)"
  have an: "a \<le> n" unfolding a_def n_def by (rule alignedCut_le)
  have T: "T \<noteq> 0" using assms(2) by (simp add: T_def)
  have a': "alignedCut g' C = n - a"
    unfolding a_def n_def by (rule alignedCut_flipped [OF assms(1)])
  have "hamiltonian J 0 g' - hamiltonian J 0 g = 2 * J * (2 * real a - real n)"
    using hamiltonian_flipped [OF assms(1), of J 0]
    by (simp add: boundarySum_alignedCut a_def n_def)
  then have H: "hamiltonian J 0 g' = hamiltonian J 0 g + 2 * J * (2 * real a - real n)"
    by simp
  have "1 - bondProbability kT J = exp (- 2 * J / T)"
    by (simp add: bondProbability_def T_def)
  then have q: "(1 - bondProbability kT J) ^ k = exp (real k * (- 2 * J / T))" for k
    by (simp only: exp_of_nat_mult)
  have "- hamiltonian J 0 g / T + real a * (- 2 * J / T) =
        - hamiltonian J 0 g' / T + real (n - a) * (- 2 * J / T)"
    using an T unfolding H by (simp add: field_simps)
  then show ?thesis
    unfolding boltzmann_def q a' a_def [symmetric] T_def [symmetric]
    by (simp only: exp_add [symmetric])
qed

section \<open>Properties of the energy across a cluster update\<close>

text \<open>
  C10. A call of \<^verbatim>\<open>runWolffCluster\<close> on a well-formed grid changes the seed
  site, and it changes the energy of the lattice by \<open>2 J\<close> times the sum of the products of the spins over the
  bonds between a site it changed and a site it did not, plus \<open>2 h\<close> times the
  spin of the seed for every site it changed: the bonds inside the cluster and
  the bonds outside of it keep their energy.
\<close>

theorem wolff_energy_change:
  assumes "wf_grid g"
  shows "\<exists>g' r'. runWolffCluster kT J h (g, r) = Inr (g', r') \<and>
           seedSite r \<in> set (changedSites g g') \<and>
           hamiltonian J h g' - hamiltonian J h g =
             2 * J * real_of_int (boundarySum g (set (changedSites g g'))) +
             2 * h * real_of_int (spinAt g (seedSite r)) * real (length (changedSites g g'))"
proof -
  from runWolffCluster_wf [OF assms, of kT J h r] obtain cluster r'
    where "runWolffCluster kT J h (g, r) = Inr (flipAll cluster g, r')"
      and cluster: "wolffCluster g (seedSite r) cluster"
    by blast
  with hamiltonian_flipAll(1) [OF assms cluster, of J h] hamiltonian_flipAll(2) [OF assms cluster]
    wolffCluster_holds_seed [OF cluster]
  show ?thesis by simp
qed

theorem wolff_energy_change_witness:
  "wf_grid checkerboard \<and>
   (\<exists>g' r'. runWolffCluster 50 1 (1 / 2) (checkerboard, sconst (mkRand 0)) = Inr (g', r') \<and>
      seedSite (sconst (mkRand 0)) \<in> set (changedSites checkerboard g') \<and>
      hamiltonian 1 (1 / 2) g' - hamiltonian 1 (1 / 2) checkerboard =
        2 * 1 * real_of_int (boundarySum checkerboard (set (changedSites checkerboard g'))) +
        2 * (1 / 2) * real_of_int (spinAt checkerboard (seedSite (sconst (mkRand 0)))) *
          real (length (changedSites checkerboard g')))"
  using wolff_energy_change [of checkerboard 50 1 "1 / 2" "sconst (mkRand 0)"] by simp

text \<open>
  C29. With temperature 0 and a positive coupling a call changes the seed
  site and never raises the energy of the bonds: every bond between a site it changed and a site it did
  not joined two equal spins after the call and two opposite spins before, so
  the energy without the field falls by \<open>2 J\<close> for each such bond.
\<close>

theorem wolff_zero_temperature_lowers_bond_energy:
  assumes "wf_grid g" and "0 < J"
  shows "\<exists>g' r'. runWolffCluster 0 J h (g, r) = Inr (g', r') \<and>
           seedSite r \<in> set (changedSites g g') \<and>
           hamiltonian J 0 g' =
             hamiltonian J 0 g - 2 * J * real (length (cutBonds (set (changedSites g g')))) \<and>
           hamiltonian J 0 g' \<le> hamiltonian J 0 g"
proof -
  let ?s = "seedSite r"
  have "\<forall>u \<in> sset (stl (stl r)). bondAccept 0 J u"
    by (simp add: bondAccept_always [OF assms(2)])
  from runWolffCluster_accepting [OF assms(1) this, of h] obtain cluster r'
    where run: "runWolffCluster 0 J h (g, r) = Inr (flipAll cluster g, r')"
      and cluster: "wolffCluster g ?s cluster" and all: "set cluster = component g ?s"
    by blast
  let ?g' = "flipAll cluster g"
  have seed: "?s \<in> set (changedSites g ?g')"
    using hamiltonian_flipAll(2) [OF assms(1) cluster] wolffCluster_holds_seed [OF cluster] by simp
  have "hamiltonian J 0 ?g' - hamiltonian J 0 g =
        - (2 * J * real (length (cutBonds (set (changedSites g ?g')))))"
    using hamiltonian_flipAll(1) [OF assms(1) cluster, of J 0] boundarySum_component [OF assms(1), of ?s]
    by (simp add: hamiltonian_flipAll(2) [OF assms(1) cluster] all)
  moreover have "0 \<le> 2 * J * real (length (cutBonds (set (changedSites g ?g'))))"
    using assms(2) by simp
  ultimately have "hamiltonian J 0 ?g' =
      hamiltonian J 0 g - 2 * J * real (length (cutBonds (set (changedSites g ?g')))) \<and>
      hamiltonian J 0 ?g' \<le> hamiltonian J 0 g"
    by linarith
  with run seed show ?thesis
    by blast
qed

theorem wolff_zero_temperature_lowers_bond_energy_witness:
  "wf_grid checkerboard \<and> (0 :: real) < 1 \<and>
   (\<exists>g' r'. runWolffCluster 0 1 0 (checkerboard, sconst (mkRand 0)) = Inr (g', r') \<and>
      seedSite (sconst (mkRand 0)) \<in> set (changedSites checkerboard g') \<and>
      hamiltonian 1 0 g' =
        hamiltonian 1 0 checkerboard - 2 * 1 * real (length (cutBonds (set (changedSites checkerboard g')))) \<and>
      hamiltonian 1 0 g' \<le> hamiltonian 1 0 checkerboard)"
  using wolff_zero_temperature_lowers_bond_energy [of checkerboard 1 0 "sconst (mkRand 0)"] by simp

text \<open>
  The field is no part of the update. On the lattice of up spins in a field
  that favours them, a call at temperature 0 flips the whole lattice: no bond
  is cut, and the energy rises by \<open>2 h\<close> for every site.
\<close>

theorem wolff_raises_energy_in_field:
  "\<exists>g' r'. runWolffCluster 0 1 1 (initialSpins, r) = Inr (g', r') \<and>
     hamiltonian 1 1 g' = hamiltonian 1 1 initialSpins + 2 * real (gridSize * gridSize)"
proof -
  from wolff_zero_temperature_flips_aligned_lattice [of 1 1 Up r]
  obtain r' where "runWolffCluster 0 1 1 (initialSpins, r) = Inr (uniform Down, r')"
    by (auto simp: initialSpins_uniform)
  then show ?thesis
    by (simp add: initialSpins_uniform hamiltonian_def)
qed

end
