(* ===== verification/Json.thy ===== *)
theory Json
  imports JS_Prelude
begin

text \<open>
  The part of \<^verbatim>\<open>JSON.stringify\<close> and \<^verbatim>\<open>JSON.parse\<close> that \<^verbatim>\<open>script.js\<close> uses, from
  the language standard.

  \<^item> The values are \<^verbatim>\<open>null\<close>, booleans, numbers, strings, arrays and objects
    (\<open>json\<close>). An object is the list of its members in the order JavaScript
    enumerates them, which is the order of insertion as long as the keys are
    distinct and none is an array index (\<open>nameKeys\<close>).
  \<^item> \<open>stringify toString gap indent\<close> is the text of a value as the standard's
    \<^verbatim>\<open>SerializeJSONProperty\<close> builds it: \<open>gap\<close> is the empty text for
    \<^verbatim>\<open>JSON.stringify(value)\<close> and two spaces for
    \<^verbatim>\<open>JSON.stringify(value, null, 2)\<close>, \<open>indent\<close> is the indentation reached. The
    text of a number is a parameter (\<open>toString\<close>), since numbers are reals
    here; \<open>printInteger\<close> is the printer of the numbers that are integers. A
    string is quoted as \<^verbatim>\<open>QuoteJSONString\<close> does for characters below 256.
  \<^item> \<open>parse\<close> is \<^verbatim>\<open>JSON.parse\<close>, a recursive descent over the text. The
    functions \<open>parseValue\<close>, \<open>parseElements\<close> and \<open>parseMembers\<close> take fuel,
    which \<open>parse\<close> sets to the length of the text plus one; the text of a
    value never needs more than its length (\<open>fuelFor_le_length\<close>), so the fuel
    does not run out on a text that \<open>stringify\<close> has written. The result \<open>None\<close> is a \<^verbatim>\<open>SyntaxError\<close>, or a text
    outside the model: an escape of a character above 255, or an object whose
    keys are not distinct names. \<open>readNumber\<close> gives the real number a number
    token denotes.
  \<^item> The theorem \<open>parse_stringify\<close>: parsing the text of a value gives the value
    back, for every value whose objects have distinct names as keys and whose
    numbers are printed as number tokens that denote them (\<open>printable\<close>), and
    for every gap of whitespace.
\<close>

section \<open>Values and their text\<close>

datatype json =
    JNull
  | JBool bool
  | JNumber number
  | JString string
  | JArray "json list"
  | JObject "(string \<times> json) list"

definition hexDigit :: "nat \<Rightarrow> char" where
  "hexDigit d = ''0123456789abcdef'' ! d"

definition quoteChar :: "char \<Rightarrow> string" where
  "quoteChar c =
     (let k = of_char c :: nat in
      if k = 0x22 then [CHR 0x5C, CHR 0x22]
      else if k = 0x5C then [CHR 0x5C, CHR 0x5C]
      else if k = 8 then [CHR 0x5C, CHR ''b'']
      else if k = 9 then [CHR 0x5C, CHR ''t'']
      else if k = 10 then [CHR 0x5C, CHR ''n'']
      else if k = 12 then [CHR 0x5C, CHR ''f'']
      else if k = 13 then [CHR 0x5C, CHR ''r'']
      else if k < 32 then
        [CHR 0x5C, CHR ''u'', CHR ''0'', CHR ''0'', hexDigit (k div 16), hexDigit (k mod 16)]
      else [c])"

definition quoteJson :: "string \<Rightarrow> string" where
  "quoteJson s = [CHR 0x22] @ concat (map quoteChar s) @ [CHR 0x22]"

fun joinWith :: "string \<Rightarrow> string list \<Rightarrow> string" where
  "joinWith separator [] = []"
| "joinWith separator [x] = x"
| "joinWith separator (x # y # ys) = x @ separator @ joinWith separator (y # ys)"

definition wrapJson :: "string \<Rightarrow> string \<Rightarrow> string \<Rightarrow> string \<Rightarrow> string list \<Rightarrow> string" where
  "wrapJson opening closing gap stepback partial =
     (let indent = stepback @ gap in
      if partial = [] then opening @ closing
      else if gap = [] then opening @ joinWith '','' partial @ closing
      else opening @ [CHR 0x0A] @ indent @ joinWith ('','' @ [CHR 0x0A] @ indent) partial @
           [CHR 0x0A] @ stepback @ closing)"

fun stringify :: "(number \<Rightarrow> string) \<Rightarrow> string \<Rightarrow> string \<Rightarrow> json \<Rightarrow> string" where
  "stringify toString gap indent JNull = ''null''"
| "stringify toString gap indent (JBool b) = (if b then ''true'' else ''false'')"
| "stringify toString gap indent (JNumber x) = toString x"
| "stringify toString gap indent (JString s) = quoteJson s"
| "stringify toString gap indent (JArray xs) =
     wrapJson ''['' '']'' gap indent (map (stringify toString gap (indent @ gap)) xs)"
| "stringify toString gap indent (JObject ps) =
     wrapJson ''{'' ''}'' gap indent
       (map (\<lambda>(k, v). quoteJson k @ '':'' @ (if gap = [] then [] else '' '') @
                       stringify toString gap (indent @ gap) v) ps)"

definition printInteger :: "number \<Rightarrow> string" where
  "printInteger x = (if x < 0 then ''-'' @ natToString (nat \<lfloor>- x\<rfloor>) else natToString (nat \<lfloor>x\<rfloor>))"

section \<open>Reading text\<close>

definition isWhitespace :: "char \<Rightarrow> bool" where
  "isWhitespace c \<longleftrightarrow> c \<in> set [CHR '' '', CHR 0x09, CHR 0x0A, CHR 0x0D]"

definition skipWhitespace :: "string \<Rightarrow> string" where
  "skipWhitespace s = dropWhile isWhitespace s"

definition hexValue :: "char \<Rightarrow> nat option" where
  "hexValue c =
     (let k = of_char c :: nat in
      if 48 \<le> k \<and> k \<le> 57 then Some (k - 48)
      else if 97 \<le> k \<and> k \<le> 102 then Some (k - 87)
      else if 65 \<le> k \<and> k \<le> 70 then Some (k - 55)
      else None)"

definition unescape :: "char \<Rightarrow> char option" where
  "unescape e =
     (if e = CHR 0x22 then Some (CHR 0x22)
      else if e = CHR 0x5C then Some (CHR 0x5C)
      else if e = CHR ''/'' then Some (CHR ''/'')
      else if e = CHR ''b'' then Some (CHR 0x08)
      else if e = CHR ''f'' then Some (CHR 0x0C)
      else if e = CHR ''n'' then Some (CHR 0x0A)
      else if e = CHR ''r'' then Some (CHR 0x0D)
      else if e = CHR ''t'' then Some (CHR 0x09)
      else None)"

definition unicodeEscape :: "string \<Rightarrow> char option" where
  "unicodeEscape h =
     (if length h = 4 \<and> list_all (\<lambda>c. hexValue c \<noteq> None) h then
        (let v = foldl (\<lambda>a c. 16 * a + the (hexValue c)) 0 h
         in if v < 256 then Some (char_of v) else None)
      else None)"

fun parseChars :: "string \<Rightarrow> (string \<times> string) option" where
  "parseChars [] = None"
| "parseChars (c # s) =
     (if c = CHR 0x22 then Some ([], s)
      else if c = CHR 0x5C then
        (case s of
           [] \<Rightarrow> None
         | e # t \<Rightarrow>
             if e = CHR ''u'' then
               (case unicodeEscape (take 4 t) of
                  None \<Rightarrow> None
                | Some ch \<Rightarrow> map_option (apfst ((#) ch)) (parseChars (drop 4 t)))
             else
               (case unescape e of
                  None \<Rightarrow> None
                | Some ch \<Rightarrow> map_option (apfst ((#) ch)) (parseChars t)))
      else if (of_char c :: nat) < 32 then None
      else map_option (apfst ((#) c)) (parseChars s))"

definition isDigit :: "char \<Rightarrow> bool" where
  "isDigit c \<longleftrightarrow> digitValue c \<noteq> None"

definition isNumberChar :: "char \<Rightarrow> bool" where
  "isNumberChar c \<longleftrightarrow> isDigit c \<or> c \<in> set ''+-.eE''"

definition readInteger :: "string \<Rightarrow> nat option" where
  "readInteger s = (if 1 < length s \<and> hd s = CHR ''0'' then None else stringToNat s)"

definition readFraction :: "string \<Rightarrow> (real \<times> string) option" where
  "readFraction s =
     (if take 1 s = ''.'' then
        (let ds = takeWhile isDigit (drop 1 s) in
         case stringToNat ds of
           None \<Rightarrow> None
         | Some f \<Rightarrow> Some (real f / 10 ^ length ds, dropWhile isDigit (drop 1 s)))
      else Some (0, s))"

definition readExponent :: "string \<Rightarrow> int option" where
  "readExponent s =
     (if s = [] then Some 0
      else if hd s = CHR ''e'' \<or> hd s = CHR ''E'' then
        (let t = tl s in
         if take 1 t = ''-'' then map_option (\<lambda>e. - int e) (stringToNat (drop 1 t))
         else if take 1 t = ''+'' then map_option int (stringToNat (drop 1 t))
         else map_option int (stringToNat t))
      else None)"

definition scale :: "real \<Rightarrow> int \<Rightarrow> real" where
  "scale m e = (if 0 \<le> e then m * 10 ^ nat e else m / 10 ^ nat (- e))"

definition readUnsigned :: "string \<Rightarrow> real option" where
  "readUnsigned s =
     (case readInteger (takeWhile isDigit s) of
        None \<Rightarrow> None
      | Some i \<Rightarrow>
          (case readFraction (dropWhile isDigit s) of
             None \<Rightarrow> None
           | Some (f, t) \<Rightarrow> map_option (scale (real i + f)) (readExponent t)))"

definition readNumber :: "string \<Rightarrow> real option" where
  "readNumber s =
     (if take 1 s = ''-'' then map_option uminus (readUnsigned (drop 1 s)) else readUnsigned s)"

definition nextIs :: "char \<Rightarrow> string \<Rightarrow> bool" where
  "nextIs c s = (case skipWhitespace s of [] \<Rightarrow> False | d # u \<Rightarrow> d = c)"

definition afterNext :: "string \<Rightarrow> string" where
  "afterNext s = tl (skipWhitespace s)"

definition nameKeys :: "(string \<times> json) list \<Rightarrow> bool" where
  "nameKeys ms \<longleftrightarrow> distinct (map fst ms) \<and> list_all (\<lambda>k. stringToNat k = None) (map fst ms)"

fun parseValue :: "nat \<Rightarrow> string \<Rightarrow> (json \<times> string) option"
  and parseElements :: "nat \<Rightarrow> string \<Rightarrow> (json list \<times> string) option"
  and parseMembers :: "nat \<Rightarrow> string \<Rightarrow> ((string \<times> json) list \<times> string) option" where
  "parseValue 0 s = None"
| "parseValue (Suc n) s =
     (case skipWhitespace s of
        [] \<Rightarrow> None
      | c # t \<Rightarrow>
          if c = CHR ''['' then
            (if nextIs CHR '']'' t then Some (JArray [], afterNext t)
             else map_option (apfst JArray) (parseElements n t))
          else if c = CHR ''{'' then
            (if nextIs CHR ''}'' t then Some (JObject [], afterNext t)
             else (case parseMembers n t of
                     None \<Rightarrow> None
                   | Some (ms, u) \<Rightarrow> if nameKeys ms then Some (JObject ms, u) else None))
          else if c = CHR 0x22 then map_option (apfst JString) (parseChars t)
          else if c = CHR ''n'' then (if take 3 t = ''ull'' then Some (JNull, drop 3 t) else None)
          else if c = CHR ''t'' then (if take 3 t = ''rue'' then Some (JBool True, drop 3 t) else None)
          else if c = CHR ''f'' then (if take 4 t = ''alse'' then Some (JBool False, drop 4 t) else None)
          else
            (case readNumber (takeWhile isNumberChar (c # t)) of
               None \<Rightarrow> None
             | Some x \<Rightarrow> Some (JNumber x, dropWhile isNumberChar (c # t))))"
| "parseElements 0 s = None"
| "parseElements (Suc n) s =
     (case parseValue n s of
        None \<Rightarrow> None
      | Some (v, t) \<Rightarrow>
          (case skipWhitespace t of
             [] \<Rightarrow> None
           | c # u \<Rightarrow>
               if c = CHR '','' then map_option (apfst ((#) v)) (parseElements n u)
               else if c = CHR '']'' then Some ([v], u)
               else None))"
| "parseMembers 0 s = None"
| "parseMembers (Suc n) s =
     (case skipWhitespace s of
        [] \<Rightarrow> None
      | q # t \<Rightarrow>
          if q \<noteq> CHR 0x22 then None
          else
            (case parseChars t of
               None \<Rightarrow> None
             | Some (k, u) \<Rightarrow>
                 (case skipWhitespace u of
                    [] \<Rightarrow> None
                  | c # w \<Rightarrow>
                      if c \<noteq> CHR '':'' then None
                      else
                        (case parseValue n w of
                           None \<Rightarrow> None
                         | Some (v, x) \<Rightarrow>
                             (case skipWhitespace x of
                                [] \<Rightarrow> None
                              | d # y \<Rightarrow>
                                  if d = CHR '','' then
                                    map_option (apfst ((#) (k, v))) (parseMembers n y)
                                  else if d = CHR ''}'' then Some ([(k, v)], y)
                                  else None)))))"

definition parse :: "string \<Rightarrow> json option" where
  "parse s =
     (case parseValue (Suc (length s)) s of
        None \<Rightarrow> None
      | Some (v, rest) \<Rightarrow> if skipWhitespace rest = [] then Some v else None)"

section \<open>The specification\<close>

fun numbersOf :: "json \<Rightarrow> number set" where
  "numbersOf (JNumber x) = {x}"
| "numbersOf (JArray xs) = (\<Union>x \<in> set xs. numbersOf x)"
| "numbersOf (JObject ms) = (\<Union>(k, v) \<in> set ms. numbersOf v)"
| "numbersOf j = {}"

fun wf_json :: "json \<Rightarrow> bool" where
  "wf_json (JArray xs) \<longleftrightarrow> (\<forall>x \<in> set xs. wf_json x)"
| "wf_json (JObject ms) \<longleftrightarrow> nameKeys ms \<and> (\<forall>(k, v) \<in> set ms. wf_json v)"
| "wf_json j \<longleftrightarrow> True"

fun fuelFor :: "json \<Rightarrow> nat" where
  "fuelFor (JArray xs) = Suc (sum_list (map (\<lambda>x. Suc (fuelFor x)) xs))"
| "fuelFor (JObject ms) = Suc (sum_list (map (\<lambda>(k, v). Suc (fuelFor v)) ms))"
| "fuelFor j = 1"

definition numberText :: "string \<Rightarrow> bool" where
  "numberText t \<longleftrightarrow> t \<noteq> [] \<and> list_all isNumberChar t"

definition reads :: "(number \<Rightarrow> string) \<Rightarrow> number \<Rightarrow> bool" where
  "reads toString x \<longleftrightarrow> numberText (toString x) \<and> readNumber (toString x) = Some x"

definition delimited :: "string \<Rightarrow> bool" where
  "delimited rest \<longleftrightarrow> rest = [] \<or> \<not> isNumberChar (hd rest)"

definition startsValue :: "string \<Rightarrow> bool" where
  "startsValue t \<longleftrightarrow> t \<noteq> [] \<and> \<not> isWhitespace (hd t) \<and> hd t \<noteq> CHR '']'' \<and> hd t \<noteq> CHR ''}''"

definition printable :: "(number \<Rightarrow> string) \<Rightarrow> json \<Rightarrow> bool" where
  "printable toString j \<longleftrightarrow> wf_json j \<and> (\<forall>x \<in> numbersOf j. reads toString x)"

section \<open>Strings\<close>

lemma joinWith_Cons: "joinWith separator (x # xs) = x @ concat (map (\<lambda>y. separator @ y) xs)"
  by (induction xs arbitrary: x) simp_all

lemma hex_cases: "d < 16 \<Longrightarrow> d \<in> {0, 1, 2, 3, 4, 5, 6, 7, 8, 9, 10, 11, 12, 13, 14, 15::nat}"
  by simp presburger

lemma hexValue_hexDigit [simp]: "d < 16 \<Longrightarrow> hexValue (hexDigit d) = Some d"
  by (drule hex_cases) (auto simp: hexValue_def hexDigit_def)

lemma parseChars_quoteChar:
  "parseChars (quoteChar c @ s) = map_option (apfst ((#) c)) (parseChars s)"
proof -
  let ?k = "of_char c :: nat"
  consider "c = CHR 0x22" | "c = CHR 0x5C" | "c = CHR 0x08" | "c = CHR 0x09" | "c = CHR 0x0A"
    | "c = CHR 0x0C" | "c = CHR 0x0D"
    | "?k < 32" "?k \<notin> {8, 9, 10, 12, 13}" | "32 \<le> ?k" "c \<noteq> CHR 0x22" "c \<noteq> CHR 0x5C"
    by (cases "?k < 32") (auto simp flip: of_char_eq_iff [where 'a = nat])
  then show ?thesis
  proof cases
    case 8
    then have "16 * (?k div 16) + ?k mod 16 = ?k" "?k div 16 < 16" "?k mod 16 < 16"
      by simp_all
    moreover have "hexValue CHR ''0'' = Some 0"
      by (simp add: hexValue_def)
    ultimately show ?thesis
      using 8 by (simp add: quoteChar_def unicodeEscape_def Let_def)
  next
    case 9
    then have "?k \<noteq> 34" "?k \<noteq> 92"
      by (auto simp flip: of_char_eq_iff [where 'a = nat])
    with 9 show ?thesis
      by (simp add: quoteChar_def Let_def)
  qed (simp_all add: quoteChar_def unescape_def)
qed

lemma parseChars_quoted: "parseChars (concat (map quoteChar s) @ CHR 0x22 # rest) = Some (s, rest)"
  by (induction s) (simp_all add: parseChars_quoteChar)

lemma whitespace_simps [simp]:
  "isWhitespace CHR '' ''" "isWhitespace CHR 0x0A" "\<not> isWhitespace CHR ''[''" "\<not> isWhitespace CHR '']''"
  "\<not> isWhitespace CHR ''{''" "\<not> isWhitespace CHR ''}''" "\<not> isWhitespace CHR '',''"
  "\<not> isWhitespace CHR '':''" "\<not> isWhitespace CHR 0x22" "\<not> isWhitespace CHR ''n''"
  "\<not> isWhitespace CHR ''t''" "\<not> isWhitespace CHR ''f''"
  by (simp_all add: isWhitespace_def)

lemma skipWhitespace_simps [simp]:
  "skipWhitespace [] = []"
  "skipWhitespace (c # s) = (if isWhitespace c then skipWhitespace s else c # s)"
  "list_all isWhitespace w \<Longrightarrow> skipWhitespace (w @ s) = skipWhitespace s"
  by (simp_all add: skipWhitespace_def dropWhile_append2 list_all_iff)

lemma isNumberChar_simps [simp]:
  "\<not> isNumberChar CHR ''[''" "\<not> isNumberChar CHR '']''" "\<not> isNumberChar CHR ''{''"
  "\<not> isNumberChar CHR ''}''" "\<not> isNumberChar CHR '',''" "\<not> isNumberChar CHR '':''"
  "\<not> isNumberChar CHR 0x22" "\<not> isNumberChar CHR ''n''" "\<not> isNumberChar CHR ''t''"
  "\<not> isNumberChar CHR ''f''" "\<not> isNumberChar CHR '' ''" "\<not> isNumberChar CHR 0x0A"
  by (simp_all add: isNumberChar_def isDigit_def digitValue_def)

lemma isNumberChar_not_whitespace: "isNumberChar c \<Longrightarrow> \<not> isWhitespace c"
  by (auto simp: isNumberChar_def isDigit_def digitValue_def isWhitespace_def Let_def split: if_splits)

lemma delimited_simps [simp]:
  "delimited []" "delimited (c # s) \<longleftrightarrow> \<not> isNumberChar c"
  "list_all isWhitespace w \<Longrightarrow> delimited s \<Longrightarrow> delimited (w @ s)"
  by (cases w; auto simp: delimited_def isNumberChar_not_whitespace)+

lemma span_number:
  assumes "numberText t" and "delimited rest"
  shows "takeWhile isNumberChar (t @ rest) = t" "dropWhile isNumberChar (t @ rest) = rest"
  using assms
  by (cases rest; simp add: numberText_def delimited_def list_all_iff takeWhile_append2
      dropWhile_append2)+

lemma parseValue_number:
  assumes "reads toString x" and "delimited rest"
  shows "parseValue (Suc n) (toString x @ rest) = Some (JNumber x, rest)"
proof -
  from assms(1) have t: "numberText (toString x)" and r: "readNumber (toString x) = Some x"
    by (simp_all add: reads_def)
  from t obtain c u where cu: "toString x = c # u" and c: "isNumberChar c"
    by (cases "toString x") (auto simp: numberText_def)
  from c have "\<not> isWhitespace c" "c \<noteq> CHR ''[''" "c \<noteq> CHR ''{''" "c \<noteq> CHR 0x22"
    "c \<noteq> CHR ''n''" "c \<noteq> CHR ''t''" "c \<noteq> CHR ''f''"
    by (auto simp: isNumberChar_not_whitespace)
  with span_number [OF t assms(2)] r show ?thesis
    by (simp add: cu)
qed

lemma parseValue_whitespace [simp]:
  "list_all isWhitespace w \<Longrightarrow> parseValue n (w @ s) = parseValue n s"
  by (cases n) simp_all

lemma parseElements_whitespace [simp]:
  "list_all isWhitespace w \<Longrightarrow> parseElements n (w @ s) = parseElements n s"
  by (cases n) simp_all

lemma parseMembers_whitespace [simp]:
  "list_all isWhitespace w \<Longrightarrow> parseMembers n (w @ s) = parseMembers n s"
  by (cases n) simp_all

lemma startsValue_wrapJson [simp]:
  "startsValue (wrapJson ''['' closing gap indent partial)"
  "startsValue (wrapJson ''{'' closing gap indent partial)"
  by (simp_all add: startsValue_def wrapJson_def Let_def)

lemma startsValue_stringify:
  assumes "\<forall>x \<in> numbersOf j. reads toString x"
  shows "startsValue (stringify toString gap indent j)"
proof (cases j)
  case (JNumber x)
  with assms have "numberText (toString x)"
    by (simp add: reads_def)
  then obtain c u where "toString x = c # u" "isNumberChar c"
    by (cases "toString x") (auto simp: numberText_def)
  with JNumber show ?thesis
    by (auto simp: startsValue_def isNumberChar_not_whitespace)
next
  case (JArray xs)
  then show ?thesis by simp
next
  case (JObject ms)
  then show ?thesis by simp
qed (simp_all add: startsValue_def quoteJson_def)

lemma startsValue_append [simp]: "startsValue t \<Longrightarrow> startsValue (t @ s)"
  by (cases t) (simp_all add: startsValue_def)

lemma nextIs_simps [simp]:
  "\<not> nextIs c []" "nextIs c (d # s) \<longleftrightarrow> (if isWhitespace d then nextIs c s else d = c)"
  "list_all isWhitespace w \<Longrightarrow> nextIs c (w @ s) \<longleftrightarrow> nextIs c s"
  by (simp_all add: nextIs_def)

lemma afterNext_simps [simp]:
  "afterNext (d # s) = (if isWhitespace d then afterNext s else s)"
  "list_all isWhitespace w \<Longrightarrow> afterNext (w @ s) = afterNext s"
  by (simp_all add: afterNext_def)

lemma startsValue_skip [simp]:
  "startsValue t \<Longrightarrow> skipWhitespace t = t"
  "startsValue t \<Longrightarrow> \<not> nextIs CHR '']'' t" "startsValue t \<Longrightarrow> \<not> nextIs CHR ''}'' t"
  by (cases t; simp add: startsValue_def)+

lemma joinWith_Cons2: "xs \<noteq> [] \<Longrightarrow> joinWith separator (x # xs) = x @ separator @ joinWith separator xs"
  by (cases xs) simp_all

lemma wrapJson_shape:
  assumes "partial \<noteq> []" and "list_all isWhitespace gap" and "list_all isWhitespace indent"
  obtains w1 w2 w3 where "list_all isWhitespace w1" "list_all isWhitespace w2" "list_all isWhitespace w3"
    and "wrapJson opening closing gap indent partial =
         opening @ w1 @ joinWith (CHR '','' # w2) partial @ w3 @ closing"
proof (cases "gap = []")
  case True
  with assms(1) have "wrapJson opening closing gap indent partial =
      opening @ [] @ joinWith (CHR '','' # []) partial @ [] @ closing"
    by (simp add: wrapJson_def)
  then show ?thesis
    by (rule that [rotated 3]) simp_all
next
  case False
  with assms(1) have "wrapJson opening closing gap indent partial =
      opening @ (CHR 0x0A # indent @ gap) @ joinWith (CHR '','' # CHR 0x0A # indent @ gap) partial @
      (CHR 0x0A # indent) @ closing"
    by (simp add: wrapJson_def Let_def)
  then show ?thesis
    by (rule that [rotated 3]) (simp_all add: assms(2,3))
qed

lemma parseElements_joined:
  assumes "xs \<noteq> []"
    and "\<And>x fuel rest. x \<in> set xs \<Longrightarrow> fuelFor x \<le> fuel \<Longrightarrow> delimited rest \<Longrightarrow>
           parseValue fuel (out x @ rest) = Some (x, rest)"
    and "sum_list (map (\<lambda>x. Suc (fuelFor x)) xs) \<le> fuel"
    and "list_all isWhitespace sep" and "list_all isWhitespace closing"
  shows "parseElements fuel (joinWith (CHR '','' # sep) (map out xs) @ closing @ CHR '']'' # rest) =
         Some (xs, rest)"
  using assms(1,2,3)
proof (induction xs arbitrary: fuel rule: list_nonempty_induct)
  case (single x)
  from single(2) obtain m where m: "fuel = Suc m" "fuelFor x \<le> m"
    by (cases fuel) simp_all
  have "parseValue m (out x @ closing @ CHR '']'' # rest) = Some (x, closing @ CHR '']'' # rest)"
    by (rule single(1)) (simp_all add: m assms(5))
  then show ?case
    by (simp add: m assms(5))
next
  case (cons x xs)
  from cons.prems(2) obtain m where m: "fuel = Suc m" "fuelFor x \<le> m"
    "sum_list (map (\<lambda>x. Suc (fuelFor x)) xs) \<le> m"
    by (cases fuel) simp_all
  let ?tail = "joinWith (CHR '','' # sep) (map out xs) @ closing @ CHR '']'' # rest"
  have "parseValue m (out x @ CHR '','' # sep @ ?tail) = Some (x, CHR '','' # sep @ ?tail)"
    by (rule cons.prems(1)) (simp_all add: m)
  moreover have "parseElements m ?tail = Some (xs, rest)"
    by (rule cons.IH) (simp_all add: cons.prems(1) m)
  ultimately show ?case
    using cons.hyps by (simp add: m joinWith_Cons2 assms(4))
qed

lemma parseMembers_joined:
  assumes "ms \<noteq> []"
    and "\<And>v fuel rest. v \<in> snd ` set ms \<Longrightarrow> fuelFor v \<le> fuel \<Longrightarrow> delimited rest \<Longrightarrow>
           parseValue fuel (out v @ rest) = Some (v, rest)"
    and "sum_list (map (\<lambda>(k, v). Suc (fuelFor v)) ms) \<le> fuel"
    and "list_all isWhitespace sep" and "list_all isWhitespace closing" and "list_all isWhitespace w"
  shows "parseMembers fuel
           (joinWith (CHR '','' # sep) (map (\<lambda>(k, v). quoteJson k @ CHR '':'' # w @ out v) ms) @
            closing @ CHR ''}'' # rest) =
         Some (ms, rest)"
  using assms(1,2,3)
proof (induction ms arbitrary: fuel rule: list_nonempty_induct)
  case (single kv)
  obtain k v where kv: "kv = (k, v)"
    by (cases kv)
  from single(2) obtain m where m: "fuel = Suc m" "fuelFor v \<le> m"
    by (cases fuel) (simp_all add: kv)
  have "parseValue m (out v @ closing @ CHR ''}'' # rest) = Some (v, closing @ CHR ''}'' # rest)"
    by (rule single(1)) (simp_all add: m kv assms(5))
  then show ?case
    by (simp add: m kv quoteJson_def parseChars_quoted assms(5,6))
next
  case (cons kv ms)
  obtain k v where kv: "kv = (k, v)"
    by (cases kv)
  from cons.prems(2) obtain m where m: "fuel = Suc m" "fuelFor v \<le> m"
    "sum_list (map (\<lambda>(k, v). Suc (fuelFor v)) ms) \<le> m"
    by (cases fuel) (simp_all add: kv)
  let ?tail = "joinWith (CHR '','' # sep) (map (\<lambda>(k, v). quoteJson k @ CHR '':'' # w @ out v) ms) @
               closing @ CHR ''}'' # rest"
  have "parseValue m (out v @ CHR '','' # sep @ ?tail) = Some (v, CHR '','' # sep @ ?tail)"
    by (rule cons.prems(1)) (simp_all add: m kv)
  moreover have "parseMembers m ?tail = Some (ms, rest)"
    by (rule cons.IH) (simp_all add: cons.prems(1) m)
  ultimately show ?case
    using cons.hyps by (simp add: m kv joinWith_Cons2 quoteJson_def parseChars_quoted assms(4,6))
qed

lemma printable_simps [simp]:
  "printable toString JNull" "printable toString (JBool b)" "printable toString (JString s)"
  "printable toString (JNumber x) \<longleftrightarrow> reads toString x"
  "printable toString (JArray xs) \<longleftrightarrow> (\<forall>x \<in> set xs. printable toString x)"
  "printable toString (JObject ms) \<longleftrightarrow> nameKeys ms \<and> (\<forall>v \<in> snd ` set ms. printable toString v)"
  by (auto simp: printable_def)

lemma startsValue_joinWith:
  "xs \<noteq> [] \<Longrightarrow> startsValue (hd xs) \<Longrightarrow> startsValue (joinWith separator xs)"
  by (cases xs) (simp_all add: joinWith_Cons)

lemma parseValue_array:
  assumes "\<And>x fuel rest. x \<in> set xs \<Longrightarrow> fuelFor x \<le> fuel \<Longrightarrow> delimited rest \<Longrightarrow>
           parseValue fuel (out x @ rest) = Some (x, rest)"
    and "\<And>x. x \<in> set xs \<Longrightarrow> startsValue (out x)"
    and "sum_list (map (\<lambda>x. Suc (fuelFor x)) xs) \<le> m"
    and "list_all isWhitespace gap" and "list_all isWhitespace indent"
  shows "parseValue (Suc m) (wrapJson ''['' '']'' gap indent (map out xs) @ rest) = Some (JArray xs, rest)"
proof (cases "xs = []")
  case True
  then show ?thesis by (simp add: wrapJson_def)
next
  case False
  with assms(2) have start: "startsValue (hd (map out xs))"
    by (cases xs) simp_all
  from False obtain w1 w2 w3 where w: "list_all isWhitespace w1" "list_all isWhitespace w2"
      "list_all isWhitespace w3"
    and shape: "wrapJson ''['' '']'' gap indent (map out xs) =
                ''['' @ w1 @ joinWith (CHR '','' # w2) (map out xs) @ w3 @ '']''"
    using wrapJson_shape [of "map out xs" gap indent "''[''" "'']''"] assms(4,5)
    by auto
  from parseElements_joined [of xs out m w2 w3 rest, OF False assms(1,3) w(2,3)]
    startsValue_joinWith [of "map out xs" "CHR '','' # w2", OF _ start] False
  show ?thesis
    by (simp add: shape w(1))
qed

lemma parseValue_object:
  assumes "\<And>v fuel rest. v \<in> snd ` set ms \<Longrightarrow> fuelFor v \<le> fuel \<Longrightarrow> delimited rest \<Longrightarrow>
           parseValue fuel (out v @ rest) = Some (v, rest)"
    and "nameKeys ms" and "list_all isWhitespace w"
    and "sum_list (map (\<lambda>(k, v). Suc (fuelFor v)) ms) \<le> m"
    and "list_all isWhitespace gap" and "list_all isWhitespace indent"
  shows "parseValue (Suc m)
           (wrapJson ''{'' ''}'' gap indent (map (\<lambda>(k, v). quoteJson k @ CHR '':'' # w @ out v) ms) @ rest) =
         Some (JObject ms, rest)"
proof (cases "ms = []")
  case True
  then show ?thesis by (simp add: wrapJson_def)
next
  case False
  let ?member = "\<lambda>(k, v). quoteJson k @ CHR '':'' # w @ out v"
  from False have start: "startsValue (hd (map ?member ms))"
    by (cases ms) (auto simp: startsValue_def quoteJson_def)
  from False obtain w1 w2 w3 where w: "list_all isWhitespace w1" "list_all isWhitespace w2"
      "list_all isWhitespace w3"
    and shape: "wrapJson ''{'' ''}'' gap indent (map ?member ms) =
                ''{'' @ w1 @ joinWith (CHR '','' # w2) (map ?member ms) @ w3 @ ''}''"
    using wrapJson_shape [of "map ?member ms" gap indent "''{''" "''}''"] assms(5,6)
    by auto
  from parseMembers_joined [of ms out m w2 w3 w rest, OF False assms(1,4) w(2,3) assms(3)]
    startsValue_joinWith [of "map ?member ms" "CHR '','' # w2", OF _ start] False assms(2)
  show ?thesis
    by (simp add: shape w(1))
qed

lemma parseValue_stringify:
  assumes "printable toString j" and "list_all isWhitespace gap" and "list_all isWhitespace indent"
    and "delimited rest" and "fuelFor j \<le> fuel"
  shows "parseValue fuel (stringify toString gap indent j @ rest) = Some (j, rest)"
  using assms(1,3,4,5)
proof (induction j arbitrary: fuel indent rest)
  case JNull
  then show ?case by (cases fuel) simp_all
next
  case (JBool b)
  then show ?case by (cases fuel) simp_all
next
  case (JNumber x)
  from JNumber.prems(4) obtain m where "fuel = Suc m"
    by (cases fuel) simp_all
  with JNumber.prems parseValue_number [of toString x rest m] show ?case
    by (simp del: parseValue.simps)
next
  case (JString t)
  then show ?case by (cases fuel) (simp_all add: quoteJson_def parseChars_quoted)
next
  case (JArray xs)
  from JArray.prems(4) obtain m where m: "fuel = Suc m" "sum_list (map (\<lambda>x. Suc (fuelFor x)) xs) \<le> m"
    by (cases fuel) simp_all
  from JArray.prems(2) assms(2) have "list_all isWhitespace (indent @ gap)"
    by simp
  with JArray.IH JArray.prems(1)
  have "\<And>x fuel rest. x \<in> set xs \<Longrightarrow> fuelFor x \<le> fuel \<Longrightarrow> delimited rest \<Longrightarrow>
      parseValue fuel (stringify toString gap (indent @ gap) x @ rest) = Some (x, rest)"
    by simp
  from parseValue_array [OF this _ m(2) assms(2) JArray.prems(2)] JArray.prems(1) show ?case
    by (simp add: m startsValue_stringify printable_def del: parseValue.simps)
next
  case (JObject ms)
  from JObject.prems(4) obtain m
    where m: "fuel = Suc m" "sum_list (map (\<lambda>(k, v). Suc (fuelFor v)) ms) \<le> m"
    by (cases fuel) simp_all
  let ?w = "if gap = [] then [] else '' ''"
  have member: "(\<lambda>(k, v). quoteJson k @ '':'' @ ?w @ stringify toString gap (indent @ gap) v) =
                (\<lambda>(k, v). quoteJson k @ CHR '':'' # ?w @ stringify toString gap (indent @ gap) v)"
    by (simp add: fun_eq_iff)
  from JObject.prems(2) assms(2) have "list_all isWhitespace (indent @ gap)"
    by simp
  with JObject.IH JObject.prems(1)
  have "\<And>v fuel rest. v \<in> snd ` set ms \<Longrightarrow> fuelFor v \<le> fuel \<Longrightarrow> delimited rest \<Longrightarrow>
      parseValue fuel (stringify toString gap (indent @ gap) v @ rest) = Some (v, rest)"
    by fastforce
  from parseValue_object [OF this _ _ m(2) assms(2) JObject.prems(2), of ?w rest] JObject.prems(1)
  show ?case
    by (simp add: m member del: parseValue.simps)
qed

section \<open>The fuel of the parser\<close>

lemma length_joinWith:
  "length (joinWith separator xs) = sum_list (map length xs) + (length xs - 1) * length separator"
  by (induction separator xs rule: joinWith.induct) simp_all

lemma length_wrapJson:
  assumes "length opening = 1" and "length closing = 1"
  shows "Suc (length partial + sum_list (map length partial)) \<le>
         length (wrapJson opening closing gap indent partial)"
proof (cases "partial = []")
  case True
  with assms show ?thesis by (simp add: wrapJson_def)
next
  case False
  then have "length partial - 1 \<le> (length partial - 1) * length (CHR '','' # w)" for w
    by simp
  with False assms show ?thesis
    by (cases partial) (auto simp: wrapJson_def Let_def length_joinWith)
qed

lemma sum_list_Suc: "sum_list (map (\<lambda>x. Suc (f x)) xs) = length xs + sum_list (map f xs)"
  by (induction xs) simp_all

lemma fuelFor_le_length:
  assumes "\<forall>x \<in> numbersOf j. toString x \<noteq> []"
  shows "fuelFor j \<le> length (stringify toString gap indent j)"
  using assms
proof (induction j arbitrary: indent)
  case (JArray xs)
  let ?text = "stringify toString gap (indent @ gap)"
  from JArray have "sum_list (map fuelFor xs) \<le> sum_list (map (length \<circ> ?text) xs)"
    by (intro sum_list_mono) auto
  with length_wrapJson [of "''[''" "'']''" "map ?text xs" gap indent] show ?case
    by (cases "xs = []") (simp_all add: sum_list_Suc comp_def)
next
  case (JObject ms)
  define member where "member = (\<lambda>m. quoteJson (fst m) @ '':'' @ (if gap = [] then [] else '' '') @
                   stringify toString gap (indent @ gap) (snd m))"
  have shape: "stringify toString gap indent (JObject ms) = wrapJson ''{'' ''}'' gap indent (map member ms)"
    by (simp add: member_def case_prod_unfold)
  have fuel: "fuelFor (JObject ms) = Suc (length ms + sum_list (map (fuelFor \<circ> snd) ms))"
    by (simp add: case_prod_unfold sum_list_Suc comp_def)
  have "fuelFor (snd m) \<le> length (member m)" if "m \<in> set ms" for m
  proof -
    from that JObject.prems have "\<forall>x \<in> numbersOf (snd m). toString x \<noteq> []"
      by (fastforce simp: case_prod_unfold)
    from JObject.IH [of m "snd m" "indent @ gap", OF that _ this] show ?thesis
      by (cases m) (simp add: member_def trans_le_add2)
  qed
  then have "sum_list (map (fuelFor \<circ> snd) ms) \<le> sum_list (map (length \<circ> member) ms)"
    by (intro sum_list_mono) auto
  with length_wrapJson [of "''{''" "''}''" "map member ms" gap indent] show ?case
    unfolding shape fuel by (simp add: comp_def)
qed (simp_all add: quoteJson_def Suc_le_eq)

theorem parse_stringify:
  assumes "printable toString j" and "list_all isWhitespace gap"
  shows "parse (stringify toString gap [] j) = Some j"
proof -
  from assms(1) have "\<forall>x \<in> numbersOf j. toString x \<noteq> []"
    by (auto simp: printable_def reads_def numberText_def)
  then have "fuelFor j \<le> Suc (length (stringify toString gap [] j))"
    using fuelFor_le_length [of j toString gap "[]"] by simp
  from parseValue_stringify [OF assms, of "[]" "[]", OF _ _ this] show ?thesis
    by (simp add: parse_def)
qed

section \<open>The printer of integers\<close>

lemma isDigit_digitChar [simp]: "d < 10 \<Longrightarrow> isDigit (digitChar d)"
  by (simp add: isDigit_def)

lemma isDigit_natToString: "list_all isDigit (natToString n)"
proof (induction n rule: natToString.induct)
  case (1 n)
  then show ?case
    by (cases "n < 10") (simp_all add: natToString_small natToString_large)
qed

lemma hd_natToString: "0 < n \<Longrightarrow> hd (natToString n) \<noteq> CHR ''0''"
proof (induction n rule: natToString.induct)
  case (1 n)
  show ?case
  proof (cases "n < 10")
    case True
    with 1(2) digit_cases [of n] show ?thesis
      by (auto simp: natToString_small digitChar_def)
  next
    case False
    with 1 show ?thesis
      by (simp add: natToString_large)
  qed
qed

lemma readUnsigned_natToString: "readUnsigned (natToString n) = Some (real n)"
proof -
  have "readInteger (natToString n) = Some n"
  proof (cases "n = 0")
    case True
    then show ?thesis
      by (simp add: readInteger_def natToString_small digitChar_def stringToNat_def digitValue_def)
  next
    case False
    with hd_natToString [of n] show ?thesis
      by (simp add: readInteger_def)
  qed
  moreover have span: "takeWhile isDigit (natToString n) = natToString n"
    "dropWhile isDigit (natToString n) = []"
    using isDigit_natToString [of n] by (simp_all add: list_all_iff)
  ultimately show ?thesis
    by (simp add: readUnsigned_def span readFraction_def readExponent_def scale_def)
qed

lemma numberText_natToString:
  "list_all isNumberChar (natToString n)" "take (Suc 0) (natToString n) \<noteq> ''-''"
proof -
  show "list_all isNumberChar (natToString n)"
    using isDigit_natToString [of n] by (auto simp: list_all_iff isNumberChar_def)
  obtain c t where ct: "natToString n = c # t"
    by (cases "natToString n") simp_all
  with isDigit_natToString [of n] have "isDigit c"
    by simp
  then have "c \<noteq> CHR ''-''"
    by (auto simp: isDigit_def digitValue_def)
  with ct show "take (Suc 0) (natToString n) \<noteq> ''-''"
    by simp
qed

lemma reads_natural: "reads printInteger (real n)"
  by (simp add: reads_def numberText_def printInteger_def readNumber_def numberText_natToString
      readUnsigned_natToString)

lemma reads_negative: "reads printInteger (- real n)"
proof (cases "n = 0")
  case True
  with reads_natural [of 0] show ?thesis by simp
next
  case False
  then have "\<lfloor>real n\<rfloor> = int n" "- real n < 0"
    by simp_all
  then show ?thesis
    by (simp add: reads_def numberText_def printInteger_def readNumber_def numberText_natToString
        readUnsigned_natToString isNumberChar_def)
qed

lemma reads_printInteger: "x \<in> \<int> \<Longrightarrow> reads printInteger x"
proof -
  assume "x \<in> \<int>"
  then obtain k where x: "x = of_int k"
    by (auto elim: Ints_cases)
  show ?thesis
  proof (cases "k < 0")
    case True
    then have "x = - real (nat (- k))"
      by (simp add: x)
    then show ?thesis
      by (simp only: reads_negative)
  next
    case False
    then have "x = real (nat k)"
      by (simp add: x)
    then show ?thesis
      by (simp only: reads_natural)
  qed
qed

end
