(* ===== verification/History.thy ===== *)
theory History
  imports Spin_Lattice Json
begin

text \<open>
  The history buffer of \<^verbatim>\<open>script.js\<close>: the global \<^verbatim>\<open>spinHistory\<close>, to which
  \<^verbatim>\<open>runSimulation\<close> appends a deep copy of the grid after every update and from
  which it removes the oldest entry once more than \<^verbatim>\<open>historySize\<close> are held.

  \<^item> \<open>deepCopy\<close> is the copy \<^verbatim>\<open>JSON.parse(JSON.stringify(spins))\<close>: the grid as
    a JSON value (\<open>spinsJson\<close>), its text without indentation, the value
    parsed from the text (theory \<open>Json\<close>), read as a grid again (\<open>jsonSpins\<close>).
    A hole of a row comes back as \<^verbatim>\<open>null\<close>; both are \<open>None\<close> here, a cell that
    holds no spin, and every reader of the history only asks whether a cell is
    \<^verbatim>\<open>'up'\<close>. The lemma \<open>deepCopy_returns\<close> shows that the copy never throws
    and is the grid itself. HOL values are not shared, so later writes to the
    grid cannot reach the entry, which is what the copy is for.
  \<^item> \<open>recordSnapshot\<close> is the \<^verbatim>\<open>push\<close> of the copy followed by the conditional
    \<^verbatim>\<open>shift\<close>.
  \<^item> \<open>recordAll\<close> records a sequence of grids, one after the other, as successive
    calls of \<^verbatim>\<open>runSimulation\<close> do.
  \<^item> \<open>wf_history\<close> is the invariant: at most \<^verbatim>\<open>historySize\<close> entries, all of them
    well-formed grids.

  The lemmas show the bound, that the buffer is first-in first-out (it holds the
  most recent \<^verbatim>\<open>historySize\<close> grids in the order they were recorded), and that
  its last entry is the grid just recorded.
\<close>

section \<open>The program\<close>

definition historySize :: nat where
  "historySize = 100"

definition spinJson :: "cell \<Rightarrow> json" where
  "spinJson c = (case c of None \<Rightarrow> JNull | Some Up \<Rightarrow> JString ''up'' | Some Down \<Rightarrow> JString ''down'')"

definition spinsJson :: "grid \<Rightarrow> json" where
  "spinsJson g = JArray (map (\<lambda>row. JArray (map spinJson row)) g)"

definition jsonSpin :: "json \<Rightarrow> cell" where
  "jsonSpin j =
     (if j = JString ''up'' then Some Up else if j = JString ''down'' then Some Down else None)"

definition jsonSpins :: "json \<Rightarrow> grid option" where
  "jsonSpins j =
     (case j of
        JArray rows \<Rightarrow>
          those (map (\<lambda>row. case row of JArray cells \<Rightarrow> Some (map jsonSpin cells) | _ \<Rightarrow> None) rows)
      | _ \<Rightarrow> None)"

definition deepCopy :: "grid \<Rightarrow> grid js" where
  "deepCopy g =
     (case Option.bind (parse (stringify printInteger [] [] (spinsJson g))) jsonSpins of
        None \<Rightarrow> Inl SyntaxError
      | Some copy \<Rightarrow> Inr copy)"

definition recordSnapshot :: "grid \<Rightarrow> grid list \<Rightarrow> grid list" where
  "recordSnapshot g hist =
     (let hist' = hist @ [g] in if historySize < length hist' then tl hist' else hist')"

section \<open>The specification\<close>

definition recordAll :: "grid list \<Rightarrow> grid list \<Rightarrow> grid list" where
  "recordAll gs hist = foldl (\<lambda>h g. recordSnapshot g h) hist gs"

definition wf_history :: "grid list \<Rightarrow> bool" where
  "wf_history hist \<longleftrightarrow> length hist \<le> historySize \<and> list_all wf_grid hist"

section \<open>The deep copy\<close>

lemma jsonSpin_spinJson [simp]: "jsonSpin (spinJson c) = c"
  by (simp add: jsonSpin_def spinJson_def split: option.splits spin.splits)

lemma spinJson_inj [simp]: "spinJson c = spinJson c' \<longleftrightarrow> c = c'"
  by (metis jsonSpin_spinJson)

lemma jsonSpins_spinsJson [simp]: "jsonSpins (spinsJson g) = Some g"
  by (induction g) (simp_all add: jsonSpins_def spinsJson_def comp_def map_idI)

lemma numbersOf_spinsJson [simp]: "numbersOf (spinsJson g) = {}"
  by (auto simp: spinsJson_def spinJson_def split: option.splits spin.splits)

lemma wf_json_spinsJson [simp]: "wf_json (spinsJson g)"
  by (auto simp: spinsJson_def spinJson_def split: option.splits spin.splits)

lemma printable_spinsJson [simp]: "printable toString (spinsJson g)"
  by (simp add: printable_def)

lemma deepCopy_returns [simp, js_returns]: "deepCopy g = Inr g"
  by (simp add: deepCopy_def parse_stringify)

section \<open>Lemmas\<close>

lemma historySize_pos [simp]: "0 < historySize"
  by (simp add: historySize_def)

lemma recordSnapshot_below:
  "length hist < historySize \<Longrightarrow> recordSnapshot g hist = hist @ [g]"
  by (simp add: recordSnapshot_def)

lemma recordSnapshot_full:
  "historySize \<le> length hist \<Longrightarrow> recordSnapshot g hist = tl hist @ [g]"
  using historySize_pos by (cases hist) (simp_all add: recordSnapshot_def del: historySize_pos)

lemma length_recordSnapshot:
  "length (recordSnapshot g hist) = (if length hist < historySize then Suc (length hist) else length hist)"
  by (simp add: recordSnapshot_def Let_def)

lemma recordSnapshot_drop:
  assumes "length hist \<le> historySize"
  shows "recordSnapshot g hist = drop (Suc (length hist) - historySize) (hist @ [g])"
proof (cases "length hist < historySize")
  case True
  then show ?thesis by (simp add: recordSnapshot_below)
next
  case False
  with assms have full: "length hist = historySize" by simp
  then obtain x xs where "hist = x # xs"
    using historySize_pos by (cases hist) (auto simp del: historySize_pos)
  with full show ?thesis
    by (simp add: recordSnapshot_full)
qed

lemma recordSnapshot_nonempty [simp]: "recordSnapshot g hist \<noteq> []"
  using length_recordSnapshot [of g hist] historySize_pos
  by (cases "length hist < historySize"; cases hist) (auto simp del: historySize_pos)

lemma last_recordSnapshot [simp]: "last (recordSnapshot g hist) = g"
proof (cases "length hist < historySize")
  case True
  then show ?thesis by (simp add: recordSnapshot_below)
next
  case False
  then show ?thesis by (simp add: recordSnapshot_full)
qed

lemma set_recordSnapshot: "set (recordSnapshot g hist) \<subseteq> insert g (set hist)"
  by (cases hist) (auto simp: recordSnapshot_def Let_def dest: list.set_sel(2))

lemma wf_history_Nil [simp]: "wf_history []"
  by (simp add: wf_history_def)

lemma wf_history_recordSnapshot [wf_keeps]:
  assumes "wf_history hist" and "wf_grid g"
  shows "wf_history (recordSnapshot g hist)"
proof -
  have "length (recordSnapshot g hist) \<le> historySize"
    using assms(1) by (simp add: length_recordSnapshot wf_history_def)
  moreover have "list_all wf_grid (recordSnapshot g hist)"
    using assms set_recordSnapshot [of g hist] by (auto simp: wf_history_def list_all_iff)
  ultimately show ?thesis by (simp add: wf_history_def)
qed

lemma wf_history_nth: "wf_history hist \<Longrightarrow> k < length hist \<Longrightarrow> wf_grid (hist ! k)"
  by (simp add: wf_history_def list_all_length)

text \<open>Recording a sequence of grids into a buffer that respects the bound.\<close>

lemma recordAll_drop:
  assumes "length hist \<le> historySize"
  shows "recordAll gs hist = drop (length hist + length gs - historySize) (hist @ gs)"
  using assms
proof (induction gs arbitrary: hist)
  case Nil
  then show ?case by (simp add: recordAll_def)
next
  case (Cons g gs)
  let ?h = "recordSnapshot g hist"
  have len: "length ?h \<le> historySize"
    using Cons.prems by (simp add: length_recordSnapshot)
  have "recordAll (g # gs) hist = recordAll gs ?h"
    by (simp add: recordAll_def)
  also have "\<dots> = drop (length ?h + length gs - historySize) (?h @ gs)"
    by (rule Cons.IH [OF len])
  also have "\<dots> = drop (length hist + length (g # gs) - historySize) (hist @ g # gs)"
  proof (cases "length hist < historySize")
    case True
    then show ?thesis by (simp add: recordSnapshot_below)
  next
    case False
    with Cons.prems have full: "length hist = historySize" by simp
    then obtain x xs where hist: "hist = x # xs"
      using historySize_pos by (cases hist) (auto simp del: historySize_pos)
    with full show ?thesis
      by (simp add: recordSnapshot_full)
  qed
  finally show ?case .
qed

section \<open>Properties of the history buffer\<close>

text \<open>
  The buffer never holds more than \<^verbatim>\<open>historySize\<close> snapshots: recording
  into a buffer within the bound gives a buffer within the bound, one longer
  until the bound is reached and of the same length from then on.
\<close>

theorem history_bounded:
  assumes "length hist \<le> historySize"
  shows "length (recordSnapshot g hist) = min historySize (Suc (length hist))"
  using assms by (simp add: length_recordSnapshot min_def)

theorem history_bounded_witness:
  "length (replicate historySize initialSpins) \<le> historySize \<and>
   length (recordSnapshot checkerboard (replicate historySize initialSpins)) =
     min historySize (Suc (length (replicate historySize initialSpins)))"
  using history_bounded [of "replicate historySize initialSpins" checkerboard]
  by simp

text \<open>
  C8. The buffer is first-in first-out: after any sequence of grids has been
  recorded into the empty buffer, it holds the last \<^verbatim>\<open>historySize\<close> of them, in
  the order they were recorded.
\<close>

theorem history_fifo:
  "recordAll gs [] = drop (length gs - historySize) gs"
  using recordAll_drop [of "[]" gs] by simp

text \<open>
  The newest entry of the buffer is the grid just recorded, so the
  buffer is never empty after a step of the simulation.
\<close>

theorem history_latest:
  "recordSnapshot g hist \<noteq> [] \<and> last (recordSnapshot g hist) = g"
  by simp

text \<open>
  C20. The deep copy \<^verbatim>\<open>JSON.parse(JSON.stringify(spins))\<close> that \<^verbatim>\<open>runSimulation\<close>
  pushes into the history never throws and is equal to the grid copied,
  whatever the grid holds: the text written for the grid parses back to the
  value that was written, and that value reads as the same rows of the same
  cells.
\<close>

theorem deep_copy_is_identity:
  "deepCopy g = Inr g \<and>
   parse (stringify toString [] [] (spinsJson g)) = Some (spinsJson g) \<and>
   jsonSpins (spinsJson g) = Some g"
  by (simp add: parse_stringify)

end
