(* ===== verification/Observables.thy ===== *)
theory Observables
  imports Energy History
begin

text \<open>
  The observables of \<^verbatim>\<open>script.js\<close>: the functions \<^verbatim>\<open>calculateMagnetization\<close>,
  \<^verbatim>\<open>calculateCorrelation\<close>, \<^verbatim>\<open>calculateTwoPointCorrelation\<close>,
  \<^verbatim>\<open>calculatePairCorrelation\<close>, \<^verbatim>\<open>calculateTemporalCorrelation\<close> and
  \<^verbatim>\<open>calculateStructureFactor\<close>. Each is modelled with the loops, the reads of
  the grid and the early returns it has; the global \<^verbatim>\<open>spins\<close> and, where the
  function reads it, the global \<^verbatim>\<open>spinHistory\<close> are parameters.

  \<^item> \<^verbatim>\<open>calculateMagnetization\<close> iterates with \<^verbatim>\<open>forEach\<close>, which uses no index
    and skips holes, so it cannot throw; the others index the grid and return a
    value of type \<open>'a js\<close>.
  \<^item> Sums of spin values are integers; the final division is in the reals.
  \<^item> The specifications are sums over all sites of the abstract view \<open>spinAt\<close>:
    \<open>spinSum\<close> and \<open>bondSum\<close> of theory \<open>Energy\<close>, \<open>diagonalSum\<close> for a pair of
    sites a diagonal offset apart, \<open>overlap\<close> for two grids, and \<open>amplitude\<close> for
    the sum under the absolute value of the structure factor.

  The lemmas tagged \<open>on_wf\<close> give the value of each function on a well-formed
  grid; the properties follow from them.
\<close>

section \<open>The program\<close>

definition calculateMagnetization :: "grid \<Rightarrow> number" where
  "calculateMagnetization g =
     (let totalMagnetization =
        foldl (\<lambda>acc row.
          foldl (\<lambda>acc c. case c of None \<Rightarrow> acc | Some s \<Rightarrow> acc + spinToValue (Some s))
            acc row)
          0 g
      in real_of_int totalMagnetization / real (gridSize * gridSize))"

definition calculateCorrelation :: "grid \<Rightarrow> number js" where
  "calculateCorrelation g =
     bindJs
       (foldJs (\<lambda>acc i.
          foldJs (\<lambda>correlationSum j.
            bindJs (readSpin g i j) (\<lambda>c.
            let currentSpin = spinToValue c in
            bindJs (readSpin g ((i + 1) mod gridSize) j) (\<lambda>n1.
            bindJs (readSpin g i ((j + 1) mod gridSize)) (\<lambda>n2.
            let neighborSpins = [n1, n2] in
            Inr (foldl (\<lambda>acc neighborSpin. acc + currentSpin * spinToValue neighborSpin)
                   correlationSum neighborSpins)))))
            acc [0..<gridSize])
          0 [0..<gridSize])
       (\<lambda>correlationSum. Inr (real_of_int correlationSum / real (2 * gridSize * gridSize)))"

definition diagonalLoops :: "grid \<Rightarrow> nat \<Rightarrow> (int \<times> nat) js" where
  "diagonalLoops g distance =
     foldJs (\<lambda>acc i.
       foldJs (\<lambda>(correlationSum, count) j.
         bindJs (readSpin g i j) (\<lambda>c.
         let currentSpin = spinToValue c;
             ni = (i + distance) mod gridSize;
             nj = (j + distance) mod gridSize in
         bindJs (readSpin g ni nj) (\<lambda>nc.
         let neighborSpin = spinToValue nc in
         Inr (correlationSum + currentSpin * neighborSpin, Suc count))))
         acc [0..<gridSize])
       (0, 0) [0..<gridSize]"

definition calculateTwoPointCorrelation :: "grid \<Rightarrow> grid list \<Rightarrow> nat \<Rightarrow> number js" where
  "calculateTwoPointCorrelation g spinHistory distance =
     (if length spinHistory \<le> 1 then Inr 0
      else bindJs (diagonalLoops g distance)
             (\<lambda>(correlationSum, count). Inr (real_of_int correlationSum / real count)))"

record pairEntry =
  distance :: nat
  correlation :: number

definition calculatePairCorrelation :: "grid \<Rightarrow> pairEntry list js" where
  "calculatePairCorrelation g =
     foldJs (\<lambda>correlation d.
       bindJs (diagonalLoops g d) (\<lambda>(correlationSum, count).
         Inr (correlation @ [\<lparr>distance = d, correlation = real_of_int correlationSum / real count\<rparr>])))
       [] [1..<Suc (gridSize div 2)]"

definition calculateTemporalCorrelation :: "grid \<Rightarrow> grid list \<Rightarrow> nat \<Rightarrow> number js" where
  "calculateTemporalCorrelation g spinHistory lag =
     (if length spinHistory \<le> lag then Inr 0
      else
        let past = spinHistory ! (length spinHistory - lag - 1) in
        bindJs
          (foldJs (\<lambda>acc i.
             foldJs (\<lambda>(correlationSum, count) j.
               bindJs (readSpin g i j) (\<lambda>c.
               let currentSpin = spinToValue c in
               bindJs (readSpin past i j) (\<lambda>pc.
               let pastSpin = spinToValue pc in
               Inr (correlationSum + currentSpin * pastSpin, Suc count))))
               acc [0..<gridSize])
             (0, 0) [0..<gridSize])
          (\<lambda>(correlationSum, count). Inr (real_of_int correlationSum / real count)))"

text \<open>
  The structure factor. \<open>structureSum\<close> is the pair of inner loops over \<^verbatim>\<open>x\<close> and
  \<^verbatim>\<open>y\<close> for one wavevector; \<open>calculateStructureFactor\<close> is the pair of outer
  loops, which store into the matrix the function has just allocated (so the
  row \<^verbatim>\<open>structureFactor[qx]\<close> exists and the stores are list updates).
\<close>

definition structureSum :: "grid \<Rightarrow> nat \<Rightarrow> nat \<Rightarrow> nat \<Rightarrow> number js" where
  "structureSum g N qx qy =
     foldJs (\<lambda>acc x.
       foldJs (\<lambda>sum y.
         bindJs (readSpin g x y) (\<lambda>c.
         let spin = real_of_int (spinToValue c);
             angle = - 2 * pi * (real (qx * x + qy * y) / real N) in
         Inr (sum + (spin * cos angle - spin * sin angle))))
         acc [0..<N])
       0 [0..<N]"

definition calculateStructureFactor :: "grid \<Rightarrow> number list list js" where
  "calculateStructureFactor g =
     (let N = gridSize;
          structureFactor = replicate N (replicate N 0) in
      foldJs (\<lambda>acc qx.
        foldJs (\<lambda>structureFactor qy.
          bindJs (structureSum g N qx qy) (\<lambda>sum.
          Inr (structureFactor[qx := (structureFactor ! qx)[qy := sqrt (sum * sum)]])))
          acc [0..<N])
        structureFactor [0..<N])"

section \<open>The specification\<close>

definition diagonal :: "nat \<Rightarrow> site \<Rightarrow> site" where
  "diagonal d s = ((fst s + d) mod gridSize, (snd s + d) mod gridSize)"

definition diagonalSum :: "nat \<Rightarrow> grid \<Rightarrow> int" where
  "diagonalSum d g = (\<Sum>s\<leftarrow>sites. spinAt g s * spinAt g (diagonal d s))"

definition overlap :: "grid \<Rightarrow> grid \<Rightarrow> int" where
  "overlap g past = (\<Sum>s\<leftarrow>sites. spinAt g s * spinAt past s)"

definition perSite :: "int \<Rightarrow> number" where
  "perSite k = real_of_int k / real (gridSize * gridSize)"

definition phase :: "nat \<Rightarrow> nat \<Rightarrow> site \<Rightarrow> real" where
  "phase qx qy s = - 2 * pi * (real (qx * fst s + qy * snd s) / real gridSize)"

definition amplitude :: "grid \<Rightarrow> nat \<Rightarrow> nat \<Rightarrow> real" where
  "amplitude g qx qy =
     (\<Sum>s\<leftarrow>sites. real_of_int (spinAt g s) * (cos (phase qx qy s) - sin (phase qx qy s)))"

definition squareMatrix :: "'a list list \<Rightarrow> bool" where
  "squareMatrix rows \<longleftrightarrow> length rows = gridSize \<and> (\<forall>row \<in> set rows. length row = gridSize)"

section \<open>Sums over a well-formed grid\<close>

lemma sum_cells:
  assumes "wf_grid g"
  shows "(\<Sum>row\<leftarrow>g. \<Sum>c\<leftarrow>row. f c) = (\<Sum>s | inGrid s. f (cellAt g s))"
proof -
  have "(\<Sum>row\<leftarrow>g. \<Sum>c\<leftarrow>row. f c) = (\<Sum>i\<leftarrow>[0..<gridSize]. \<Sum>c\<leftarrow>g ! i. f c)"
    using sum_list_nth [of "\<lambda>row. \<Sum>c\<leftarrow>row. f c" g] assms by simp
  also have "\<dots> = (\<Sum>i\<leftarrow>[0..<gridSize]. \<Sum>j\<leftarrow>[0..<gridSize]. f (g ! i ! j))"
  proof (rule arg_cong [where f = sum_list], rule map_cong [OF refl])
    fix i assume "i \<in> set [0..<gridSize]"
    then show "(\<Sum>c\<leftarrow>g ! i. f c) = (\<Sum>j\<leftarrow>[0..<gridSize]. f (g ! i ! j))"
      using sum_list_nth [of f "g ! i"] assms by simp
  qed
  also have "\<dots> = (\<Sum>s | inGrid s. f (g ! fst s ! snd s))"
    by (rule sum_rows_columns)
  also have "\<dots> = (\<Sum>s | inGrid s. f (cellAt g s))"
    using assms by (intro sum.cong refl) (simp add: cellAt_wf)
  finally show ?thesis .
qed

lemma inGrid_diagonal [simp]: "inGrid (diagonal d s)"
  by (simp add: diagonal_def inGrid_def)

lemma perSite_bound: "\<bar>k\<bar> \<le> int (gridSize * gridSize) \<Longrightarrow> \<bar>perSite k\<bar> \<le> 1"
proof -
  assume "\<bar>k\<bar> \<le> int (gridSize * gridSize)"
  then have "real_of_int \<bar>k\<bar> \<le> real_of_int (int (gridSize * gridSize))"
    by (simp only: of_int_le_iff)
  then have "\<bar>real_of_int k\<bar> \<le> real (gridSize * gridSize)"
    by simp
  then show ?thesis
    by (simp add: perSite_def)
qed

lemma sum_sites_abs_le:
  assumes "\<And>s. inGrid s \<Longrightarrow> \<bar>f s\<bar> \<le> (1::int)"
  shows "\<bar>\<Sum>s\<leftarrow>sites. f s\<bar> \<le> int (gridSize * gridSize)"
  using sum_list_abs_le [of sites f 1] assms by simp

section \<open>What the observables return\<close>

lemma calculateMagnetization_sum:
  "calculateMagnetization g =
     perSite (\<Sum>row\<leftarrow>g. \<Sum>c\<leftarrow>row. case c of None \<Rightarrow> 0 | Some s \<Rightarrow> spinToValue (Some s))"
proof -
  let ?v = "\<lambda>c. case c of None \<Rightarrow> 0 | Some s \<Rightarrow> spinToValue (Some s)"
  have step: "(\<lambda>acc c. case c of None \<Rightarrow> acc | Some s \<Rightarrow> acc + spinToValue (Some s)) =
              (\<lambda>acc c. acc + ?v c)"
    by (intro ext) (simp split: option.split)
  have "foldl (foldl (\<lambda>acc c. acc + ?v c)) b rows = b + (\<Sum>row\<leftarrow>rows. \<Sum>c\<leftarrow>row. ?v c)"
    for b :: int and rows
    by (induction rows arbitrary: b) (simp_all add: foldl_add add.assoc)
  then show ?thesis
    unfolding calculateMagnetization_def step
    by (simp add: perSite_def)
qed

lemma calculateMagnetization_wf [on_wf]:
  assumes "wf_grid g"
  shows "calculateMagnetization g = perSite (spinSum g)"
proof -
  let ?v = "\<lambda>c. case c of None \<Rightarrow> 0 | Some s \<Rightarrow> spinToValue (Some s)"
  have "?v (cellAt g s) = spinAt g s" if "inGrid s" for s
    using cellAt_Some [OF assms that] by (auto simp: spinAt_def)
  then have "(\<Sum>s | inGrid s. ?v (cellAt g s)) = spinSum g"
    by (simp add: spinSum_set)
  then show ?thesis
    by (simp add: calculateMagnetization_sum sum_cells [OF assms])
qed

lemma calculateCorrelation_wf [on_wf]:
  assumes "wf_grid g"
  shows "calculateCorrelation g = Inr (real_of_int (bondSum g) / real (2 * gridSize * gridSize))"
proof -
  let ?w = "\<lambda>i j. spinAt g (i, j) * spinAt g (below (i, j)) + spinAt g (i, j) * spinAt g (right (i, j))"
  have "foldJs (\<lambda>acc i.
          foldJs (\<lambda>correlationSum j.
            bindJs (readSpin g i j) (\<lambda>c.
            let currentSpin = spinToValue c in
            bindJs (readSpin g ((i + 1) mod gridSize) j) (\<lambda>n1.
            bindJs (readSpin g i ((j + 1) mod gridSize)) (\<lambda>n2.
            let neighborSpins = [n1, n2] in
            Inr (foldl (\<lambda>acc neighborSpin. acc + currentSpin * spinToValue neighborSpin)
                   correlationSum neighborSpins)))))
            acc [0..<gridSize]) 0 [0..<gridSize] =
        Inr (0 + (\<Sum>i\<leftarrow>[0..<gridSize]. \<Sum>j\<leftarrow>[0..<gridSize]. ?w i j))"
    by (rule foldJs_add_nested)
       (simp add: readSpin_cellAt [OF assms] below_eq right_eq spinAt_def Let_def)
  moreover have "(\<Sum>i\<leftarrow>[0..<gridSize]. \<Sum>j\<leftarrow>[0..<gridSize]. ?w i j) = bondSum g"
    by (simp add: sum_rows_columns bondSum_set sum.distrib add.commute)
  ultimately show ?thesis
    by (simp add: calculateCorrelation_def)
qed

lemma diagonalLoops_wf [on_wf]:
  assumes "wf_grid g"
  shows "diagonalLoops g d = Inr (diagonalSum d g, gridSize * gridSize)"
proof -
  let ?w = "\<lambda>i j. spinAt g (i, j) * spinAt g (diagonal d (i, j))"
  have "diagonalLoops g d =
        Inr (0 + (\<Sum>i\<leftarrow>[0..<gridSize]. \<Sum>j\<leftarrow>[0..<gridSize]. ?w i j),
             0 + length [0..<gridSize] * length [0..<gridSize])"
    unfolding diagonalLoops_def
    by (rule foldJs_add_count_nested)
       (simp add: readSpin_cellAt [OF assms] diagonal_def spinAt_def Let_def)
  moreover have "(\<Sum>i\<leftarrow>[0..<gridSize]. \<Sum>j\<leftarrow>[0..<gridSize]. ?w i j) = diagonalSum d g"
    by (simp add: sum_rows_columns diagonalSum_def sum_list_sites)
  ultimately show ?thesis by simp
qed

lemma calculateTwoPointCorrelation_wf [on_wf]:
  assumes "wf_grid g"
  shows "calculateTwoPointCorrelation g hist d =
         Inr (if length hist \<le> 1 then 0 else perSite (diagonalSum d g))"
  using assms by (simp add: calculateTwoPointCorrelation_def diagonalLoops_wf perSite_def)

lemma calculatePairCorrelation_wf [on_wf]:
  assumes "wf_grid g"
  shows "calculatePairCorrelation g =
         Inr (map (\<lambda>d. \<lparr>distance = d, correlation = perSite (diagonalSum d g)\<rparr>)
                [1..<Suc (gridSize div 2)])"
  unfolding calculatePairCorrelation_def
  by (rule foldJs_push [where acc = "[]", simplified])
     (simp add: diagonalLoops_wf [OF assms] perSite_def)

lemma calculateTemporalCorrelation_wf [on_wf]:
  assumes "wf_grid g" and "wf_history hist"
  shows "calculateTemporalCorrelation g hist lag =
         Inr (if length hist \<le> lag then 0
              else perSite (overlap g (hist ! (length hist - lag - 1))))"
proof (cases "length hist \<le> lag")
  case True
  then show ?thesis by (simp add: calculateTemporalCorrelation_def)
next
  case False
  define past where "past = hist ! (length hist - Suc lag)"
  let ?w = "\<lambda>i j. spinAt g (i, j) * spinAt past (i, j)"
  have past: "wf_grid past"
    unfolding past_def using False assms(2) by (intro wf_history_nth) simp_all
  have "foldJs (\<lambda>acc i.
          foldJs (\<lambda>(correlationSum, count) j.
            bindJs (readSpin g i j) (\<lambda>c.
            let currentSpin = spinToValue c in
            bindJs (readSpin past i j) (\<lambda>pc.
            let pastSpin = spinToValue pc in
            Inr (correlationSum + currentSpin * pastSpin, Suc count))))
            acc [0..<gridSize]) (0, 0) [0..<gridSize] =
        Inr (0 + (\<Sum>i\<leftarrow>[0..<gridSize]. \<Sum>j\<leftarrow>[0..<gridSize]. ?w i j),
             0 + length [0..<gridSize] * length [0..<gridSize])"
    by (rule foldJs_add_count_nested)
       (simp add: readSpin_cellAt [OF assms(1)] readSpin_cellAt [OF past] spinAt_def Let_def)
  moreover have "(\<Sum>i\<leftarrow>[0..<gridSize]. \<Sum>j\<leftarrow>[0..<gridSize]. ?w i j) = overlap g past"
    by (simp add: sum_rows_columns overlap_def sum_list_sites)
  ultimately show ?thesis
    using False
    by (simp add: calculateTemporalCorrelation_def perSite_def Let_def past_def [symmetric])
qed

lemma structureSum_wf [on_wf]:
  assumes "wf_grid g"
  shows "structureSum g gridSize qx qy = Inr (amplitude g qx qy)"
proof -
  let ?w = "\<lambda>x y. real_of_int (spinAt g (x, y)) * (cos (phase qx qy (x, y)) - sin (phase qx qy (x, y)))"
  have "structureSum g gridSize qx qy =
        Inr (0 + (\<Sum>x\<leftarrow>[0..<gridSize]. \<Sum>y\<leftarrow>[0..<gridSize]. ?w x y))"
    unfolding structureSum_def
    by (rule foldJs_add_nested)
       (simp add: readSpin_cellAt [OF assms] spinAt_def phase_def Let_def algebra_simps)
  moreover have "(\<Sum>x\<leftarrow>[0..<gridSize]. \<Sum>y\<leftarrow>[0..<gridSize]. ?w x y) = amplitude g qx qy"
    by (simp add: sum_rows_columns amplitude_def sum_list_sites)
  ultimately show ?thesis by simp
qed

lemma squareMatrix_update:
  "squareMatrix rows \<Longrightarrow> length row = gridSize \<Longrightarrow> squareMatrix (rows[k := row])"
  using set_update_subset_insert [of rows k row] by (auto simp: squareMatrix_def)

lemma calculateStructureFactor_wf [on_wf]:
  assumes "wf_grid g"
  shows "calculateStructureFactor g =
         Inr (map (\<lambda>qx. map (\<lambda>qy. \<bar>amplitude g qx qy\<bar>) [0..<gridSize]) [0..<gridSize])"
proof -
  let ?row = "\<lambda>qx. map (\<lambda>qy. \<bar>amplitude g qx qy\<bar>) [0..<gridSize]"
  let ?inner = "\<lambda>acc qx. foldJs (\<lambda>structureFactor qy.
          bindJs (structureSum g gridSize qx qy) (\<lambda>sum.
          Inr (structureFactor[qx := (structureFactor ! qx)[qy := sqrt (sum * sum)]])))
          acc [0..<gridSize]"
  have row: "?inner a qx = Inr (a[qx := ?row qx]) \<and> squareMatrix (a[qx := ?row qx])"
    if "qx < gridSize" "squareMatrix a" for a qx
  proof
    show "?inner a qx = Inr (a[qx := ?row qx])"
      using that by (intro foldJs_fill_row) (simp_all add: structureSum_wf [OF assms] squareMatrix_def)
    show "squareMatrix (a[qx := ?row qx])"
      using that(2) by (intro squareMatrix_update) simp_all
  qed
  have "foldJs ?inner (replicate gridSize (replicate gridSize 0)) [0..<gridSize] =
        Inr (map ?row [0..<gridSize])"
  proof (rule foldJs_fill [where P = squareMatrix])
    show "squareMatrix (replicate gridSize (replicate gridSize (0::real)))"
      by (simp add: squareMatrix_def)
  qed (simp, rule row)
  then show ?thesis
    by (simp add: calculateStructureFactor_def)
qed

section \<open>Bounds and special lattices\<close>

lemma in_sites [simp]: "s \<in> set sites \<longleftrightarrow> inGrid s"
  by (simp add: set_sites)

lemma spinSum_bound: "\<bar>spinSum g\<bar> \<le> int (gridSize * gridSize)"
  unfolding spinSum_def by (rule sum_sites_abs_le) simp

lemma diagonalSum_bound: "\<bar>diagonalSum d g\<bar> \<le> int (gridSize * gridSize)"
  unfolding diagonalSum_def by (rule sum_sites_abs_le) (simp add: abs_mult)

lemma overlap_bound: "\<bar>overlap g past\<bar> \<le> int (gridSize * gridSize)"
  unfolding overlap_def by (rule sum_sites_abs_le) (simp add: abs_mult)

lemma bondSum_bound: "\<bar>bondSum g\<bar> \<le> 2 * int (gridSize * gridSize)"
proof -
  let ?b = "\<lambda>s. spinAt g s * spinAt g (right s) + spinAt g s * spinAt g (below s)"
  have "\<bar>?b s\<bar> \<le> 2" for s
    using abs_triangle_ineq [of "spinAt g s * spinAt g (right s)" "spinAt g s * spinAt g (below s)"]
    by (simp add: abs_mult)
  then have "\<bar>sum_list (map ?b sites)\<bar> \<le> int (length sites) * 2"
    by (intro sum_list_abs_le)
  then show ?thesis
    by (simp add: bondSum_def)
qed

lemma overlap_self [simp]: "overlap g g = int (gridSize * gridSize)"
  using sum_list_const_int [of sites "\<lambda>s. spinAt g s * spinAt g s" 1]
  by (simp add: overlap_def)

lemma overlap_uniform: "overlap (uniform v) past = spinToValue (Some v) * spinSum past"
proof -
  have "(\<Sum>s\<leftarrow>sites. spinAt (uniform v) s * spinAt past s) =
        (\<Sum>s\<leftarrow>sites. spinToValue (Some v) * spinAt past s)"
    by (rule arg_cong [where f = sum_list], rule map_cong [OF refl]) simp
  then show ?thesis
    unfolding overlap_def spinSum_def by (simp only: sum_list_const_mult)
qed

lemma diagonalSum_uniform [simp]: "diagonalSum d (uniform v) = int (gridSize * gridSize)"
  using sum_list_const_int [of sites "\<lambda>s. spinAt (uniform v) s * spinAt (uniform v) (diagonal d s)" 1]
  by (simp add: diagonalSum_def)

lemma distances_eval: "[1..<Suc (gridSize div 2)] = [1, 2, 3, 4, 5]"
  by (simp add: gridSize_def upt_rec)

lemma perSite_all [simp]:
  "perSite (int (gridSize * gridSize)) = 1" "perSite (int gridSize * int gridSize) = 1"
  by (simp_all add: perSite_def)

text \<open>The magnetization of a lattice of equal spins is the value of that spin.\<close>

lemma magnetization_aligned:
  "calculateMagnetization (uniform v) = real_of_int (spinToValue (Some v))"
  by (simp add: calculateMagnetization_wf perSite_def)

lemma perSite_diff: "perSite (a - b) = perSite a - perSite b"
  by (simp add: perSite_def diff_divide_distrib)

lemma perSite_abs: "\<bar>perSite k\<bar> = real_of_int \<bar>k\<bar> / real (gridSize * gridSize)"
  by (simp add: perSite_def)

lemma phase_origin [simp]: "phase 0 0 s = 0"
  by (simp add: phase_def)

lemma amplitude_origin: "amplitude g 0 0 = real_of_int (spinSum g)"
  by (simp add: amplitude_def spinSum_def of_int_sum_list_map)

text \<open>At the wavevector \<open>(N/2, N/2)\<close> the phase of a site is a multiple of \<open>\<pi>\<close>.\<close>

lemma phase_half:
  "phase (gridSize div 2) (gridSize div 2) s = - (pi * real (fst s + snd s))"
  by (simp add: phase_def gridSize_def field_simps)

lemma amplitude_checkerboard_half:
  "amplitude checkerboard (gridSize div 2) (gridSize div 2) = real (gridSize * gridSize)"
proof -
  have "real_of_int (spinAt checkerboard s) *
          (cos (- (pi * real (fst s + snd s))) - sin (- (pi * real (fst s + snd s)))) = 1"
    if "s \<in> set sites" for s
    using that by (simp add: spinAt_checkerboard cos_npi2 sin_npi2 del: of_nat_add)
  then have "amplitude checkerboard (gridSize div 2) (gridSize div 2) = (\<Sum>s\<leftarrow>sites. 1)"
    unfolding amplitude_def phase_half by (intro arg_cong [where f = sum_list] map_cong refl)
  then show ?thesis
    by (simp add: sum_list_triv)
qed

section \<open>Properties of the observables\<close>

text \<open>
  C30. The magnetization of a well-formed grid is the mean spin, the sum of the
  spin values divided by the number of sites, and lies between -1 and 1.
\<close>

theorem magnetization_is_mean_spin:
  assumes "wf_grid g"
  shows "calculateMagnetization g = real_of_int (spinSum g) / real (gridSize * gridSize) \<and>
         \<bar>calculateMagnetization g\<bar> \<le> 1"
  using assms perSite_bound [OF spinSum_bound, of g]
  by (simp add: calculateMagnetization_wf) (simp add: perSite_def)

theorem magnetization_is_mean_spin_witness:
  "wf_grid checkerboard \<and> calculateMagnetization checkerboard = 0 \<and>
   \<bar>calculateMagnetization checkerboard\<bar> \<le> 1"
  using magnetization_is_mean_spin [of checkerboard] by simp

text \<open>
  Flipping one site of a well-formed grid changes the magnetization by
  twice the old value of that spin divided by the number of sites, downwards
  for a spin that was up: one flip of the initial lattice gives 0.98.
\<close>

theorem magnetization_of_flip:
  assumes "wf_grid g" and "row < gridSize" and "col < gridSize"
  shows "bindJs (flipSite g row col) (\<lambda>g'. Inr (calculateMagnetization g')) =
         Inr (calculateMagnetization g -
              2 * real_of_int (spinAt g (row, col)) / real (gridSize * gridSize))"
proof -
  have s: "inGrid (row, col)"
    using assms(2,3) by (simp add: inGrid_def)
  have "spinSum (flipAt (row, col) g) = spinSum g - 2 * spinAt g (row, col)"
    using spinSum_flipAt [OF assms(1) s] by simp
  then show ?thesis
    using flipSite_wf [OF assms(1) s] wf_grid_flipAt [OF assms(1) s] assms(1)
    by (simp add: calculateMagnetization_wf perSite_def diff_divide_distrib)
qed

theorem magnetization_of_flip_witness:
  "bindJs (flipSite initialSpins 0 0) (\<lambda>g'. Inr (calculateMagnetization g')) = Inr (98 / 100)"
  using magnetization_of_flip [of initialSpins 0 0]
  by (simp add: calculateMagnetization_wf initialSpins_uniform inGrid_def)
     (simp add: gridSize_def perSite_def)

text \<open>
  C11. The nearest-neighbour correlation of a well-formed grid is the sum over
  the bonds of the products of their two spins, divided by the number of bonds
  (two per site); it lies between -1 and 1, and the energy that
  \<^verbatim>\<open>calculateEnergy\<close> returns is \<open>- 4 J\<close> times it minus \<open>h\<close> times the
  magnetization.
\<close>

theorem correlation_is_bond_mean:
  assumes "wf_grid g"
  shows "\<exists>c. calculateCorrelation g = Inr c \<and>
             c = real_of_int (bondSum g) / real (2 * gridSize * gridSize) \<and> \<bar>c\<bar> \<le> 1 \<and>
             calculateEnergy g J h = Inr (- 4 * J * c - h * calculateMagnetization g)"
proof -
  have "real_of_int \<bar>bondSum g\<bar> \<le> real_of_int (2 * int (gridSize * gridSize))"
    using bondSum_bound [of g] by (simp only: of_int_le_iff)
  then have "\<bar>real_of_int (bondSum g) / real (2 * gridSize * gridSize)\<bar> \<le> 1"
    by simp
  then show ?thesis
    using assms
    by (simp add: calculateCorrelation_wf calculateEnergy_wf calculateMagnetization_wf perSite_def
        diff_divide_distrib)
qed

theorem correlation_is_bond_mean_witness:
  "\<exists>c. calculateCorrelation checkerboard = Inr c \<and> c = - 1 \<and> \<bar>c\<bar> \<le> 1 \<and>
       calculateEnergy checkerboard 2 3 = Inr (- 4 * 2 * c - 3 * calculateMagnetization checkerboard)"
  using correlation_is_bond_mean [of checkerboard 2 3] by simp

text \<open>
  C32. The two-point correlation at a distance is the mean over all sites of
  the product of a spin and the spin that distance further along the wrapped
  diagonal, but only once the history holds more than one snapshot: with at
  most one snapshot the function returns 0 whatever the grid is.
\<close>

theorem twoPointCorrelation_value:
  assumes "wf_grid g"
  shows "calculateTwoPointCorrelation g spinHistory d =
         Inr (if length spinHistory \<le> 1 then 0
              else real_of_int (diagonalSum d g) / real (gridSize * gridSize))"
  using assms by (simp add: calculateTwoPointCorrelation_wf perSite_def)

theorem twoPointCorrelation_value_witness:
  "wf_grid initialSpins \<and>
   calculateTwoPointCorrelation initialSpins [initialSpins] 1 = Inr 0 \<and>
   calculateTwoPointCorrelation initialSpins [initialSpins, initialSpins] 1 = Inr 1"
  using twoPointCorrelation_value [of initialSpins "[initialSpins]" 1]
    twoPointCorrelation_value [of initialSpins "[initialSpins, initialSpins]" 1]
  by (simp add: initialSpins_uniform)

text \<open>
  C33. The pair-correlation series has one entry for each distance from 1 to
  half the side of the grid, in this order; each entry holds the diagonal
  correlation at its distance, a value between -1 and 1.
\<close>

theorem pairCorrelation_series:
  assumes "wf_grid g"
  shows "\<exists>series. calculatePairCorrelation g = Inr series \<and>
           map distance series = [1..<Suc (gridSize div 2)] \<and>
           (\<forall>e \<in> set series.
              correlation e = real_of_int (diagonalSum (distance e) g) / real (gridSize * gridSize) \<and>
              \<bar>correlation e\<bar> \<le> 1)"
  using assms perSite_bound [OF diagonalSum_bound, of _ g]
  by (auto simp: calculatePairCorrelation_wf comp_def perSite_def)

theorem pairCorrelation_series_witness:
  "\<exists>series. calculatePairCorrelation initialSpins = Inr series \<and>
     map distance series = [1, 2, 3, 4, 5] \<and>
     (\<forall>e \<in> set series. correlation e = 1 \<and> \<bar>correlation e\<bar> \<le> 1)"
  using pairCorrelation_series [of initialSpins] unfolding distances_eval
  by (simp add: initialSpins_uniform)

text \<open>
  The two copies of the diagonal loops agree: once the history holds more
  than one snapshot, the two-point correlation at a distance between 1 and half
  the side is the entry of the pair-correlation series for that distance.
\<close>

theorem twoPoint_agrees_with_series:
  assumes "wf_grid g" and "1 < length spinHistory" and "1 \<le> d" and "d \<le> gridSize div 2"
  shows "bindJs (calculatePairCorrelation g) (\<lambda>series. Inr (correlation (series ! (d - 1)))) =
         calculateTwoPointCorrelation g spinHistory d"
proof -
  have "[1..<Suc (gridSize div 2)] ! (d - 1) = d" and "d - 1 < length [1..<Suc (gridSize div 2)]"
    using assms(3,4) by (simp_all del: upt_Suc)
  then show ?thesis
    using assms(1,2)
    by (simp add: calculatePairCorrelation_wf calculateTwoPointCorrelation_wf del: upt_Suc length_upt)
qed

theorem twoPoint_agrees_with_series_witness:
  "bindJs (calculatePairCorrelation checkerboard) (\<lambda>series. Inr (correlation (series ! (3 - 1)))) =
   calculateTwoPointCorrelation checkerboard [checkerboard, checkerboard] 3"
  using twoPoint_agrees_with_series [of checkerboard "[checkerboard, checkerboard]" 3]
  by (simp add: gridSize_def)

text \<open>
  C31. The temporal correlation at a lag is 0 while the history holds no more
  than \<^verbatim>\<open>lag\<close> snapshots; otherwise it is the mean over all sites of the product
  of the spin now and the spin in the snapshot \<^verbatim>\<open>lag\<close> places before the newest,
  a value between -1 and 1. It never throws on a well-formed grid and history.
\<close>

theorem temporalCorrelation_value:
  assumes "wf_grid g" and "wf_history spinHistory"
  shows "\<exists>c. calculateTemporalCorrelation g spinHistory lag = Inr c \<and> \<bar>c\<bar> \<le> 1 \<and>
             c = (if length spinHistory \<le> lag then 0
                  else real_of_int (overlap g (spinHistory ! (length spinHistory - lag - 1))) /
                       real (gridSize * gridSize))"
  using assms perSite_bound [OF overlap_bound, of g]
  by (simp add: calculateTemporalCorrelation_wf) (simp add: perSite_def)

theorem temporalCorrelation_value_witness:
  "wf_grid initialSpins \<and> wf_history [checkerboard, initialSpins] \<and>
   (\<exists>c. calculateTemporalCorrelation initialSpins [checkerboard, initialSpins] 1 = Inr c \<and>
        \<bar>c\<bar> \<le> 1 \<and> c = 0)"
  using temporalCorrelation_value [of initialSpins "[checkerboard, initialSpins]" 1]
  by (simp add: wf_history_def historySize_def initialSpins_uniform overlap_uniform)

text \<open>
  Right after a step of the simulation has recorded the grid, the temporal
  correlation at lag 0 is 1: the newest snapshot is the grid itself.
\<close>

theorem temporalCorrelation_of_latest:
  assumes "wf_grid g" and "wf_history spinHistory"
  shows "calculateTemporalCorrelation g (recordSnapshot g spinHistory) 0 = Inr 1"
proof -
  let ?h = "recordSnapshot g spinHistory"
  have "?h ! (length ?h - 0 - 1) = g"
    using last_conv_nth [OF recordSnapshot_nonempty, of g spinHistory] by simp
  then show ?thesis
    using assms wf_history_recordSnapshot [OF assms(2,1)]
    by (simp add: calculateTemporalCorrelation_wf)
qed

theorem temporalCorrelation_of_latest_witness:
  "calculateTemporalCorrelation checkerboard (recordSnapshot checkerboard []) 0 = Inr 1"
  using temporalCorrelation_of_latest [of checkerboard "[]"] by simp

text \<open>
  C7. The structure factor of a well-formed grid is a matrix with one row for
  each \<^verbatim>\<open>qx\<close> and one column for each \<^verbatim>\<open>qy\<close> below the side of the grid, whose
  entry is the absolute value of the sum over all sites of
  \<open>s (cos \<theta> - sin \<theta>)\<close> with \<open>\<theta> = - 2 \<pi> (qx x + qy y) / N\<close>; the function never
  throws.
\<close>

theorem structureFactor_formula:
  assumes "wf_grid g"
  shows "\<exists>sf. calculateStructureFactor g = Inr sf \<and> length sf = gridSize \<and>
           (\<forall>qx < gridSize. length (sf ! qx) = gridSize \<and>
              (\<forall>qy < gridSize. sf ! qx ! qy = \<bar>amplitude g qx qy\<bar> \<and> 0 \<le> sf ! qx ! qy))"
  using assms by (simp add: calculateStructureFactor_wf)

theorem structureFactor_formula_witness:
  "wf_grid checkerboard \<and>
   (\<exists>sf. calculateStructureFactor checkerboard = Inr sf \<and> length sf = gridSize \<and>
      (\<forall>qx < gridSize. length (sf ! qx) = gridSize \<and>
         (\<forall>qy < gridSize. sf ! qx ! qy = \<bar>amplitude checkerboard qx qy\<bar> \<and> 0 \<le> sf ! qx ! qy)))"
  using structureFactor_formula [of checkerboard] by simp

text \<open>
  At the wavevector (0, 0) every phase is 0 and the structure factor is
  the absolute value of the sum of all spins, the number of sites times the
  absolute value of the magnetization: for a lattice of equal spins it is the
  number of sites.
\<close>

theorem structureFactor_origin:
  assumes "wf_grid g"
  shows "\<exists>sf. calculateStructureFactor g = Inr sf \<and>
           sf ! 0 ! 0 = real (gridSize * gridSize) * \<bar>calculateMagnetization g\<bar>"
  using assms
  by (simp add: calculateStructureFactor_wf amplitude_origin calculateMagnetization_wf perSite_abs)

theorem structureFactor_origin_witness:
  "\<exists>sf. calculateStructureFactor initialSpins = Inr sf \<and> sf ! 0 ! 0 = 100"
  using structureFactor_origin [of initialSpins]
  by (simp add: calculateMagnetization_wf initialSpins_uniform) (simp add: gridSize_def perSite_def)

text \<open>
  The alternating lattice has its peak at the wavevector (N/2, N/2): there
  the phase of a site is a multiple of \<open>\<pi>\<close>, the sine vanishes, the cosine is the
  sign of the site, and the entry of the structure factor is the number of
  sites, while the entry at (0, 0) is 0.
\<close>

theorem structureFactor_checkerboard:
  "\<exists>sf. calculateStructureFactor checkerboard = Inr sf \<and>
        sf ! (gridSize div 2) ! (gridSize div 2) = real (gridSize * gridSize) \<and> sf ! 0 ! 0 = 0"
  by (simp add: calculateStructureFactor_wf amplitude_checkerboard_half amplitude_origin)

end
