(* ===== verification/Simulation.thy ===== *)
theory Simulation
  imports Metropolis Wolff Observables
begin

text \<open>
  The driver of \<^verbatim>\<open>script.js\<close>: the global variables, the functions
  \<^verbatim>\<open>createGrid\<close>, \<^verbatim>\<open>adjustGridSize\<close>, \<^verbatim>\<open>updateGrid\<close>, \<^verbatim>\<open>toggleSpin\<close>,
  \<^verbatim>\<open>runSimulation\<close>, \<^verbatim>\<open>updateResults\<close>, \<^verbatim>\<open>exportData\<close>, \<^verbatim>\<open>sanitizeText\<close>,
  \<^verbatim>\<open>startSimulation\<close> and \<^verbatim>\<open>stopSimulation\<close>, and the bodies of the handlers
  of the sliders and of the select.

  \<^item> The record \<open>sim\<close> holds the global variables of the script. The record
    \<open>page\<close> extends it by what the script keeps in the browser: the cells of
    the grid element in document order (\<open>cellView\<close>: the class name and the
    \<^verbatim>\<open>dataset\<close> entries \<^verbatim>\<open>row\<close> and \<^verbatim>\<open>col\<close>, kept as numbers), the width of
    the grid element and the height set in its style, the number last written
    to each of the three labels of the sliders (\<open>None\<close> while the label holds
    the text of the document), the set of running interval timers, the next
    timer id, and the values of the observables last written to the page
    (\<open>shown\<close>). The texts of these numbers are given in theory \<open>Page_Output\<close>.
  \<^item> \<open>createGrid\<close> builds the cells, one for each pair of indices, and calls
    \<open>adjustGridSize\<close>, which sets the height of the grid element to the text
    of its width followed by \<^verbatim>\<open>px\<close>; \<open>updateGrid\<close> sets the class name of every
    cell from the grid. \<open>initialPage w\<close> holds the initial values of the
    variables in a window where the grid element is \<open>w\<close> pixels wide, and
    \<open>loadPage\<close> is the two calls at the end of the script.
  \<^item> \<open>setInterval\<close> and \<open>clearInterval\<close> model the browser: a new timer gets a
    fresh positive id, clearing an id that is not running does nothing. A
    variable that holds a timer id is tested for truth by \<open>truthy\<close>:
    \<^verbatim>\<open>undefined\<close> and 0 are false.
  \<^item> \<open>runSimulation\<close> runs the engine that \<^verbatim>\<open>algorithm\<close> names, assigns the
    grid, pushes \<open>deepCopy\<close> of it (theory \<open>History\<close>) into the history and
    calls \<open>updateGrid\<close> and \<open>updateResults\<close>.
  \<^item> A handler of a slider takes the number \<^verbatim>\<open>Number(event.target.value)\<close>,
    assigns it to its variable and then writes the variable to its label.
  \<^item> The specification: \<open>observables\<close> gives the seven values as sums over
    the sites, \<open>wf_results\<close> their shape and ranges, \<open>gridView\<close> the cells
    that show a grid, and \<open>pageInv\<close> the invariant of the page: the grid and
    the history are well formed, the cells show the grid, the grid element is
    as high as wide, a label that was written shows the current value of its
    parameter, the results shown are well typed, and the only timer that can
    run is the one \<^verbatim>\<open>simulationInterval\<close> names.
  \<^item> A function that throws is just the error; the lemmas show that none
    throws on a state that satisfies the invariant.
\<close>

section \<open>The state\<close>

record sim =
  spins :: grid
  temperature :: number
  magneticField :: number
  interactionStrength :: number
  simulationInterval :: "nat option"
  algorithm :: string
  spinHistory :: "grid list"

record results =
  magnetization :: number
  energy :: number
  correlation :: number
  twoPointCorrelation :: number
  pairCorrelation :: "pairEntry list"
  temporalCorrelation :: number
  structureFactor :: "number list list"

record cellView =
  className :: string
  dataRow :: nat
  dataCol :: nat

record page = sim +
  cells :: "cellView list"
  clientWidth :: nat
  gridHeight :: string
  temperatureValue :: "number option"
  magneticFieldValue :: "number option"
  interactionStrengthValue :: "number option"
  timers :: "nat set"
  nextTimer :: nat
  shown :: "results option"

definition initialPage :: "nat \<Rightarrow> page" where
  "initialPage w =
     \<lparr>spins = initialSpins, temperature = 50, magneticField = 0, interactionStrength = 1,
      simulationInterval = None, algorithm = ''metropolis'', spinHistory = [],
      cells = [], clientWidth = w, gridHeight = [],
      temperatureValue = None, magneticFieldValue = None, interactionStrengthValue = None,
      timers = {}, nextTimer = 1, shown = None\<rparr>"

section \<open>The browser's timers\<close>

definition truthy :: "nat option \<Rightarrow> bool" where
  "truthy v = (case v of None \<Rightarrow> False | Some i \<Rightarrow> i \<noteq> 0)"

definition clearInterval :: "nat option \<Rightarrow> page \<Rightarrow> page" where
  "clearInterval v p = (case v of None \<Rightarrow> p | Some i \<Rightarrow> p\<lparr>timers := timers p - {i}\<rparr>)"

definition setInterval :: "page \<Rightarrow> nat \<times> page" where
  "setInterval p = (nextTimer p, p\<lparr>timers := insert (nextTimer p) (timers p), nextTimer := Suc (nextTimer p)\<rparr>)"

section \<open>The program\<close>

definition cellClass :: "cell \<Rightarrow> string" where
  "cellClass c =
     ''cell '' @ (case c of None \<Rightarrow> ''undefined'' | Some Up \<Rightarrow> ''up'' | Some Down \<Rightarrow> ''down'')"

definition adjustGridSize :: "page \<Rightarrow> page" where
  "adjustGridSize p = (let gridWidth = clientWidth p in p\<lparr>gridHeight := natToString gridWidth @ ''px''\<rparr>)"

definition createGrid :: "page \<Rightarrow> page js" where
  "createGrid p =
     bindJs
       (foldJs (\<lambda>acc i.
          foldJs (\<lambda>grid j.
            bindJs (readSpin (spins p) i j) (\<lambda>c.
            let cell = \<lparr>className = cellClass c, dataRow = i, dataCol = j\<rparr> in
            Inr (grid @ [cell])))
            acc [0..<gridSize])
          [] [0..<gridSize])
       (\<lambda>grid. Inr (adjustGridSize (p\<lparr>cells := grid\<rparr>)))"

definition updateGrid :: "page \<Rightarrow> page js" where
  "updateGrid p =
     bindJs
       (foldJs (\<lambda>acc cell.
          let row = dataRow cell; col = dataCol cell in
          bindJs (readSpin (spins p) row col) (\<lambda>c.
          Inr (acc @ [cell\<lparr>className := cellClass c\<rparr>])))
          [] (cells p))
       (\<lambda>cells. Inr (p\<lparr>cells := cells\<rparr>))"

definition toggleSpin :: "nat \<Rightarrow> nat \<Rightarrow> page \<Rightarrow> page js" where
  "toggleSpin row col p = bindJs (flipSite (spins p) row col) (\<lambda>g. updateGrid (p\<lparr>spins := g\<rparr>))"

definition computeResults :: "page \<Rightarrow> results js" where
  "computeResults p =
     (let magnetization = calculateMagnetization (spins p) in
      bindJs (calculateEnergy (spins p) (interactionStrength p) (magneticField p)) (\<lambda>energy.
      bindJs (calculateCorrelation (spins p)) (\<lambda>correlation.
      bindJs (calculateTwoPointCorrelation (spins p) (spinHistory p) 1) (\<lambda>twoPointCorrelation.
      bindJs (calculatePairCorrelation (spins p)) (\<lambda>pairCorrelation.
      bindJs (calculateTemporalCorrelation (spins p) (spinHistory p) 10) (\<lambda>temporalCorrelation.
      bindJs (calculateStructureFactor (spins p)) (\<lambda>structureFactor.
      Inr \<lparr>magnetization = magnetization, energy = energy, correlation = correlation,
           twoPointCorrelation = twoPointCorrelation, pairCorrelation = pairCorrelation,
           temporalCorrelation = temporalCorrelation, structureFactor = structureFactor\<rparr>)))))))"

definition updateResults :: "page \<Rightarrow> page js" where
  "updateResults p = bindJs (computeResults p) (\<lambda>res. Inr (p\<lparr>shown := Some res\<rparr>))"

definition runSimulation :: "page \<times> rng \<Rightarrow> (page \<times> rng) js" where
  "runSimulation st =
     (let p = fst st; r = snd st in
      bindJs
        (if algorithm p = ''metropolis'' then
           runMetropolisHastings (temperature p) (interactionStrength p) (magneticField p) (spins p, r)
         else if algorithm p = ''wolff'' then
           runWolffCluster (temperature p) (interactionStrength p) (magneticField p) (spins p, r)
         else Inr (spins p, r))
        (\<lambda>(g, r).
           bindJs (deepCopy g) (\<lambda>snapshot.
           let p = p\<lparr>spins := g, spinHistory := recordSnapshot snapshot (spinHistory p)\<rparr> in
           bindJs (updateGrid p) (\<lambda>p.
           bindJs (updateResults p) (\<lambda>p. Inr (p, r))))))"

definition sanitizeText :: "string \<Rightarrow> string" where
  "sanitizeText text =
     concat (map (\<lambda>c. if c = CHR ''>'' then ''&gt;'' else [c])
       (concat (map (\<lambda>c. if c = CHR ''<'' then ''&lt;'' else [c]) text)))"

type_synonym exportRecord = "grid \<times> number \<times> number \<times> number \<times> results \<times> results"

definition exportData :: "page \<Rightarrow> exportRecord js" where
  "exportData p =
     bindJs (computeResults p) (\<lambda>observables.
     bindJs (computeResults p) (\<lambda>simulationResults.
     Inr (spins p, temperature p, magneticField p, interactionStrength p,
          observables, simulationResults)))"

definition temperatureInput :: "number \<Rightarrow> page \<Rightarrow> page" where
  "temperatureInput v p =
     (let p = p\<lparr>temperature := v\<rparr> in p\<lparr>temperatureValue := Some (temperature p)\<rparr>)"

definition magneticFieldInput :: "number \<Rightarrow> page \<Rightarrow> page" where
  "magneticFieldInput v p =
     (let p = p\<lparr>magneticField := v\<rparr> in p\<lparr>magneticFieldValue := Some (magneticField p)\<rparr>)"

definition interactionStrengthInput :: "number \<Rightarrow> page \<Rightarrow> page" where
  "interactionStrengthInput v p =
     (let p = p\<lparr>interactionStrength := v\<rparr>
      in p\<lparr>interactionStrengthValue := Some (interactionStrength p)\<rparr>)"

definition algorithmChange :: "string \<Rightarrow> page \<Rightarrow> page" where
  "algorithmChange v p = p\<lparr>algorithm := v\<rparr>"

definition loadPage :: "nat \<Rightarrow> page js" where
  "loadPage w = bindJs (createGrid (initialPage w)) (\<lambda>p. Inr (adjustGridSize p))"

definition startSimulation :: "page \<Rightarrow> page" where
  "startSimulation p =
     (let p = (if truthy (simulationInterval p) then clearInterval (simulationInterval p) p else p);
          (i, p) = setInterval p
      in p\<lparr>simulationInterval := Some i\<rparr>)"

definition stopSimulation :: "page \<Rightarrow> page" where
  "stopSimulation p =
     (if truthy (simulationInterval p) then clearInterval (simulationInterval p) p else p)"

section \<open>The specification\<close>

definition observables :: "page \<Rightarrow> results" where
  "observables p =
     (let g = spins p; J = interactionStrength p; h = magneticField p; hist = spinHistory p in
      \<lparr>magnetization = perSite (spinSum g),
       energy = (hamiltonian J h g - J * real_of_int (bondSum g)) / real (gridSize * gridSize),
       correlation = real_of_int (bondSum g) / real (2 * gridSize * gridSize),
       twoPointCorrelation = (if length hist \<le> 1 then 0 else perSite (diagonalSum 1 g)),
       pairCorrelation =
         map (\<lambda>d. \<lparr>distance = d, correlation = perSite (diagonalSum d g)\<rparr>) [1..<Suc (gridSize div 2)],
       temporalCorrelation =
         (if length hist \<le> 10 then 0 else perSite (overlap g (hist ! (length hist - 10 - 1)))),
       structureFactor = map (\<lambda>qx. map (\<lambda>qy. \<bar>amplitude g qx qy\<bar>) [0..<gridSize]) [0..<gridSize]\<rparr>)"

definition gridView :: "grid \<Rightarrow> cellView list" where
  "gridView g =
     map (\<lambda>s. \<lparr>className = cellClass (cellAt g s), dataRow = fst s, dataCol = snd s\<rparr>) sites"

definition loadedPage :: "nat \<Rightarrow> page" where
  "loadedPage w = (initialPage w)\<lparr>cells := gridView initialSpins, gridHeight := natToString w @ ''px''\<rparr>"

definition wf_results :: "results \<Rightarrow> bool" where
  "wf_results res \<longleftrightarrow>
     \<bar>magnetization res\<bar> \<le> 1 \<and> \<bar>results.correlation res\<bar> \<le> 1 \<and>
     \<bar>twoPointCorrelation res\<bar> \<le> 1 \<and> \<bar>temporalCorrelation res\<bar> \<le> 1 \<and>
     map distance (pairCorrelation res) = [1..<Suc (gridSize div 2)] \<and>
     (\<forall>e \<in> set (pairCorrelation res). \<bar>pairEntry.correlation e\<bar> \<le> 1) \<and>
     squareMatrix (structureFactor res) \<and>
     (\<forall>row \<in> set (structureFactor res). \<forall>v \<in> set row. 0 \<le> v)"

definition pageInv :: "page \<Rightarrow> bool" where
  "pageInv p \<longleftrightarrow>
     wf_grid (spins p) \<and> wf_history (spinHistory p) \<and> cells p = gridView (spins p) \<and>
     gridHeight p = natToString (clientWidth p) @ ''px'' \<and>
     temperatureValue p \<in> {None, Some (temperature p)} \<and>
     magneticFieldValue p \<in> {None, Some (magneticField p)} \<and>
     interactionStrengthValue p \<in> {None, Some (interactionStrength p)} \<and>
     (\<forall>res. shown p = Some res \<longrightarrow> wf_results res) \<and>
     0 < nextTimer p \<and>
     (\<forall>i \<in> timers p. simulationInterval p = Some i) \<and>
     (\<forall>i. simulationInterval p = Some i \<longrightarrow> 0 < i \<and> i < nextTimer p)"

section \<open>The observables of a state\<close>

lemma computeResults_wf [on_wf]:
  assumes "wf_grid (spins p)" and "wf_history (spinHistory p)"
  shows "computeResults p = Inr (observables p)"
  using assms
  by (simp add: computeResults_def observables_def calculateMagnetization_wf calculateEnergy_wf
      calculateCorrelation_wf calculateTwoPointCorrelation_wf calculatePairCorrelation_wf
      calculateTemporalCorrelation_wf calculateStructureFactor_wf hamiltonian_def Let_def
      del: upt_Suc)

lemma updateResults_wf [on_wf]:
  assumes "wf_grid (spins p)" and "wf_history (spinHistory p)"
  shows "updateResults p = Inr (p\<lparr>shown := Some (observables p)\<rparr>)"
  using assms by (simp add: updateResults_def computeResults_wf)

lemma exportData_wf [on_wf]:
  assumes "wf_grid (spins p)" and "wf_history (spinHistory p)"
  shows "exportData p =
         Inr (spins p, temperature p, magneticField p, interactionStrength p,
              observables p, observables p)"
  using assms by (simp add: exportData_def computeResults_wf)

section \<open>The cells of the page\<close>

lemma createGrid_wf [on_wf]:
  assumes "wf_grid (spins p)"
  shows "createGrid p = Inr (adjustGridSize (p\<lparr>cells := gridView (spins p)\<rparr>))"
proof -
  let ?v = "\<lambda>s. \<lparr>className = cellClass (cellAt (spins p) s), dataRow = fst s, dataCol = snd s\<rparr>"
  have "foldJs (\<lambda>acc i.
          foldJs (\<lambda>grid j.
            bindJs (readSpin (spins p) i j) (\<lambda>c.
            let cell = \<lparr>className = cellClass c, dataRow = i, dataCol = j\<rparr> in
            Inr (grid @ [cell])))
            acc [0..<gridSize]) [] [0..<gridSize] =
        Inr ([] @ map ?v (List.product [0..<gridSize] [0..<gridSize]))"
    by (rule foldJs_push_nested) (simp add: readSpin_cellAt [OF assms])
  then show ?thesis
    by (simp add: createGrid_def gridView_def sites_def)
qed

lemma updateGrid_wf [on_wf]:
  assumes "wf_grid (spins p)" and "cells p = gridView g"
  shows "updateGrid p = Inr (p\<lparr>cells := gridView (spins p)\<rparr>)"
proof -
  let ?v = "\<lambda>cell. cell\<lparr>className := cellClass (cellAt (spins p) (dataRow cell, dataCol cell))\<rparr>"
  have "foldJs (\<lambda>acc cell.
          let row = dataRow cell; col = dataCol cell in
          bindJs (readSpin (spins p) row col) (\<lambda>c.
          Inr (acc @ [cell\<lparr>className := cellClass c\<rparr>])))
          [] (cells p) = Inr ([] @ map ?v (cells p))"
    by (rule foldJs_push) (auto simp: assms(2) gridView_def readSpin_cellAt [OF assms(1)] inGrid_def)
  moreover have "map ?v (gridView g) = gridView (spins p)"
    by (simp add: gridView_def)
  ultimately show ?thesis
    by (simp add: updateGrid_def assms(2))
qed

lemma initialPage_simps [simp]:
  "spins (initialPage w) = initialSpins" "spinHistory (initialPage w) = []"
  "cells (initialPage w) = []" "clientWidth (initialPage w) = w" "gridHeight (initialPage w) = []"
  "temperatureValue (initialPage w) = None" "magneticFieldValue (initialPage w) = None"
  "interactionStrengthValue (initialPage w) = None"
  "timers (initialPage w) = {}" "nextTimer (initialPage w) = 1"
  "simulationInterval (initialPage w) = None"
  "algorithm (initialPage w) = ''metropolis''" "shown (initialPage w) = None"
  "temperature (initialPage w) = 50" "magneticField (initialPage w) = 0"
  "interactionStrength (initialPage w) = 1"
  by (simp_all add: initialPage_def)

lemma adjustGridSize_eq [simp]:
  "adjustGridSize p = p\<lparr>gridHeight := natToString (clientWidth p) @ ''px''\<rparr>"
  by (simp add: adjustGridSize_def)

lemma loadPage_loaded [simp]: "loadPage w = Inr (loadedPage w)"
  using createGrid_wf [of "initialPage w"]
  by (simp add: loadPage_def loadedPage_def)

lemma gridView_sites: "map (\<lambda>cell. (dataRow cell, dataCol cell)) (gridView g) = sites"
  by (simp add: gridView_def comp_def)

lemma gridView_class:
  assumes "wf_grid g" and "cell \<in> set (gridView g)"
  shows "className cell =
         (if spinAt g (dataRow cell, dataCol cell) = 1 then ''cell up'' else ''cell down'')"
proof -
  from assms(2) obtain s where s: "inGrid s"
    and cell: "cell = \<lparr>className = cellClass (cellAt g s), dataRow = fst s, dataCol = snd s\<rparr>"
    by (auto simp: gridView_def)
  from cellAt_Some [OF assms(1) s] obtain v where "cellAt g s = Some v" ..
  with cell show ?thesis
    by (cases v) (simp_all add: cellClass_def spinAt_def)
qed

section \<open>One step of the simulation\<close>

definition engine :: "page \<Rightarrow> rng \<Rightarrow> (grid \<times> rng) js" where
  "engine p r =
     (if algorithm p = ''metropolis'' then
        runMetropolisHastings (temperature p) (interactionStrength p) (magneticField p) (spins p, r)
      else if algorithm p = ''wolff'' then
        runWolffCluster (temperature p) (interactionStrength p) (magneticField p) (spins p, r)
      else Inr (spins p, r))"

definition recorded :: "grid \<Rightarrow> page \<Rightarrow> page" where
  "recorded g p =
     (let p' = p\<lparr>spins := g, spinHistory := recordSnapshot g (spinHistory p), cells := gridView g\<rparr>
      in p'\<lparr>shown := Some (observables p')\<rparr>)"

lemma engine_keeps_grid:
  assumes "wf_grid (spins p)"
  shows "\<exists>g r'. engine p r = Inr (g, r') \<and> wf_grid g"
proof -
  let ?kT = "temperature p" and ?J = "interactionStrength p" and ?h = "magneticField p"
  have m: "\<exists>g r'. runMetropolisHastings ?kT ?J ?h (spins p, r) = Inr (g, r') \<and> wf_grid g"
    using runMetropolisHastings_wf [of "(spins p, r)" ?kT ?J ?h] assms
    by (cases "(trialResult ?kT ?J ?h ^^ 100) (spins p, r)") (simp add: wf_state_def)
  from runWolffCluster_wf [OF assms, of ?kT ?J ?h r] obtain cluster r'
    where "runWolffCluster ?kT ?J ?h (spins p, r) = Inr (flipAll cluster (spins p), r')"
      and "wolffCluster (spins p) (seedSite r) cluster"
    by blast
  with wf_grid_flipAll [OF assms wolffCluster_inGrid, of "spins p" "seedSite r" cluster]
  have w: "\<exists>g r'. runWolffCluster ?kT ?J ?h (spins p, r) = Inr (g, r') \<and> wf_grid g"
    by simp
  from m w assms show ?thesis
    by (simp add: engine_def)
qed

lemma runSimulation_engine:
  "runSimulation (p, r) =
     bindJs (engine p r) (\<lambda>(g, r).
       bindJs (updateGrid (p\<lparr>spins := g, spinHistory := recordSnapshot g (spinHistory p)\<rparr>)) (\<lambda>p.
       bindJs (updateResults p) (\<lambda>p. Inr (p, r))))"
  by (simp add: runSimulation_def engine_def Let_def)

lemma runSimulation_wf [on_wf]:
  assumes "wf_grid (spins p)" and "wf_history (spinHistory p)" and "cells p = gridView g0"
  shows "\<exists>g r'. engine p r = Inr (g, r') \<and> wf_grid g \<and>
           runSimulation (p, r) = Inr (recorded g p, r')"
proof -
  from engine_keeps_grid [OF assms(1), of r] obtain g r'
    where e: "engine p r = Inr (g, r')" and g: "wf_grid g"
    by blast
  have "wf_history (recordSnapshot g (spinHistory p))"
    using assms(2) g by (rule wf_history_recordSnapshot)
  with e g assms(3) show ?thesis
    by (simp add: runSimulation_engine updateGrid_wf [where g = g0] updateResults_wf recorded_def
        Let_def)
qed

section \<open>The invariant\<close>

lemma pageInv_loaded [simp]: "pageInv (loadedPage w)"
  by (simp add: pageInv_def loadedPage_def)

lemma loadedPage_simps [simp]:
  "spins (loadedPage w) = initialSpins" "spinHistory (loadedPage w) = []"
  "cells (loadedPage w) = gridView initialSpins" "clientWidth (loadedPage w) = w"
  "gridHeight (loadedPage w) = natToString w @ ''px''"
  "temperatureValue (loadedPage w) = None" "magneticFieldValue (loadedPage w) = None"
  "interactionStrengthValue (loadedPage w) = None"
  "timers (loadedPage w) = {}" "nextTimer (loadedPage w) = 1"
  "simulationInterval (loadedPage w) = None"
  "algorithm (loadedPage w) = ''metropolis''" "shown (loadedPage w) = None"
  "temperature (loadedPage w) = 50" "magneticField (loadedPage w) = 0"
  "interactionStrength (loadedPage w) = 1"
  by (simp_all add: loadedPage_def)

text \<open>The observables of any state have the shape and the ranges of \<open>wf_results\<close>.\<close>

lemma perSite_le_1: "\<bar>k\<bar> \<le> int (gridSize * gridSize) \<Longrightarrow> \<bar>perSite k\<bar> \<le> 1"
  by (simp add: perSite_abs gridSize_def)

lemmas perSite_bounds =
  perSite_le_1 [OF spinSum_bound] perSite_le_1 [OF diagonalSum_bound] perSite_le_1 [OF overlap_bound]

lemma wf_results_observables [simp]: "wf_results (observables p)"
proof -
  have "\<bar>real_of_int (bondSum (spins p)) / real (2 * gridSize * gridSize)\<bar> \<le> 1"
    using bondSum_bound [of "spins p"] by (simp add: gridSize_def)
  then show ?thesis
    by (simp add: wf_results_def observables_def Let_def perSite_bounds squareMatrix_def comp_def
        del: upt_Suc)
qed

lemma energy_bound:
  "\<bar>energy (observables p)\<bar> \<le> 4 * \<bar>interactionStrength p\<bar> + \<bar>magneticField p\<bar>"
proof -
  define J h b m n where "J = interactionStrength p" and "h = magneticField p"
    and "b = real_of_int (bondSum (spins p))" and "m = real_of_int (spinSum (spins p))"
    and "n = real (gridSize * gridSize)"
  have n: "0 < n"
    by (simp add: n_def gridSize_def)
  have "real_of_int \<bar>bondSum (spins p)\<bar> \<le> real_of_int (2 * int (gridSize * gridSize))"
    by (rule of_int_le_iff [THEN iffD2]) (rule bondSum_bound)
  then have b: "\<bar>b\<bar> \<le> 2 * n"
    by (simp add: b_def n_def)
  have "real_of_int \<bar>spinSum (spins p)\<bar> \<le> real_of_int (int (gridSize * gridSize))"
    by (rule of_int_le_iff [THEN iffD2]) (rule spinSum_bound)
  then have m: "\<bar>m\<bar> \<le> n"
    by (simp add: m_def n_def)
  have "\<bar>- (2 * J * b) - h * m\<bar> \<le> \<bar>- (2 * J * b)\<bar> + \<bar>h * m\<bar>"
    by (rule abs_triangle_ineq4)
  also have "\<dots> = 2 * \<bar>J\<bar> * \<bar>b\<bar> + \<bar>h\<bar> * \<bar>m\<bar>"
    by (simp add: abs_mult)
  also have "\<dots> \<le> 2 * \<bar>J\<bar> * (2 * n) + \<bar>h\<bar> * n"
    by (intro add_mono mult_left_mono b m) simp_all
  also have "\<dots> = (4 * \<bar>J\<bar> + \<bar>h\<bar>) * n"
    by (simp add: algebra_simps)
  finally have "\<bar>- (2 * J * b) - h * m\<bar> / n \<le> 4 * \<bar>J\<bar> + \<bar>h\<bar>"
    using n by (simp add: pos_divide_le_eq)
  moreover have "energy (observables p) = (- (2 * J * b) - h * m) / n"
    unfolding J_def h_def b_def m_def n_def
    by (simp add: observables_def Let_def hamiltonian_def)
  ultimately show ?thesis
    using n unfolding J_def h_def by simp
qed

lemma length_recorded:
  "wf_history (spinHistory p) \<Longrightarrow>
     length (spinHistory (recorded g p)) = min historySize (Suc (length (spinHistory p)))"
  by (auto simp: recorded_def Let_def length_recordSnapshot wf_history_def)

lemma recorded_timers [simp]:
  "timers (recorded g p) = timers p" "simulationInterval (recorded g p) = simulationInterval p"
  by (simp_all add: recorded_def Let_def)

lemma pageInv_recorded [wf_keeps]:
  "pageInv p \<Longrightarrow> wf_grid g \<Longrightarrow> pageInv (recorded g p)"
  by (simp add: pageInv_def recorded_def Let_def wf_history_recordSnapshot)

lemma toggleSpin_wf [on_wf]:
  assumes "pageInv p" and "i < gridSize" and "j < gridSize"
  shows "toggleSpin i j p =
         Inr (p\<lparr>spins := flipAt (i, j) (spins p), cells := gridView (flipAt (i, j) (spins p))\<rparr>)"
proof -
  from assms have wf: "wf_grid (spins p)" and s: "inGrid (i, j)"
    by (simp_all add: pageInv_def)
  from assms(1) have view: "cells (p\<lparr>spins := flipAt (i, j) (spins p)\<rparr>) = gridView (spins p)"
    by (simp add: pageInv_def)
  from flipSite_wf [OF wf s] wf_grid_flipAt [OF wf s] show ?thesis
    by (simp add: toggleSpin_def updateGrid_wf [OF _ view])
qed

lemma pageInv_toggle [wf_keeps]:
  assumes "pageInv p" and "i < gridSize" and "j < gridSize"
  shows "\<exists>p'. toggleSpin i j p = Inr p' \<and> pageInv p' \<and> spins p' = flipAt (i, j) (spins p)"
  using assms wf_grid_flipAt [of "spins p" "(i, j)"]
  by (simp add: toggleSpin_wf pageInv_def inGrid_def)

text \<open>A click on a cell changes the grid and not the observables shown.\<close>

lemma toggleSpin_keeps_shown: "toggleSpin i j p = Inr p' \<Longrightarrow> shown p' = shown p"
  by (auto simp: toggleSpin_def updateGrid_def bindJs_Inr_iff)

lemma pageInv_inputs [wf_keeps]:
  assumes "pageInv p"
  shows "pageInv (temperatureInput v p)" "pageInv (magneticFieldInput v p)"
    "pageInv (interactionStrengthInput v p)" "pageInv (algorithmChange a p)"
  using assms
  by (simp_all add: pageInv_def temperatureInput_def magneticFieldInput_def
      interactionStrengthInput_def algorithmChange_def)

lemma pageInv_resize [wf_keeps]:
  "pageInv p \<Longrightarrow> pageInv (p\<lparr>clientWidth := w, gridHeight := natToString w @ ''px''\<rparr>)"
  by (simp add: pageInv_def)

lemma timers_startSimulation:
  assumes "pageInv p"
  shows "timers (startSimulation p) = {nextTimer p}"
    and "simulationInterval (startSimulation p) = Some (nextTimer p)"
    and "nextTimer (startSimulation p) = Suc (nextTimer p)"
  using assms
  by (auto simp: pageInv_def startSimulation_def truthy_def clearInterval_def setInterval_def
      split: option.splits)

lemma timers_stopSimulation:
  assumes "pageInv p"
  shows "timers (stopSimulation p) = {}"
  using assms
  by (auto simp: pageInv_def stopSimulation_def truthy_def clearInterval_def split: option.splits)

lemma spinHistory_startSimulation [simp]: "spinHistory (startSimulation p) = spinHistory p"
  by (simp add: startSimulation_def clearInterval_def setInterval_def Let_def split: option.splits)

lemma pageInv_startSimulation [wf_keeps]: "pageInv p \<Longrightarrow> pageInv (startSimulation p)"
  by (auto simp: pageInv_def startSimulation_def truthy_def clearInterval_def setInterval_def
      split: option.splits)

lemma pageInv_stopSimulation [wf_keeps]: "pageInv p \<Longrightarrow> pageInv (stopSimulation p)"
  by (auto simp: pageInv_def stopSimulation_def truthy_def clearInterval_def split: option.splits)

section \<open>Text written to the page\<close>

lemma sanitizeText_Nil [simp]: "sanitizeText [] = []"
  by (simp add: sanitizeText_def)

lemma sanitizeText_Cons:
  "sanitizeText (c # t) =
     (if c = CHR ''<'' then ''&lt;'' else if c = CHR ''>'' then ''&gt;'' else [c]) @ sanitizeText t"
  by (simp add: sanitizeText_def)

lemma sanitizeText_append: "sanitizeText (a @ b) = sanitizeText a @ sanitizeText b"
  by (simp add: sanitizeText_def)

lemma sanitizeText_plain:
  "CHR ''<'' \<notin> set t \<Longrightarrow> CHR ''>'' \<notin> set t \<Longrightarrow> sanitizeText t = t"
  by (induction t) (auto simp: sanitizeText_Cons)

lemma sanitizeText_clean: "CHR ''<'' \<notin> set (sanitizeText t) \<and> CHR ''>'' \<notin> set (sanitizeText t)"
  by (induction t) (simp_all add: sanitizeText_Cons)

section \<open>Properties of the driver\<close>

lemma observables_shown [simp]: "observables (p\<lparr>shown := v\<rparr>) = observables p"
  by (simp add: observables_def)

text \<open>
  C21. A step of the simulation on a state that satisfies the invariant of
  the page does not throw. It runs the chosen engine: when the algorithm is
  \<^verbatim>\<open>'metropolis'\<close> the new grid and the random numbers left are those that
  \<^verbatim>\<open>runMetropolisHastings\<close> returns for the grid, the temperature, the coupling
  and the field of the state, and when it is \<^verbatim>\<open>'wolff'\<close> those that
  \<^verbatim>\<open>runWolffCluster\<close> returns. The step leaves a well-formed grid, appends
  that grid to the history, dropping the oldest entry if the history is full,
  redraws the cells from the new grid and shows the observables of the new
  grid; the parameters, the chosen algorithm and the timers are unchanged.
\<close>

theorem runSimulation_step:
  assumes "pageInv p"
  shows "\<exists>p' r' res. runSimulation (p, r) = Inr (p', r') \<and>
           (algorithm p = ''metropolis'' \<longrightarrow>
              runMetropolisHastings (temperature p) (interactionStrength p) (magneticField p)
                (spins p, r) = Inr (spins p', r')) \<and>
           (algorithm p = ''wolff'' \<longrightarrow>
              runWolffCluster (temperature p) (interactionStrength p) (magneticField p)
                (spins p, r) = Inr (spins p', r')) \<and>
           wf_grid (spins p') \<and>
           spinHistory p' = recordSnapshot (spins p') (spinHistory p) \<and>
           cells p' = gridView (spins p') \<and>
           computeResults p' = Inr res \<and> shown p' = Some res \<and>
           temperature p' = temperature p \<and> magneticField p' = magneticField p \<and>
           interactionStrength p' = interactionStrength p \<and> algorithm p' = algorithm p \<and>
           simulationInterval p' = simulationInterval p \<and> timers p' = timers p"
proof -
  from assms have p: "wf_grid (spins p)" "wf_history (spinHistory p)" "cells p = gridView (spins p)"
    by (simp_all add: pageInv_def)
  from runSimulation_wf [OF p, of r] obtain g r'
    where e: "engine p r = Inr (g, r')" and g: "wf_grid g"
      and run: "runSimulation (p, r) = Inr (recorded g p, r')"
    by blast
  have "wf_history (recordSnapshot g (spinHistory p))"
    using p(2) g by (rule wf_history_recordSnapshot)
  with g have "computeResults (recorded g p) = Inr (observables (recorded g p))"
    by (intro computeResults_wf) (simp_all add: recorded_def Let_def)
  moreover have "spins (recorded g p) = g"
    by (simp add: recorded_def Let_def)
  ultimately show ?thesis
    using g run e by (simp add: recorded_def Let_def engine_def split: if_splits)
qed

theorem runSimulation_step_witness:
  "\<exists>p' r' res. runSimulation (loadedPage 400, sconst (mkRand 0)) = Inr (p', r') \<and>
     runMetropolisHastings 50 1 0 (initialSpins, sconst (mkRand 0)) = Inr (spins p', r') \<and>
     wf_grid (spins p') \<and>
     spinHistory p' = recordSnapshot (spins p') [] \<and>
     cells p' = gridView (spins p') \<and>
     computeResults p' = Inr res \<and> shown p' = Some res \<and>
     temperature p' = 50 \<and> magneticField p' = 0 \<and> interactionStrength p' = 1 \<and>
     algorithm p' = ''metropolis'' \<and> simulationInterval p' = None \<and> timers p' = {}"
  using runSimulation_step [of "loadedPage 400" "sconst (mkRand 0)"]
  by simp

text \<open>
  C22. The cells of the page show the grid. \<^verbatim>\<open>createGrid\<close> makes one cell for
  each site, in the order of the rows, with the indices of its site and the
  class \<^verbatim>\<open>cell up\<close> or \<^verbatim>\<open>cell down\<close> of its spin; \<^verbatim>\<open>updateGrid\<close>, on cells
  that \<^verbatim>\<open>createGrid\<close> made for any grid, gives the cells \<^verbatim>\<open>createGrid\<close> would
  make now. Neither throws on a well-formed grid.
\<close>

theorem cells_show_grid:
  assumes "wf_grid (spins p)"
  shows "\<exists>p'. createGrid p = Inr p' \<and>
           (cells p = gridView g0 \<longrightarrow> updateGrid p = Inr (p\<lparr>cells := cells p'\<rparr>)) \<and>
           p' = adjustGridSize (p\<lparr>cells := cells p'\<rparr>) \<and>
           map (\<lambda>cell. (dataRow cell, dataCol cell)) (cells p') = sites \<and>
           (\<forall>cell \<in> set (cells p').
              className cell =
                (if spinAt (spins p) (dataRow cell, dataCol cell) = 1 then ''cell up''
                 else ''cell down''))"
  using assms gridView_class [OF assms]
  by (simp add: createGrid_wf updateGrid_wf [where g = g0] gridView_sites)

theorem cells_show_grid_witness:
  "\<exists>p'. createGrid (initialPage 400) = Inr p' \<and>
     (cells (initialPage 400) = gridView checkerboard \<longrightarrow>
        updateGrid (initialPage 400) = Inr ((initialPage 400)\<lparr>cells := cells p'\<rparr>)) \<and>
     p' = adjustGridSize ((initialPage 400)\<lparr>cells := cells p'\<rparr>) \<and>
     map (\<lambda>cell. (dataRow cell, dataCol cell)) (cells p') = sites \<and>
     (\<forall>cell \<in> set (cells p').
        className cell =
          (if spinAt initialSpins (dataRow cell, dataCol cell) = 1 then ''cell up''
           else ''cell down''))"
  using cells_show_grid [of "initialPage 400" checkerboard] by simp

text \<open>
  C23. The values \<^verbatim>\<open>updateResults\<close> shows are the observables of the state: the
  mean spin, the energy as \<^verbatim>\<open>calculateEnergy\<close> counts it, the mean bond product,
  the diagonal correlation at distance 1 (0 while the history holds at most one
  snapshot), the series of diagonal correlations, the correlation with the
  snapshot ten steps before the newest (0 while the history holds at most ten)
  and the structure factor.
\<close>

theorem updateResults_shows_observables:
  assumes "wf_grid (spins p)" and "wf_history (spinHistory p)"
  shows "\<exists>p'. updateResults p = Inr p' \<and> p' = p\<lparr>shown := shown p'\<rparr> \<and>
           shown p' = Some
             \<lparr>magnetization = real_of_int (spinSum (spins p)) / real (gridSize * gridSize),
              energy = (hamiltonian (interactionStrength p) (magneticField p) (spins p) -
                        interactionStrength p * real_of_int (bondSum (spins p))) /
                       real (gridSize * gridSize),
              correlation = real_of_int (bondSum (spins p)) / real (2 * gridSize * gridSize),
              twoPointCorrelation =
                (if length (spinHistory p) \<le> 1 then 0
                 else real_of_int (diagonalSum 1 (spins p)) / real (gridSize * gridSize)),
              pairCorrelation =
                map (\<lambda>d. \<lparr>distance = d,
                            correlation = real_of_int (diagonalSum d (spins p)) /
                                          real (gridSize * gridSize)\<rparr>)
                  [1..<Suc (gridSize div 2)],
              temporalCorrelation =
                (if length (spinHistory p) \<le> 10 then 0
                 else real_of_int (overlap (spins p) (spinHistory p ! (length (spinHistory p) - 10 - 1))) /
                      real (gridSize * gridSize)),
              structureFactor =
                map (\<lambda>qx. map (\<lambda>qy. \<bar>amplitude (spins p) qx qy\<bar>) [0..<gridSize]) [0..<gridSize]\<rparr>"
  using assms by (simp add: updateResults_wf observables_def perSite_def Let_def del: upt_Suc)

theorem updateResults_shows_observables_witness:
  "\<exists>p'. updateResults (initialPage 400) = Inr p' \<and>
     p' = (initialPage 400)\<lparr>shown := shown p'\<rparr> \<and>
     shown p' = Some
       \<lparr>magnetization = 1, energy = - 4, correlation = 1, twoPointCorrelation = 0,
        pairCorrelation = map (\<lambda>d. \<lparr>distance = d, correlation = 1\<rparr>) [1, 2, 3, 4, 5],
        temporalCorrelation = 0,
        structureFactor =
          map (\<lambda>qx. map (\<lambda>qy. \<bar>amplitude initialSpins qx qy\<bar>) [0..<gridSize]) [0..<gridSize]\<rparr>"
  using updateResults_shows_observables [of "initialPage 400"] unfolding distances_eval
  by (simp add: initialPage_def initialSpins_uniform hamiltonian_def)

text \<open>
  C18. The observables have the types the page expects. On a well-formed
  state \<^verbatim>\<open>updateResults\<close> computes, without throwing, a magnetization and three
  correlations in \<open>[-1, 1]\<close>, a series of pair correlations with one entry for
  each distance from 1 to half the side, in order and each in \<open>[-1, 1]\<close>, a
  structure factor that is a square matrix of the side of the grid with no
  negative entry, and an energy within \<open>4 |J| + |h|\<close>.
\<close>

theorem results_are_well_typed:
  assumes "wf_grid (spins p)" and "wf_history (spinHistory p)"
  shows "\<exists>res. computeResults p = Inr res \<and> wf_results res \<and>
           \<bar>energy res\<bar> \<le> 4 * \<bar>interactionStrength p\<bar> + \<bar>magneticField p\<bar>"
  using assms energy_bound [of p] by (simp add: computeResults_wf)

theorem results_are_well_typed_witness:
  "\<exists>res. computeResults (initialPage 400) = Inr res \<and> wf_results res \<and> \<bar>energy res\<bar> \<le> 4 * \<bar>1\<bar> + \<bar>0\<bar>"
  using results_are_well_typed [of "initialPage 400"] by simp

text \<open>
  C38. When the chosen algorithm is neither \<^verbatim>\<open>'metropolis'\<close> nor \<^verbatim>\<open>'wolff'\<close> a
  step runs no engine and draws no random number, but still appends the
  unchanged grid to the history and refreshes the observables.
\<close>

theorem runSimulation_unknown_algorithm:
  assumes "pageInv p" and "algorithm p \<noteq> ''metropolis''" and "algorithm p \<noteq> ''wolff''"
  shows "\<exists>p'. runSimulation (p, r) = Inr (p', r) \<and> spins p' = spins p \<and>
           spinHistory p' = recordSnapshot (spins p) (spinHistory p)"
proof -
  from assms(1) have p: "wf_grid (spins p)" "wf_history (spinHistory p)" "cells p = gridView (spins p)"
    by (simp_all add: pageInv_def)
  from runSimulation_wf [OF p, of r] assms(2,3) show ?thesis
    by (auto simp: engine_def recorded_def Let_def)
qed

theorem runSimulation_unknown_algorithm_witness:
  "\<exists>p'. runSimulation (algorithmChange ''glauber'' (loadedPage 400), sconst (mkRand 0)) =
           Inr (p', sconst (mkRand 0)) \<and>
         spins p' = initialSpins \<and> spinHistory p' = [initialSpins]"
  using runSimulation_unknown_algorithm
      [of "algorithmChange ''glauber'' (loadedPage 400)" "sconst (mkRand 0)"]
    pageInv_inputs(4) [OF pageInv_loaded, of "''glauber''" 400]
  by (simp add: algorithmChange_def recordSnapshot_def historySize_def Let_def)

text \<open>
  C37. Starting the simulation leaves exactly one timer running, the new one,
  also when a timer was running before; stopping it leaves none. So at most one
  timer drives the simulation, and none after a stop.
\<close>

theorem start_and_stop_timers:
  assumes "pageInv p"
  shows "timers (startSimulation p) = {nextTimer p} \<and>
         timers (startSimulation (startSimulation p)) = {Suc (nextTimer p)} \<and>
         timers (stopSimulation p) = {} \<and>
         timers (stopSimulation (startSimulation p)) = {} \<and>
         pageInv (startSimulation p) \<and> pageInv (stopSimulation p)"
  using assms timers_startSimulation [OF pageInv_startSimulation [OF assms]]
    timers_stopSimulation [OF pageInv_startSimulation [OF assms]]
  by (simp add: timers_startSimulation timers_stopSimulation pageInv_startSimulation
      pageInv_stopSimulation)

theorem start_and_stop_timers_witness:
  "timers (startSimulation (loadedPage 400)) = {1} \<and>
   timers (startSimulation (startSimulation (loadedPage 400))) = {2} \<and>
   timers (stopSimulation (loadedPage 400)) = {} \<and>
   timers (stopSimulation (startSimulation (loadedPage 400))) = {} \<and>
   pageInv (startSimulation (loadedPage 400)) \<and> pageInv (stopSimulation (loadedPage 400))"
  using start_and_stop_timers [of "loadedPage 400"]
  by simp

text \<open>
  The text \<^verbatim>\<open>sanitizeText\<close> returns holds no angle bracket; a text without
  angle brackets is returned as it is, so sanitizing twice is sanitizing once.
\<close>

theorem sanitizeText_removes_angle_brackets:
  "CHR ''<'' \<notin> set (sanitizeText t) \<and> CHR ''>'' \<notin> set (sanitizeText t) \<and>
   sanitizeText (sanitizeText t) = sanitizeText t \<and>
   (CHR ''<'' \<notin> set t \<and> CHR ''>'' \<notin> set t \<longrightarrow> sanitizeText t = t)"
  using sanitizeText_clean [of t] by (simp add: sanitizeText_plain)

theorem sanitizeText_removes_angle_brackets_witness:
  "sanitizeText ''<b>1.5</b>'' = ''&lt;b&gt;1.5&lt;/b&gt;'' \<and> sanitizeText ''-0.25'' = ''-0.25'' \<and>
   sanitizeText (sanitizeText ''a<b'') = sanitizeText ''a<b''"
  using sanitizeText_removes_angle_brackets [of "''a<b''"]
  by (simp add: sanitizeText_def)

end
