(* ===== verification/Page_Events.thy ===== *)
theory Page_Events
  imports Simulation
begin

text \<open>
  The page of \<^verbatim>\<open>script.js\<close> as a state machine: the events the browser
  delivers to the handlers the script registers (lines 22, 275 to 289, 292 and
  304 to 308) and the states they lead to.

  \<^item> An \<open>event\<close> is a click on a cell or on a button, an input of a slider, a
    change of the select, a tick of an interval timer or a resize of the
    window. \<open>enabled\<close> says when the browser can deliver it: a click needs a
    cell that \<^verbatim>\<open>createGrid\<close> has made, a tick needs its timer to be running.
    \<open>handle\<close> runs the handler registered for the event.
  \<^item> \<open>reachable r0\<close> is the set of states of the page, together with the rest
    of the random stream \<open>r0\<close>, that the events lead to after the script has
    been loaded in a window of any width. \<open>runEvents\<close> delivers a finite
    sequence of events in order and skips those that are not enabled when
    their turn comes.
  \<^item> The lemmas: every handler keeps the invariant \<open>pageInv\<close> of theory
    \<open>Simulation\<close> and does not throw, so the invariant holds in every reachable
    state and every sequence of events is handled to its end; while a timer is
    \<open>running\<close> and neither button is clicked, each of its ticks records one
    grid in the history, whatever other events come between.
\<close>

section \<open>Events and their handlers\<close>

datatype event =
    CellClick nat nat
  | TimerTick nat
  | TemperatureInput number
  | MagneticFieldInput number
  | InteractionStrengthInput number
  | AlgorithmChange string
  | StartClick
  | StopClick
  | ExportClick
  | WindowResize nat

fun enabled :: "event \<Rightarrow> page \<Rightarrow> bool" where
  "enabled (CellClick i j) p \<longleftrightarrow> list_ex (\<lambda>cell. dataRow cell = i \<and> dataCol cell = j) (cells p)"
| "enabled (TimerTick i) p \<longleftrightarrow> i \<in> timers p"
| "enabled e p \<longleftrightarrow> True"

fun handle :: "event \<Rightarrow> page \<times> rng \<Rightarrow> (page \<times> rng) js" where
  "handle (CellClick i j) (p, r) = bindJs (toggleSpin i j p) (\<lambda>p. Inr (p, r))"
| "handle (TimerTick i) (p, r) = runSimulation (p, r)"
| "handle (TemperatureInput v) (p, r) = Inr (temperatureInput v p, r)"
| "handle (MagneticFieldInput v) (p, r) = Inr (magneticFieldInput v p, r)"
| "handle (InteractionStrengthInput v) (p, r) = Inr (interactionStrengthInput v p, r)"
| "handle (AlgorithmChange v) (p, r) = Inr (algorithmChange v p, r)"
| "handle StartClick (p, r) = Inr (startSimulation p, r)"
| "handle StopClick (p, r) = Inr (stopSimulation p, r)"
| "handle ExportClick (p, r) = bindJs (exportData p) (\<lambda>data. Inr (p, r))"
| "handle (WindowResize w) (p, r) = Inr (adjustGridSize (p\<lparr>clientWidth := w\<rparr>), r)"

inductive_set reachable :: "rng \<Rightarrow> (page \<times> rng) set" for r0 :: rng where
  initial: "loadPage w = Inr p \<Longrightarrow> (p, r0) \<in> reachable r0"
| event: "st \<in> reachable r0 \<Longrightarrow> enabled e (fst st) \<Longrightarrow> handle e st = Inr st' \<Longrightarrow> st' \<in> reachable r0"

text \<open>
  A finite sequence of events, delivered one after the other; an event that is
  not enabled when its turn comes (a tick of a timer that has been cleared) is
  not delivered.
\<close>

definition deliver :: "event \<Rightarrow> page \<times> rng \<Rightarrow> (page \<times> rng) js" where
  "deliver e st = (if enabled e (fst st) then handle e st else Inr st)"

definition runEvents :: "event list \<Rightarrow> page \<times> rng \<Rightarrow> (page \<times> rng) js" where
  "runEvents es st = foldJs (\<lambda>st e. deliver e st) st es"

section \<open>The specification\<close>

definition running :: "nat \<Rightarrow> page \<Rightarrow> bool" where
  "running i p \<longleftrightarrow> simulationInterval p = Some i \<and> i \<in> timers p"

section \<open>Every handler keeps the invariant\<close>

lemma enabled_click:
  "cells p = gridView g \<Longrightarrow> enabled (CellClick i j) p \<longleftrightarrow> i < gridSize \<and> j < gridSize"
  by (auto simp: gridView_def list_ex_iff inGrid_def intro: bexI [of _ "(i, j)"])

lemma reachable_loaded [simp]: "(loadedPage w, r0) \<in> reachable r0"
  by (rule reachable.initial [of w]) simp

lemma handle_keeps:
  assumes "pageInv p" and "enabled e p"
  shows "\<exists>p' r'. handle e (p, r) = Inr (p', r') \<and> pageInv p'"
proof (cases e)
  case (CellClick i j)
  with assms enabled_click [of p "spins p" i j] have "i < gridSize" "j < gridSize"
    by (simp_all add: pageInv_def)
  with assms(1) pageInv_toggle [of p i j] CellClick show ?thesis by auto
next
  case (TimerTick i)
  from assms(1) have "wf_grid (spins p)" "wf_history (spinHistory p)" "cells p = gridView (spins p)"
    by (simp_all add: pageInv_def)
  from runSimulation_wf [OF this, of r] pageInv_recorded [OF assms(1)] TimerTick show ?thesis
    by auto
next
  case ExportClick
  with assms(1) show ?thesis
    by (simp add: exportData_wf pageInv_def)
qed (use assms(1) in \<open>simp_all add: wf_keeps\<close>)

lemma reachable_pageInv:
  assumes "st \<in> reachable r0"
  shows "pageInv (fst st)"
  using assms
proof (induction rule: reachable.induct)
  case (initial w p)
  then have "p = loadedPage w" by simp
  then show ?case by simp
next
  case (event st e st')
  from handle_keeps [OF event.IH event.hyps(2), of "snd st"] event.hyps(3) show ?case
    by auto
qed

lemma reachable_step:
  assumes "st \<in> reachable r0" and "enabled e (fst st)"
  shows "\<exists>st'. handle e st = Inr st' \<and> st' \<in> reachable r0"
proof -
  from handle_keeps [OF reachable_pageInv [OF assms(1)] assms(2), of "snd st"]
  obtain st' where "handle e st = Inr st'"
    by auto
  with reachable.event [OF assms] show ?thesis
    by simp
qed

lemma reachable_deliver:
  assumes "st \<in> reachable r0"
  shows "\<exists>st'. deliver e st = Inr st' \<and> st' \<in> reachable r0"
proof (cases "enabled e (fst st)")
  case True
  with reachable_step [OF assms, of e] show ?thesis
    by (simp add: deliver_def)
next
  case False
  with assms show ?thesis
    by (simp add: deliver_def)
qed

lemma reachable_runEvents:
  assumes "st \<in> reachable r0"
  shows "\<exists>st'. runEvents es st = Inr st' \<and> st' \<in> reachable r0"
  unfolding runEvents_def
  using assms by (rule foldJs_invariant) (rule reachable_deliver)

section \<open>A running timer drives the simulation\<close>

lemma handle_running:
  assumes "pageInv p" and "running i p" and "enabled e p" and "e \<noteq> StartClick" and "e \<noteq> StopClick"
  shows "\<exists>p' r'. handle e (p, r) = Inr (p', r') \<and> running i p' \<and>
           length (spinHistory p') =
             (if e = TimerTick i then min historySize (Suc (length (spinHistory p)))
              else length (spinHistory p))"
proof (cases e)
  case (CellClick a b)
  with assms enabled_click [of p "spins p" a b] have "a < gridSize" "b < gridSize"
    by (simp_all add: pageInv_def)
  from toggleSpin_wf [OF assms(1) this] CellClick assms(2) show ?thesis
    by (simp add: running_def)
next
  case (TimerTick k)
  from assms(1) have p: "wf_grid (spins p)" "wf_history (spinHistory p)" "cells p = gridView (spins p)"
    by (simp_all add: pageInv_def)
  from assms(1,2,3) TimerTick have "k = i"
    by (auto simp: pageInv_def running_def)
  with runSimulation_wf [OF p, of r] length_recorded [OF p(2)] assms(2) TimerTick show ?thesis
    by (auto simp: running_def)
next
  case ExportClick
  with assms(1,2) show ?thesis
    by (simp add: exportData_wf pageInv_def)
qed (use assms in \<open>simp_all add: running_def temperatureInput_def magneticFieldInput_def
       interactionStrengthInput_def algorithmChange_def\<close>)

lemma deliver_running:
  assumes "pageInv (fst st) \<and> running i (fst st)" and "e \<noteq> StartClick" and "e \<noteq> StopClick"
  shows "\<exists>st'. deliver e st = Inr st' \<and> (pageInv (fst st') \<and> running i (fst st')) \<and>
           length (spinHistory (fst st')) =
             min historySize (length (spinHistory (fst st)) + count_list [e] (TimerTick i))"
proof (cases "enabled e (fst st)")
  case True
  from assms(1) have len: "length (spinHistory (fst st)) \<le> historySize"
    by (simp add: pageInv_def wf_history_def)
  from assms(1) True handle_keeps [of "fst st" e "snd st"]
    handle_running [of "fst st" i e "snd st", OF _ _ True assms(2,3)] len
  show ?thesis
    by (cases st) (auto simp: deliver_def)
next
  case False
  from assms(1) have len: "length (spinHistory (fst st)) \<le> historySize"
    by (simp add: pageInv_def wf_history_def)
  from False have "e \<noteq> TimerTick i"
    using assms(1) by (auto simp: running_def)
  with False assms(1) len show ?thesis
    by (simp add: deliver_def)
qed

lemma runEvents_running:
  assumes "pageInv (fst st) \<and> running i (fst st)" and "StartClick \<notin> set es" and "StopClick \<notin> set es"
  shows "\<exists>st'. runEvents es st = Inr st' \<and> (pageInv (fst st') \<and> running i (fst st')) \<and>
           length (spinHistory (fst st')) =
             min historySize (length (spinHistory (fst st)) + count_list es (TimerTick i))"
  using assms
proof (induction es arbitrary: st)
  case Nil
  then show ?case
    by (simp add: runEvents_def pageInv_def wf_history_def)
next
  case (Cons e es)
  from Cons.prems have e: "e \<noteq> StartClick" "e \<noteq> StopClick"
    by auto
  from deliver_running [OF Cons.prems(1) e] obtain st1
    where st1: "deliver e st = Inr st1" "pageInv (fst st1) \<and> running i (fst st1)"
      and len1: "length (spinHistory (fst st1)) =
                 min historySize (length (spinHistory (fst st)) + count_list [e] (TimerTick i))"
    by blast
  from Cons.IH [OF st1(2)] Cons.prems obtain st'
    where st': "runEvents es st1 = Inr st'" "pageInv (fst st') \<and> running i (fst st')"
      and len': "length (spinHistory (fst st')) =
                 min historySize (length (spinHistory (fst st1)) + count_list es (TimerTick i))"
    by auto
  from st1(1) st'(1) have "runEvents (e # es) st = Inr st'"
    by (simp add: runEvents_def)
  with st'(2) len1 len' show ?case
    by auto
qed

lemma runEvents_started:
  assumes "pageInv (fst st)" and "StartClick \<notin> set es" and "StopClick \<notin> set es"
  shows "\<exists>st'. runEvents (StartClick # es) st = Inr st' \<and> running (nextTimer (fst st)) (fst st') \<and>
           length (spinHistory (fst st')) =
             min historySize
               (length (spinHistory (fst st)) + count_list es (TimerTick (nextTimer (fst st))))"
proof -
  let ?i = "nextTimer (fst st)"
  let ?st1 = "(startSimulation (fst st), snd st)"
  have st1: "runEvents (StartClick # es) st = runEvents es ?st1"
    by (cases st) (simp add: runEvents_def deliver_def)
  from assms(1) have "pageInv (fst ?st1) \<and> running ?i (fst ?st1)"
    by (simp add: pageInv_startSimulation timers_startSimulation running_def)
  from runEvents_running [OF this assms(2,3)] st1 show ?thesis
    by (auto simp: spinHistory_startSimulation)
qed

end
