(* ===== verification/Page_Output.thy ===== *)
theory Page_Output
  imports Simulation Json
begin

text \<open>
  What \<^verbatim>\<open>script.js\<close> writes for the user to read: the texts of the results
  (\<^verbatim>\<open>updateResults\<close>, lines 227 to 243), the labels of the sliders (lines 277,
  281 and 285) and the file of \<^verbatim>\<open>exportData\<close> (lines 268 to 273).

  \<^item> The script prints numbers with \<^verbatim>\<open>math.format\<close> (a library), with
    \<^verbatim>\<open>toString\<close> and, inside \<^verbatim>\<open>JSON.stringify\<close>, with the same conversion as
    \<^verbatim>\<open>toString\<close>. Since numbers are reals here, these printers are parameters
    of type \<open>formatter\<close>; the theorems hold for every printer, or for every
    printer whose output holds no markup (\<open>plainFormat\<close>).
  \<^item> The state of the page (theory \<open>Simulation\<close>) keeps the numbers that were
    last written; \<open>resultsText\<close> and \<open>labelText\<close> give the text of a number that
    was written, so the text on the page is \<open>resultsText format\<close> of the field
    \<open>shown\<close> and \<open>labelText toString\<close> of the fields of the labels.
  \<^item> \<open>resultsText\<close> follows the statements of \<^verbatim>\<open>updateResults\<close>: the texts
    assigned to \<^verbatim>\<open>textContent\<close>, and the markup built up in \<^verbatim>\<open>innerHTML\<close> by
    appending one line per entry. The markup read back from \<^verbatim>\<open>innerHTML\<close> is
    taken to be the markup written, which holds for markup whose text has no
    \<^verbatim>\<open><\<close> and no \<^verbatim>\<open>&\<close>.
  \<^item> \<open>dataJson\<close> is the object \<^verbatim>\<open>data\<close> of \<^verbatim>\<open>exportData\<close> as a JSON value (theory
    \<open>Json\<close>) with its keys in the order of the source, and \<open>exportFile\<close> is the
    download: its name, its type and its content, the text
    \<^verbatim>\<open>JSON.stringify(data, null, 2)\<close>. \<open>exportClick\<close> is the whole function
    \<^verbatim>\<open>exportData\<close> of the script: the record built from the state (\<open>exportData\<close>
    of theory \<open>Simulation\<close>) made into the file.
  \<^item> \<open>shownTexts\<close> gives the texts of the result elements of a page, those of
    the values it shows; after \<^verbatim>\<open>updateResults\<close> they are the texts of the
    observables of the state (\<open>shownTexts_updateResults\<close>).
  \<^item> The theorem on the exported file asks that the text of every exported
    number denotes that number. Such a number has a finite decimal text, so
    the theorem speaks of the exports whose numbers are of this kind, as those
    of the page just loaded are, and not of a structure factor with an
    irrational entry, whose text can only approximate it.
  \<^item> \<open>htmlLines\<close> is the specification's reader of markup: the lines of text
    between the \<^verbatim>\<open><br>\<close> tags, provided the markup holds no other tag and no
    character reference.
\<close>

section \<open>The program: texts\<close>

type_synonym formatter = "number \<Rightarrow> string"

definition labelText :: "formatter \<Rightarrow> number \<Rightarrow> string" where
  "labelText toString v = sanitizeText (toString v)"

record resultTexts =
  magnetizationText :: string
  energyText :: string
  correlationText :: string
  twoPointCorrelationText :: string
  pairCorrelationHTML :: string
  temporalCorrelationText :: string
  structureFactorHTML :: string

definition pairCorrelationLine :: "formatter \<Rightarrow> pairEntry \<Rightarrow> string" where
  "pairCorrelationLine format e =
     ''Distance '' @ natToString (distance e) @ '': '' @ format (pairEntry.correlation e) @ ''<br>''"

definition structureFactorLine :: "formatter \<Rightarrow> nat \<Rightarrow> nat \<Rightarrow> number \<Rightarrow> string" where
  "structureFactorLine format qx qy v =
     ''q=('' @ natToString qx @ '','' @ natToString qy @ ''): '' @ format v @ ''<br>''"

definition resultsText :: "formatter \<Rightarrow> results \<Rightarrow> resultTexts" where
  "resultsText format res =
     \<lparr>magnetizationText = ''Magnetization: '' @ format (magnetization res),
      energyText = ''Energy: '' @ format (energy res),
      correlationText = ''Correlation Function: '' @ format (results.correlation res),
      twoPointCorrelationText =
        ''Two-Point Correlation (distance 1): '' @ format (twoPointCorrelation res),
      pairCorrelationHTML =
        foldl (\<lambda>html e. html @ pairCorrelationLine format e) ''Pair Correlation:<br>''
          (pairCorrelation res),
      temporalCorrelationText =
        ''Temporal Correlation (lag 10): '' @ format (temporalCorrelation res),
      structureFactorHTML =
        foldl (\<lambda>html (qx, row).
            foldl (\<lambda>html (qy, v). html @ structureFactorLine format qx qy v) html (enumerate 0 row))
          ''Structure Factor:<br>'' (enumerate 0 (structureFactor res))\<rparr>"

section \<open>The program: the exported file\<close>

definition resultsJson :: "results \<Rightarrow> (string \<times> json) list" where
  "resultsJson res =
     [(''magnetization'', JNumber (magnetization res)),
      (''energy'', JNumber (energy res)),
      (''correlation'', JNumber (results.correlation res)),
      (''twoPointCorrelation'', JNumber (twoPointCorrelation res)),
      (''pairCorrelation'',
         JArray (map (\<lambda>e. JObject [(''distance'', JNumber (real (distance e))),
                                     (''correlation'', JNumber (pairEntry.correlation e))])
                   (pairCorrelation res))),
      (''temporalCorrelation'', JNumber (temporalCorrelation res)),
      (''structureFactor'', JArray (map (\<lambda>row. JArray (map JNumber row)) (structureFactor res)))]"

definition dataJson :: "exportRecord \<Rightarrow> json" where
  "dataJson data =
     (case data of (g, kT, h, J, values, simulationResults) \<Rightarrow>
        JObject
          ([(''spins'', spinsJson g),
            (''temperature'', JNumber kT),
            (''magneticField'', JNumber h),
            (''interactionStrength'', JNumber J)] @
           resultsJson values @
           [(''simulationResults'', JObject (resultsJson simulationResults))]))"

record download =
  fileName :: string
  mimeType :: string
  content :: string

definition exportFile :: "formatter \<Rightarrow> exportRecord \<Rightarrow> download" where
  "exportFile toString data =
     (let jsonData = stringify toString ''  '' [] (dataJson data)
      in \<lparr>fileName = ''simulation_data.json'', mimeType = ''application/json'', content = jsonData\<rparr>)"

definition exportClick :: "formatter \<Rightarrow> page \<Rightarrow> download js" where
  "exportClick toString p = bindJs (exportData p) (\<lambda>data. Inr (exportFile toString data))"

section \<open>The specification\<close>

definition shownTexts :: "formatter \<Rightarrow> page \<Rightarrow> resultTexts option" where
  "shownTexts format p = map_option (resultsText format) (shown p)"

fun scanLines :: "string \<Rightarrow> string \<Rightarrow> string list option" where
  "scanLines line [] = Some (if line = [] then [] else [line])"
| "scanLines line (c # s) =
     (if c = CHR ''<'' then
        (if take 3 s = ''br>'' then map_option ((#) line) (scanLines [] (drop 3 s)) else None)
      else if c = CHR ''&'' then None
      else scanLines (line @ [c]) s)"

definition htmlLines :: "string \<Rightarrow> string list option" where
  "htmlLines s = scanLines [] s"

definition plainText :: "string \<Rightarrow> bool" where
  "plainText t \<longleftrightarrow> CHR ''<'' \<notin> set t \<and> CHR ''&'' \<notin> set t"

definition plainFormat :: "formatter \<Rightarrow> bool" where
  "plainFormat format \<longleftrightarrow> (\<forall>x. plainText (format x))"

definition pairCorrelationShown :: "formatter \<Rightarrow> pairEntry \<Rightarrow> string" where
  "pairCorrelationShown format e =
     ''Distance '' @ natToString (distance e) @ '': '' @ format (pairEntry.correlation e)"

definition structureFactorShown :: "formatter \<Rightarrow> number list list \<Rightarrow> nat \<times> nat \<Rightarrow> string" where
  "structureFactorShown format m q =
     ''q=('' @ natToString (fst q) @ '','' @ natToString (snd q) @ ''): '' @ format (m ! fst q ! snd q)"

section \<open>Markup and its lines\<close>

lemma plainText_simps [simp]:
  "plainText []" "plainText (c # t) \<longleftrightarrow> c \<noteq> CHR ''<'' \<and> c \<noteq> CHR ''&'' \<and> plainText t"
  "plainText (a @ b) \<longleftrightarrow> plainText a \<and> plainText b"
  by (auto simp: plainText_def)

lemma plainText_natToString [simp]: "plainText (natToString n)"
  using natToString_digits [of n] by (auto simp: plainText_def)

lemma plainFormat_plain [simp]: "plainFormat format \<Longrightarrow> plainText (format x)"
  by (simp add: plainFormat_def)

lemma scanLines_plain:
  "plainText t \<Longrightarrow>
     scanLines line (t @ ''<br>'' @ rest) = map_option ((#) (line @ t)) (scanLines [] rest)"
  by (induction t arbitrary: line) auto

lemma scanLines_lines:
  assumes "\<And>x. x \<in> set xs \<Longrightarrow> plainText (f x)"
  shows "scanLines [] (concat (map (\<lambda>x. f x @ ''<br>'') xs)) = Some (map f xs)"
  using assms
proof (induction xs)
  case Nil
  then show ?case by simp
next
  case (Cons x xs)
  from Cons.prems have "plainText (f x)" by simp
  from scanLines_plain [OF this, of "[]" "concat (map (\<lambda>x. f x @ ''<br>'') xs)"] Cons show ?case
    by simp
qed

lemma htmlLines_heading:
  assumes "plainText heading" and "\<And>x. x \<in> set xs \<Longrightarrow> plainText (f x)"
  shows "htmlLines (heading @ ''<br>'' @ concat (map (\<lambda>x. f x @ ''<br>'') xs)) = Some (heading # map f xs)"
  using scanLines_plain [OF assms(1), of "[]"] scanLines_lines [of xs f, OF assms(2)]
  by (simp add: htmlLines_def)

section \<open>The texts of the results\<close>

lemma foldl_append_concat: "foldl (\<lambda>acc x. acc @ f x) acc xs = acc @ concat (map f xs)"
  by (induction xs arbitrary: acc) simp_all

lemma foldl_append_concat_pairs:
  "foldl (\<lambda>acc (i, x). acc @ f i x) acc xs = acc @ concat (map (\<lambda>(i, x). f i x) xs)"
  by (induction xs arbitrary: acc) auto

lemma enumerate_nth: "enumerate 0 xs = map (\<lambda>i. (i, xs ! i)) [0..<length xs]"
  by (rule nth_equalityI) (simp_all add: nth_enumerate_eq)

lemma concat_map_product:
  "concat (map f (List.product xs ys)) = concat (map (\<lambda>x. concat (map (\<lambda>y. f (x, y)) ys)) xs)"
  by (induction xs) (simp_all add: comp_def)

lemma pairCorrelationHTML_eq:
  "pairCorrelationHTML (resultsText format res) =
     ''Pair Correlation:'' @ ''<br>'' @
     concat (map (\<lambda>e. pairCorrelationShown format e @ ''<br>'') (pairCorrelation res))"
  by (simp add: resultsText_def foldl_append_concat pairCorrelationLine_def pairCorrelationShown_def)

lemma structureFactorHTML_rows:
  "structureFactorHTML (resultsText format res) =
     ''Structure Factor:'' @ ''<br>'' @
     concat (map (\<lambda>(qx, row). concat (map (\<lambda>(qy, v). structureFactorLine format qx qy v)
       (enumerate 0 row))) (enumerate 0 (structureFactor res)))"
  by (simp add: resultsText_def foldl_append_concat_pairs)

lemma structureFactorHTML_eq:
  assumes "squareMatrix (structureFactor res)"
  shows "structureFactorHTML (resultsText format res) =
     ''Structure Factor:'' @ ''<br>'' @
     concat (map (\<lambda>q. structureFactorShown format (structureFactor res) q @ ''<br>'') sites)"
proof -
  let ?m = "structureFactor res"
  from assms have len: "length ?m = gridSize" and row: "\<And>qx. qx < gridSize \<Longrightarrow> length (?m ! qx) = gridSize"
    by (simp_all add: squareMatrix_def)
  have "concat (map (\<lambda>(qx, row). concat (map (\<lambda>(qy, v). structureFactorLine format qx qy v)
          (enumerate 0 row))) (enumerate 0 ?m)) =
        concat (map (\<lambda>qx. concat (map (\<lambda>qy. structureFactorShown format ?m (qx, qy) @ ''<br>'')
          [0..<gridSize])) [0..<gridSize])"
    by (rule arg_cong [where f = concat])
      (simp add: enumerate_nth len row comp_def structureFactorLine_def structureFactorShown_def)
  then show ?thesis
    by (simp add: structureFactorHTML_rows sites_def concat_map_product)
qed

text \<open>
  C24. The markup \<^verbatim>\<open>updateResults\<close> builds for the pair correlation and for the
  structure factor is read by the browser as the lines the script means: the
  heading, then one line for each distance in order, respectively one line for
  each wavevector in the order of the rows, each with the formatted value. This
  holds whenever the formatted numbers hold no markup; the values themselves
  are never sanitized.
\<close>

theorem results_text_lines:
  assumes "plainFormat format" and "wf_results res"
  shows "htmlLines (pairCorrelationHTML (resultsText format res)) =
           Some (''Pair Correlation:'' # map (pairCorrelationShown format) (pairCorrelation res)) \<and>
         map distance (pairCorrelation res) = [1..<Suc (gridSize div 2)] \<and>
         htmlLines (structureFactorHTML (resultsText format res)) =
           Some (''Structure Factor:'' # map (structureFactorShown format (structureFactor res)) sites)"
proof -
  from assms(2) have m: "squareMatrix (structureFactor res)"
    and d: "map distance (pairCorrelation res) = [1..<Suc (gridSize div 2)]"
    by (simp_all add: wf_results_def)
  have "htmlLines (pairCorrelationHTML (resultsText format res)) =
          Some (''Pair Correlation:'' # map (pairCorrelationShown format) (pairCorrelation res))"
    unfolding pairCorrelationHTML_eq
    by (rule htmlLines_heading) (simp_all add: pairCorrelationShown_def assms(1))
  moreover have "htmlLines (structureFactorHTML (resultsText format res)) =
          Some (''Structure Factor:'' # map (structureFactorShown format (structureFactor res)) sites)"
    unfolding structureFactorHTML_eq [OF m]
    by (rule htmlLines_heading) (simp_all add: structureFactorShown_def assms(1))
  ultimately show ?thesis
    using d by simp
qed

theorem results_text_lines_witness:
  "htmlLines (pairCorrelationHTML (resultsText (\<lambda>x. ''1'') (observables (loadedPage 400)))) =
     Some (''Pair Correlation:'' #
           map (pairCorrelationShown (\<lambda>x. ''1'')) (pairCorrelation (observables (loadedPage 400)))) \<and>
   map distance (pairCorrelation (observables (loadedPage 400))) = [1..<Suc (gridSize div 2)] \<and>
   htmlLines (structureFactorHTML (resultsText (\<lambda>x. ''1'') (observables (loadedPage 400)))) =
     Some (''Structure Factor:'' #
           map (structureFactorShown (\<lambda>x. ''1'') (structureFactor (observables (loadedPage 400)))) sites)"
  using results_text_lines [of "\<lambda>x. ''1''" "observables (loadedPage 400)"]
  by (simp add: plainFormat_def)

section \<open>The exported value\<close>

lemma map_eq_iff_inj: "(\<And>x y. f x = f y \<longleftrightarrow> x = y) \<Longrightarrow> map f xs = map f ys \<longleftrightarrow> xs = ys"
  by (rule inj_map_eq_map) (simp add: inj_on_def)

lemma resultsJson_inj [simp]: "resultsJson res = resultsJson res' \<longleftrightarrow> res = res'"
proof
  assume eq: "resultsJson res = resultsJson res'"
  have pair: "map (\<lambda>e. JObject [(''distance'', JNumber (real (distance e))),
                (''correlation'', JNumber (pairEntry.correlation e))]) xs =
              map (\<lambda>e. JObject [(''distance'', JNumber (real (distance e))),
                (''correlation'', JNumber (pairEntry.correlation e))]) ys \<longleftrightarrow> xs = ys"
    for xs ys :: "pairEntry list"
    by (rule map_eq_iff_inj) auto
  have rows: "map (\<lambda>row. JArray (map JNumber row)) xs = map (\<lambda>row. JArray (map JNumber row)) ys \<longleftrightarrow>
              xs = ys" for xs ys
    by (rule map_eq_iff_inj) (simp add: map_eq_iff_inj)
  from eq show "res = res'"
    by (intro results.equality) (simp_all add: resultsJson_def pair rows)
qed simp

lemma dataJson_inj: "dataJson d = dataJson d' \<longleftrightarrow> d = d'"
proof
  assume eq: "dataJson d = dataJson d'"
  have rows: "spinsJson g = spinsJson g' \<longleftrightarrow> g = g'" for g g'
    by (metis jsonSpins_spinsJson option.inject)
  from eq show "d = d'"
    by (cases d, cases d') (simp add: dataJson_def rows)
qed simp

section \<open>The texts on the page and the file of a state\<close>

lemma shownTexts_updateResults:
  assumes "wf_grid (spins p)" and "wf_history (spinHistory p)"
  shows "\<exists>p'. updateResults p = Inr p' \<and>
           shownTexts format p' = Some (resultsText format (observables p))"
  using assms by (simp add: updateResults_wf shownTexts_def)

lemma exportClick_wf [on_wf]:
  assumes "wf_grid (spins p)" and "wf_history (spinHistory p)"
  shows "exportClick toString p =
         Inr (exportFile toString (spins p, temperature p, magneticField p, interactionStrength p,
                observables p, observables p))"
  using assms by (simp add: exportClick_def exportData_wf)

section \<open>The exported file\<close>

lemma stringToNat_name: "digitValue c = None \<Longrightarrow> stringToNat (c # s) = None"
proof -
  have "foldl (\<lambda>acc c. case (acc, digitValue c) of (Some a, Some d) \<Rightarrow> Some (10 * a + d) | _ \<Rightarrow> None)
          None s = None" for s
    by (induction s) simp_all
  then show "digitValue c = None \<Longrightarrow> stringToNat (c # s) = None"
    by (simp add: stringToNat_def)
qed

lemma wf_json_results: "wf_json (JObject (resultsJson res))"
  by (auto simp: resultsJson_def nameKeys_def stringToNat_name digitValue_def)

lemma wf_json_data: "wf_json (dataJson d)"
  using wf_json_results
  by (cases d) (auto simp: dataJson_def resultsJson_def nameKeys_def stringToNat_name digitValue_def)

text \<open>
  C36. The file \<^verbatim>\<open>exportData\<close> offers for download is named
  \<^verbatim>\<open>simulation_data.json\<close>, and its content parses back, as JSON, to the object
  the function built, provided every number in it is printed as a number token
  that denotes it. That object determines the grid, the parameters and both
  copies of the observables, so nothing of the exported data is lost or merged
  on the way into the file.
\<close>

theorem exported_file_reads_back:
  assumes "\<forall>x \<in> numbersOf (dataJson d). reads toString x"
  shows "parse (content (exportFile toString d)) = Some (dataJson d) \<and>
         fileName (exportFile toString d) = ''simulation_data.json'' \<and>
         (\<forall>d'. dataJson d' = dataJson d \<longrightarrow> d' = d)"
  using assms wf_json_data [of d] parse_stringify [of toString "dataJson d" "''  ''"]
  by (simp add: exportFile_def printable_def dataJson_inj)

theorem exported_file_reads_back_witness:
  "parse (content (exportFile printInteger
      (initialSpins, 50, 0, 1,
       \<lparr>magnetization = 1, energy = - 4, correlation = 1, twoPointCorrelation = 0,
        pairCorrelation = [\<lparr>distance = 1, correlation = 1\<rparr>], temporalCorrelation = 0,
        structureFactor = [[100, 0]]\<rparr>,
       \<lparr>magnetization = 1, energy = - 4, correlation = 1, twoPointCorrelation = 0,
        pairCorrelation = [\<lparr>distance = 1, correlation = 1\<rparr>], temporalCorrelation = 0,
        structureFactor = [[100, 0]]\<rparr>))) =
   Some (dataJson
      (initialSpins, 50, 0, 1,
       \<lparr>magnetization = 1, energy = - 4, correlation = 1, twoPointCorrelation = 0,
        pairCorrelation = [\<lparr>distance = 1, correlation = 1\<rparr>], temporalCorrelation = 0,
        structureFactor = [[100, 0]]\<rparr>,
       \<lparr>magnetization = 1, energy = - 4, correlation = 1, twoPointCorrelation = 0,
        pairCorrelation = [\<lparr>distance = 1, correlation = 1\<rparr>], temporalCorrelation = 0,
        structureFactor = [[100, 0]]\<rparr>))"
  using exported_file_reads_back [of
      "(initialSpins, 50, 0, 1,
       \<lparr>magnetization = 1, energy = - 4, correlation = 1, twoPointCorrelation = 0,
        pairCorrelation = [\<lparr>distance = 1, correlation = 1\<rparr>], temporalCorrelation = 0,
        structureFactor = [[100, 0]]\<rparr>,
       \<lparr>magnetization = 1, energy = - 4, correlation = 1, twoPointCorrelation = 0,
        pairCorrelation = [\<lparr>distance = 1, correlation = 1\<rparr>], temporalCorrelation = 0,
        structureFactor = [[100, 0]]\<rparr>)" printInteger, THEN conjunct1]
  by (simp add: dataJson_def resultsJson_def reads_printInteger)

end
