(* ===== verification/Spec2Isabelle.thy ===== *)
theory Spec2Isabelle
  imports Metropolis Wolff Wolff_Energy Observables Simulation Page_Events Page_Output
begin

text \<open>
  A model of \<^verbatim>\<open>src/Heisenberg Model/script.js\<close>, a Monte Carlo simulation of a
  10 by 10 lattice of up and down spins with periodic boundaries, and the
  theorems that make it correct.

  \<^bold>\<open>The program.\<close> The script keeps its state in global variables: the grid
  \<^verbatim>\<open>spins\<close>, the parameters \<^verbatim>\<open>temperature\<close>, \<^verbatim>\<open>magneticField\<close> and
  \<^verbatim>\<open>interactionStrength\<close>, the name of the chosen \<^verbatim>\<open>algorithm\<close>, the buffer
  \<^verbatim>\<open>spinHistory\<close> and the timer id \<^verbatim>\<open>simulationInterval\<close>. A timer calls
  \<^verbatim>\<open>runSimulation\<close> every 100 ms; it runs one of the two update engines
  (\<^verbatim>\<open>runMetropolisHastings\<close>, \<^verbatim>\<open>runWolffCluster\<close>), which read the energy model
  (\<^verbatim>\<open>deltaEnergy\<close>) and write the grid, then records the grid in the history and
  calls \<^verbatim>\<open>updateResults\<close>, which evaluates the seven observables and writes
  their texts. Clicks and sliders change single cells and parameters between
  two steps, a button exports the state as a file, and a resize of the window
  adjusts the height of the grid element.

  \<^bold>\<open>The theories.\<close>

  \<^item> \<open>JS_Prelude\<close>: the part of JavaScript the script relies on. A computation
    that may throw has a value of type \<open>jsError + 'a\<close>, sequenced by \<open>bindJs\<close>; a
    \<^verbatim>\<open>for\<close> loop over a fixed range is \<open>foldJs\<close> over the list of its indices.
    Arrays may have holes (\<open>jsGet\<close>, \<open>jsSet\<close>). Numbers are real numbers;
    \<^verbatim>\<open>Math.random()\<close> is the head of a stream of numbers in \<open>[0, 1)\<close> that every
    function using it takes and returns. An integer put into a text is printed
    in decimal (\<open>natToString\<close>). The lemmas turn loops into sums, iterations
    and array fills, and read a printed integer back.
  \<^item> \<open>Spin_Lattice\<close>: the grid (\<open>spin\<close>, \<open>initialSpins\<close>, \<open>gridSize\<close>), reading
    and writing a cell as the script does it (\<open>readSpin\<close>, \<open>writeSpin\<close>), the
    flip of one cell (\<open>flipSite\<close>, the statement of \<^verbatim>\<open>toggleSpin\<close> and of both
    engines), \<open>spinToValue\<close>, and the periodic index arithmetic (\<open>wrapIndex\<close>,
    \<open>neighbour\<close>, \<open>directions\<close>). The invariant \<open>wf_grid\<close> says that the grid has
    10 rows of 10 cells without holes; \<open>spinAt\<close> and \<open>flipAt\<close> are the abstract
    view used by the specifications.
  \<^item> \<open>Energy\<close>: \<open>deltaEnergy\<close> and \<open>calculateEnergy\<close>, specified by the Ising
    Hamiltonian \<open>hamiltonian J h g = - J \<Sum> s s' - h \<Sum> s\<close> over the bonds
    and the sites of the torus. The theorems: \<open>deltaEnergy\<close> is exactly the
    change of the Hamiltonian under the flip; it changes sign when the flip is
    made; it is bounded; \<open>calculateEnergy\<close> counts the bond term twice.
  \<^item> \<open>Metropolis\<close>: \<open>acceptUphill\<close>, \<open>metropolisTrial\<close> and
    \<open>runMetropolisHastings\<close>. The theorems: a run keeps the grid well formed and
    never throws; a trial flips the drawn site exactly when the Metropolis rule
    accepts; the move satisfies detailed balance with the Boltzmann weights of
    the Hamiltonian; the behaviour at temperature zero and below; the number of
    random numbers a run draws.
  \<^item> \<open>Wolff\<close>: \<open>bondAccept\<close>, \<open>tryNeighbour\<close>, the loop \<open>growCluster\<close> and
    \<open>runWolffCluster\<close>. The loop is a recursive function whose termination is
    proved: every round either shortens the stack or adds to the cluster a site
    that was not in it, and only sites of the grid are pushed. The theorems: a
    call returns and keeps the grid well formed; it flips one cluster that
    starts at the seed, has no site twice, is made of sites with the seed's
    spin and is connected inside itself; without bonds the cluster is the seed;
    at temperature zero with a positive coupling it is the whole component of
    the seed; at any other temperature it is the whole component when every
    number drawn is below \<open>1 - exp (- 2 J / (kT / 10))\<close> and the seed alone
    when none is; the number of random numbers drawn.
  \<^item> \<open>Wolff_Energy\<close>: the Hamiltonian across a call of \<^verbatim>\<open>runWolffCluster\<close>.
    \<open>cutBonds C\<close> are the bonds of the torus with one end in \<open>C\<close>. The
    theorems: a call changes the energy by \<open>2 J\<close> times the sum of the spin
    products over the bonds cut by the sites it changed, plus \<open>2 h\<close> times the
    seed's spin for each of these sites; at temperature zero with a positive
    coupling the bond energy falls by \<open>2 J\<close> for every bond cut, while the
    field energy, which the update never weighs, can rise. The lemma
    \<open>boundary_balance\<close> is the identity between the Boltzmann weights of a
    grid and of the grid with a set of sites negated on which the detailed
    balance of a cluster move rests; it holds for every set of sites.
  \<^item> \<open>Json\<close>: the values, the text written by \<^verbatim>\<open>JSON.stringify\<close> and the
    parser \<^verbatim>\<open>JSON.parse\<close>, from the language standard. The theorem: parsing
    the text of a value gives the value back.
  \<^item> \<open>History\<close>: \<open>deepCopy\<close>, the copy of the grid through its JSON text, and
    \<open>recordSnapshot\<close>, the push and the conditional shift of
    \<^verbatim>\<open>runSimulation\<close>. The theorems: the copy is the grid; the buffer is bounded
    by \<open>historySize\<close> and first-in first-out.
  \<^item> \<open>Observables\<close>: \<open>calculateMagnetization\<close>, \<open>calculateCorrelation\<close>,
    \<open>calculateTwoPointCorrelation\<close>, \<open>calculatePairCorrelation\<close>,
    \<open>calculateTemporalCorrelation\<close> and \<open>calculateStructureFactor\<close>, each with
    the value it returns on a well-formed grid as a sum over the sites, its
    bounds and its values on the aligned and the alternating lattice.
  \<^item> \<open>Simulation\<close>: the record of the global variables and of what the script
    keeps in the page, \<open>createGrid\<close>, \<open>adjustGridSize\<close> and \<open>updateGrid\<close>,
    \<open>toggleSpin\<close>, \<open>runSimulation\<close>, \<open>updateResults\<close>, \<open>exportData\<close>,
    \<open>sanitizeText\<close>, the bodies of the handlers of the controls,
    \<open>startSimulation\<close> and \<open>stopSimulation\<close> with a model of the browser's
    interval timers. The invariant \<open>pageInv\<close> says that the grid and the
    history are well formed, that the cells, the labels and the size of the
    grid element show the state, that the results shown are well typed
    (\<open>wf_results\<close>), and that the only timer that can run is the one
    \<^verbatim>\<open>simulationInterval\<close> names; every operation keeps it. A step runs the
    engine the algorithm names, with the parameters of the state.
  \<^item> \<open>Page_Events\<close>: the events of the page (\<open>event\<close>, \<open>enabled\<close>, \<open>handle\<close>),
    the set \<open>reachable\<close> of states they lead to after \<open>loadPage\<close>, and
    \<open>runEvents\<close> for a finite sequence of events. The lemmas: the invariant
    holds in every reachable state, no handler throws there, and the ticks of a
    running timer are steps of the simulation.
  \<^item> \<open>Page_Output\<close>: the texts of the results (\<open>resultsText\<close>), the labels
    (\<open>labelText\<close>) and the exported file (\<open>dataJson\<close>, \<open>exportFile\<close>, and
    \<open>exportClick\<close> for the whole function \<^verbatim>\<open>exportData\<close>), with the printers
    of numbers as parameters. The theorems: the markup of the results reads
    back as the intended lines; the content of the exported file parses back
    to the exported data when the text of every number denotes it.
  \<^item> This theory: the properties of the reachable states, which rest on all of
    the above: safety, progress of a started simulation, and that the page
    shows the state.

  \<^bold>\<open>Conventions.\<close> A definition with the name of a function of the script
  translates that function; the global variables it reads are its parameters
  and the ones it writes are its result. Lemmas tagged \<open>on_wf\<close> state what a
  function returns on a well-formed grid, lemmas tagged \<open>wf_keeps\<close> that an
  operation keeps an invariant. Every property with a hypothesis is followed by
  an instance at a concrete input.

  \<^bold>\<open>Bounds.\<close> The side of the grid is the constant 10 of the script and the
  history bound the constant 100; the proofs use only that the side is
  positive, at least 3 and even, except where a concrete value is evaluated. No
  fuel is used in the program: the loops over index ranges are folds, and the
  one \<^verbatim>\<open>while\<close> loop is a total function. The parser of theory \<open>Json\<close> takes
  fuel, which \<open>parse\<close> sets to the length of the text plus one; this is
  proved to be enough for every text \<open>stringify\<close> writes. The random stream is infinite, so a run can always
  draw. Sequences of events are finite lists of any length. Integers are
  printed in decimal, as JavaScript prints them below \<open>10\<^sup>2\<^sup>1\<close>: the counters
  printed are below 10 and a width in pixels is a 32-bit integer.

  \<^bold>\<open>Not modelled.\<close> The rounding of floating-point arithmetic: numbers are
  reals, and only the division by a zero temperature is given its IEEE result
  by hand (in \<open>acceptUphill\<close> and \<open>bondAccept\<close>); a negative zero and \<^verbatim>\<open>NaN\<close>
  parameters are left out. For the same reason the text of a number
  (\<^verbatim>\<open>math.format\<close>, \<^verbatim>\<open>toString\<close>) is a parameter of the functions that write
  text, and the conversion \<^verbatim>\<open>Number(event.target.value)\<close> of a slider's text
  is taken as done: an input event carries the number. The browser beyond what
  the script reads and writes: the width of the grid element changes with
  resize events only, markup read back from \<^verbatim>\<open>innerHTML\<close> is the markup
  written, and the download of the exported file is its name, type and
  content. Of JSON, escapes of characters above 255 and objects whose keys are
  not distinct names. The state the globals are left
  in when a handler throws: the model of a handler that throws is just the
  error, and the theorems show that no handler throws in a reachable state.
\<close>

section \<open>Reachable states\<close>

lemma timers_at_most_one:
  assumes "pageInv p"
  shows "card (timers p) \<le> 1"
proof (cases "simulationInterval p")
  case None
  with assms have "timers p = {}"
    by (auto simp: pageInv_def)
  then show ?thesis by simp
next
  case (Some i)
  with assms have "timers p \<subseteq> {i}"
    by (auto simp: pageInv_def)
  then show ?thesis
    using card_mono [of "{i}" "timers p"] by simp
qed

text \<open>
  C4. In every state the page can reach, whatever the clicks, inputs and
  ticks and whatever the random numbers, the grid is well formed, the cells of
  the page show the grid, the history holds at most \<^verbatim>\<open>historySize\<close> well-formed
  grids, and at most one timer is running.
\<close>

theorem reachable_states_are_safe:
  assumes "st \<in> reachable r0"
  shows "wf_grid (spins (fst st)) \<and> cells (fst st) = gridView (spins (fst st)) \<and>
         length (spinHistory (fst st)) \<le> historySize \<and>
         list_all wf_grid (spinHistory (fst st)) \<and> card (timers (fst st)) \<le> 1"
  using reachable_pageInv [OF assms] timers_at_most_one [of "fst st"]
  by (simp add: pageInv_def wf_history_def)

theorem reachable_states_are_safe_witness:
  "wf_grid (spins (fst (loadedPage 400, sconst (mkRand 0)))) \<and>
   cells (fst (loadedPage 400, sconst (mkRand 0))) = gridView (spins (fst (loadedPage 400, sconst (mkRand 0)))) \<and>
   length (spinHistory (fst (loadedPage 400, sconst (mkRand 0)))) \<le> historySize \<and>
   list_all wf_grid (spinHistory (fst (loadedPage 400, sconst (mkRand 0)))) \<and>
   card (timers (fst (loadedPage 400, sconst (mkRand 0)))) \<le> 1"
  using reachable_states_are_safe [OF reachable_loaded, of 400 "sconst (mkRand 0)"] .

text \<open>
  C15. No handler throws in a reachable state: every finite sequence of
  events, delivered from a reachable state, is handled to its end and leaves a
  reachable state.
\<close>

theorem every_trace_is_handled:
  assumes "st \<in> reachable r0"
  shows "\<exists>st'. runEvents es st = Inr st' \<and> st' \<in> reachable r0"
  using assms by (rule reachable_runEvents)

theorem every_trace_is_handled_witness:
  "\<exists>st'. runEvents [StartClick, TimerTick 1, CellClick 3 4, ExportClick, StopClick]
           (loadedPage 400, sconst (mkRand 0)) = Inr st' \<and>
         st' \<in> reachable (sconst (mkRand 0))"
  using every_trace_is_handled [OF reachable_loaded] .

text \<open>
  After a click on the stop button no timer is running, so no step of
  the simulation can follow until the start button is clicked.
\<close>

theorem stopped_simulation_is_idle:
  assumes "st \<in> reachable r0"
  shows "\<exists>st'. handle StopClick st = Inr st' \<and> (\<forall>i. \<not> enabled (TimerTick i) (fst st'))"
  using timers_stopSimulation [OF reachable_pageInv [OF assms]]
  by (cases st) simp

theorem stopped_simulation_is_idle_witness:
  "\<exists>st'. handle StopClick (loadedPage 400, sconst (mkRand 0)) = Inr st' \<and>
         (\<forall>i. \<not> enabled (TimerTick i) (fst st'))"
  using stopped_simulation_is_idle [OF reachable_loaded, of 400 "sconst (mkRand 0)"] .

section \<open>Progress of the simulation\<close>

text \<open>
  C12. Once the start button is clicked the simulation keeps stepping: as long
  as neither button is clicked again, every tick of the new timer is delivered
  and runs a whole step, whatever clicks on cells, inputs, exports and resizes
  come between, and the timer is still running afterwards. So the history grows
  by one grid per tick until it is full: after \<open>k\<close> ticks it holds
  \<open>min historySize (n + k)\<close> grids.
\<close>

theorem started_simulation_keeps_stepping:
  assumes "st \<in> reachable r0" and "StartClick \<notin> set es" and "StopClick \<notin> set es"
  shows "\<exists>st'. runEvents (StartClick # es) st = Inr st' \<and> st' \<in> reachable r0 \<and>
           enabled (TimerTick (nextTimer (fst st))) (fst st') \<and>
           length (spinHistory (fst st')) =
             min historySize
               (length (spinHistory (fst st)) + count_list es (TimerTick (nextTimer (fst st))))"
  using runEvents_started [OF reachable_pageInv [OF assms(1)] assms(2,3)]
    reachable_runEvents [OF assms(1), of "StartClick # es"]
  by (auto simp: running_def)

theorem started_simulation_keeps_stepping_witness:
  "\<exists>st'. runEvents (StartClick # [TimerTick 1, CellClick 3 4, TimerTick 1, TimerTick 7, ExportClick])
           (loadedPage 400, sconst (mkRand 0)) = Inr st' \<and>
         st' \<in> reachable (sconst (mkRand 0)) \<and> enabled (TimerTick 1) (fst st') \<and>
         length (spinHistory (fst st')) = 2"
  using started_simulation_keeps_stepping [OF reachable_loaded,
      of "[TimerTick 1, CellClick 3 4, TimerTick 1, TimerTick 7, ExportClick]" 400 "sconst (mkRand 0)"]
  by (simp add: historySize_def numeral_2_eq_2)

section \<open>What the page shows\<close>

text \<open>
  C19. In every reachable state the page shows the state: the height of the
  grid element is its width in pixels, so the grid is drawn as a square; each
  label of a slider, once written, holds the sanitized text of the current
  value of its parameter, never of an older one; and the results shown, if any,
  are well typed, so their texts have the lines of theory \<open>Page_Output\<close>.
\<close>

theorem page_shows_state:
  assumes "st \<in> reachable r0"
  shows "cssPixels (gridHeight (fst st)) = Some (clientWidth (fst st)) \<and>
         map_option (labelText toString) (temperatureValue (fst st)) \<in>
           {None, Some (sanitizeText (toString (temperature (fst st))))} \<and>
         map_option (labelText toString) (magneticFieldValue (fst st)) \<in>
           {None, Some (sanitizeText (toString (magneticField (fst st))))} \<and>
         map_option (labelText toString) (interactionStrengthValue (fst st)) \<in>
           {None, Some (sanitizeText (toString (interactionStrength (fst st))))} \<and>
         (\<forall>res. shown (fst st) = Some res \<longrightarrow> wf_results res)"
  using reachable_pageInv [OF assms]
  by (auto simp: pageInv_def labelText_def)

theorem page_shows_state_witness:
  "cssPixels (gridHeight (temperatureInput 30 (loadedPage 400))) = Some 400 \<and>
   map_option (labelText (\<lambda>x. ''<30>'')) (temperatureValue (temperatureInput 30 (loadedPage 400))) =
     Some ''&lt;30&gt;'' \<and>
   magneticFieldValue (temperatureInput 30 (loadedPage 400)) = None \<and>
   shown (temperatureInput 30 (loadedPage 400)) = None"
  using page_shows_state [OF reachable.event [OF reachable_loaded, of "TemperatureInput 30" 400
        "sconst (mkRand 0)" "(temperatureInput 30 (loadedPage 400), sconst (mkRand 0))"],
      of "\<lambda>x. ''<30>''"]
  by (simp add: temperatureInput_def sanitizeText_def)

end
